theory Spec2Isabelle
  imports Main "HOL-Library.Word"
begin

unbundle bit_operations_syntax

section \<open>Machine values\<close>

text \<open>
  A C \<open>double\<close> is its IEEE-754 binary64 bit pattern: \<open>memcpy\<close> moves the pattern
  unchanged, and the comparisons of the C language are functions of the two patterns.
  Arithmetic that rounds (\<open>+\<close>, \<open>-\<close>, \<open>*\<close>, \<open>/\<close>, the conversion of an unsigned integer)
  is not re-implemented here: it is taken from the record \<open>cenv\<close> below.
  A \<open>uint32_t\<close> count is a \<open>nat\<close>; where the source computes in \<open>uint32_t\<close> the
  reduction \<open>mod 2 ^ 32\<close> is written out.
\<close>

type_synonym double = "64 word"
type_synonym byte = "8 word"

definition d_zero :: double where
  "d_zero = 0"

definition d_one :: double where
  "d_one = 0x3FF0000000000000"

text \<open>The magnitude (exponent and mantissa) of a pattern, as an integer. A pattern is a
  NaN when its exponent is all ones and its mantissa is not zero, that is when the
  magnitude is above that of infinity. For patterns that are not NaN the order of the
  values is the order of the signed magnitudes, and the two zeros share the key 0.\<close>

definition dbl_mag :: "double \<Rightarrow> int" where
  "dbl_mag d = uint d mod 2 ^ 63"

definition dbl_is_nan :: "double \<Rightarrow> bool" where
  "dbl_is_nan d \<longleftrightarrow> dbl_mag d > 0x7FF0000000000000"

definition dbl_key :: "double \<Rightarrow> int" where
  "dbl_key d = (if uint d \<ge> 2 ^ 63 then - dbl_mag d else dbl_mag d)"

definition dbl_lt :: "double \<Rightarrow> double \<Rightarrow> bool" where
  "dbl_lt a b \<longleftrightarrow> \<not> dbl_is_nan a \<and> \<not> dbl_is_nan b \<and> dbl_key a < dbl_key b"

definition dbl_le :: "double \<Rightarrow> double \<Rightarrow> bool" where
  "dbl_le a b \<longleftrightarrow> \<not> dbl_is_nan a \<and> \<not> dbl_is_nan b \<and> dbl_key a \<le> dbl_key b"

definition dbl_eq :: "double \<Rightarrow> double \<Rightarrow> bool" where
  "dbl_eq a b \<longleftrightarrow> \<not> dbl_is_nan a \<and> \<not> dbl_is_nan b \<and> dbl_key a = dbl_key b"

definition u32_add :: "nat \<Rightarrow> nat \<Rightarrow> nat" where
  "u32_add a b = (a + b) mod 2 ^ 32"

definition u32_sub :: "nat \<Rightarrow> nat \<Rightarrow> nat" where
  "u32_sub a b = (a mod 2 ^ 32 + 2 ^ 32 - b mod 2 ^ 32) mod 2 ^ 32"

definition u32_mul :: "nat \<Rightarrow> nat \<Rightarrow> nat" where
  "u32_mul a b = (a * b) mod 2 ^ 32"

text \<open>The rounding operations of the machine and the content of freshly allocated
  memory (\<open>lwalloc\<close> does not initialise it).\<close>

record cenv =
  fadd :: "double \<Rightarrow> double \<Rightarrow> double"
  fsub :: "double \<Rightarrow> double \<Rightarrow> double"
  fmul :: "double \<Rightarrow> double \<Rightarrow> double"
  fdiv :: "double \<Rightarrow> double \<Rightarrow> double"
  u32_to_double :: "nat \<Rightarrow> double"
  lwalloc_fill :: double

text \<open>Failures: \<open>lwerror\<close> (which does not return under the handlers of the library
  and of the database), a failed \<open>assert\<close>, and a read past the end of a buffer (undefined
  in C; the model reports it).\<close>

datatype lwerr = Lwerror string | AssertFailed string | BufferOverrun

definition bindE :: "'e + 'a \<Rightarrow> ('a \<Rightarrow> 'e + 'b) \<Rightarrow> 'e + 'b" where
  "bindE m f = (case m of Inl e \<Rightarrow> Inl e | Inr x \<Rightarrow> f x)"

section \<open>Geometry model (liblwgeom)\<close>

text \<open>
  Modelled from the spec: the flag macros of \<open>liblwgeom.h\<close> are not among the sources.
  The spec gives the flag set as Z, M, BBOX, GEODETIC and SOLID; the first four are the
  core flags, everything else needs the extended flag word.
\<close>

record lwflags =
  FLAGS_GET_Z :: bool
  FLAGS_GET_M :: bool
  FLAGS_GET_BBOX :: bool
  FLAGS_GET_GEODETIC :: bool
  FLAGS_GET_SOLID :: bool

definition lwflags_of :: "bool \<Rightarrow> bool \<Rightarrow> bool \<Rightarrow> lwflags" where
  "lwflags_of hasz hasm geodetic =
     \<lparr>FLAGS_GET_Z = hasz, FLAGS_GET_M = hasm, FLAGS_GET_BBOX = False,
      FLAGS_GET_GEODETIC = geodetic, FLAGS_GET_SOLID = False\<rparr>"

definition flags_zero :: lwflags where
  "flags_zero = lwflags_of False False False"

definition FLAGS_NDIMS :: "lwflags \<Rightarrow> nat" where
  "FLAGS_NDIMS f = 2 + (if FLAGS_GET_Z f then 1 else 0) + (if FLAGS_GET_M f then 1 else 0)"

definition FLAGS_GET_ZM :: "lwflags \<Rightarrow> nat" where
  "FLAGS_GET_ZM f = (if FLAGS_GET_M f then 1 else 0) + (if FLAGS_GET_Z f then 2 else 0)"

text \<open>Modelled from the spec: \<open>SRID_UNKNOWN\<close> is a macro of \<open>liblwgeom.h\<close>, not among
  the sources; \<open>gserialized2_get_srid\<close> and \<open>gserialized2_set_srid\<close> say "0 is our internal
  unknown value".\<close>

definition SRID_UNKNOWN :: int where
  "SRID_UNKNOWN = 0"

text \<open>
  Modelled from the spec: the structs \<open>POINTARRAY\<close>, \<open>GBOX\<close>, \<open>POINT4D\<close>, \<open>LWPOINT\<close>,
  \<open>LWLINE\<close>, \<open>LWPOLY\<close> and \<open>LWNURBSCURVE\<close> are declared in \<open>liblwgeom.h\<close>, not among the
  sources; their fields are those the sources read and write. A \<open>POINTARRAY\<close> is the
  count, the dimension flags and the ordinates, flat; a pointer that may be \<open>NULL\<close> is an
  option.
\<close>

record POINTARRAY =
  npoints :: nat
  pa_flags :: lwflags
  serialized_pointlist :: "double list"

definition ptarray_wf :: "POINTARRAY \<Rightarrow> bool" where
  "ptarray_wf pa \<longleftrightarrow>
     npoints pa < 2 ^ 32 \<and>
     length (serialized_pointlist pa) = npoints pa * FLAGS_NDIMS (pa_flags pa)"

record GBOX =
  gb_flags :: lwflags
  xmin :: double
  xmax :: double
  ymin :: double
  ymax :: double
  zmin :: double
  zmax :: double
  mmin :: double
  mmax :: double

record POINT4D =
  p_x :: double
  p_y :: double
  p_z :: double
  p_m :: double

record LWPOINT =
  pt_bbox :: "GBOX option"
  point :: POINTARRAY
  pt_srid :: int
  pt_flags :: lwflags

record LWLINE =
  ln_bbox :: "GBOX option"
  points :: POINTARRAY
  ln_srid :: int
  ln_flags :: lwflags

record LWPOLY =
  py_bbox :: "GBOX option"
  rings :: "POINTARRAY list"
  py_srid :: int
  py_flags :: lwflags

record LWNURBSCURVE =
  nc_bbox :: "GBOX option"
  nc_flags :: lwflags
  nc_srid :: int
  nc_degree :: nat
  nc_points :: "POINTARRAY option"
  nc_weights :: "double list option"
  nc_nweights :: nat
  nc_knots :: "double list option"
  nc_nknots :: nat


text \<open>
  Modelled from the spec: the type numbers are macros of \<open>liblwgeom.h\<close>, which is not
  among the sources. The variants are those of the spec's data model; the numbers written
  into a payload are the library's (1 to 15), with 16 for the NURBS curve.
\<close>

datatype lwtype =
    POINTTYPE | LINETYPE | POLYGONTYPE | MULTIPOINTTYPE | MULTILINETYPE | MULTIPOLYGONTYPE
  | COLLECTIONTYPE | CIRCSTRINGTYPE | COMPOUNDTYPE | CURVEPOLYTYPE | MULTICURVETYPE
  | MULTISURFACETYPE | POLYHEDRALSURFACETYPE | TRIANGLETYPE | TINTYPE | NURBSCURVETYPE

fun lwtype_code :: "lwtype \<Rightarrow> nat" where
  "lwtype_code POINTTYPE = 1"
| "lwtype_code LINETYPE = 2"
| "lwtype_code POLYGONTYPE = 3"
| "lwtype_code MULTIPOINTTYPE = 4"
| "lwtype_code MULTILINETYPE = 5"
| "lwtype_code MULTIPOLYGONTYPE = 6"
| "lwtype_code COLLECTIONTYPE = 7"
| "lwtype_code CIRCSTRINGTYPE = 8"
| "lwtype_code COMPOUNDTYPE = 9"
| "lwtype_code CURVEPOLYTYPE = 10"
| "lwtype_code MULTICURVETYPE = 11"
| "lwtype_code MULTISURFACETYPE = 12"
| "lwtype_code POLYHEDRALSURFACETYPE = 13"
| "lwtype_code TRIANGLETYPE = 14"
| "lwtype_code TINTYPE = 15"
| "lwtype_code NURBSCURVETYPE = 16"

definition all_lwtypes :: "lwtype list" where
  "all_lwtypes = [POINTTYPE, LINETYPE, POLYGONTYPE, MULTIPOINTTYPE, MULTILINETYPE,
     MULTIPOLYGONTYPE, COLLECTIONTYPE, CIRCSTRINGTYPE, COMPOUNDTYPE, CURVEPOLYTYPE,
     MULTICURVETYPE, MULTISURFACETYPE, POLYHEDRALSURFACETYPE, TRIANGLETYPE, TINTYPE,
     NURBSCURVETYPE]"

definition lwtype_of_code :: "nat \<Rightarrow> lwtype option" where
  "lwtype_of_code n = find (\<lambda>t. lwtype_code t = n) all_lwtypes"

text \<open>Modelled from the spec: \<open>lwtype_is_collection\<close> is not among the sources; the
  collections are the variants that hold an ordered sequence of sub-geometries.\<close>

fun lwtype_is_collection :: "lwtype \<Rightarrow> bool" where
  "lwtype_is_collection MULTIPOINTTYPE = True"
| "lwtype_is_collection MULTILINETYPE = True"
| "lwtype_is_collection MULTIPOLYGONTYPE = True"
| "lwtype_is_collection COLLECTIONTYPE = True"
| "lwtype_is_collection CURVEPOLYTYPE = True"
| "lwtype_is_collection COMPOUNDTYPE = True"
| "lwtype_is_collection MULTICURVETYPE = True"
| "lwtype_is_collection MULTISURFACETYPE = True"
| "lwtype_is_collection POLYHEDRALSURFACETYPE = True"
| "lwtype_is_collection TINTYPE = True"
| "lwtype_is_collection _ = False"

text \<open>
  Modelled from the spec: \<open>LWGEOM\<close> is declared in \<open>liblwgeom.h\<close>, not among the sources.
  The structs of the library share the fields \<open>bbox\<close>, \<open>srid\<close>, \<open>flags\<close>
  and \<open>type\<close>; the tag of the variant is the \<open>type\<close> field. \<open>LWLINE\<close>,
  \<open>LWCIRCSTRING\<close> and \<open>LWTRIANGLE\<close> have the same layout. A collection carries its type,
  and its \<open>ngeoms\<close> is the length of \<open>geoms\<close> (\<open>nrings\<close> that of \<open>rings\<close>).
\<close>

datatype LWGEOM =
    Point LWPOINT
  | Line LWLINE
  | CircString LWLINE
  | Triangle LWLINE
  | Poly LWPOLY
  | Collection (col_type: lwtype) (col_bbox: "GBOX option") (col_srid: int) (col_flags: lwflags)
      (geoms: "LWGEOM list")
  | Nurbs LWNURBSCURVE

fun geom_type :: "LWGEOM \<Rightarrow> lwtype" where
  "geom_type (Point _) = POINTTYPE"
| "geom_type (Line _) = LINETYPE"
| "geom_type (CircString _) = CIRCSTRINGTYPE"
| "geom_type (Triangle _) = TRIANGLETYPE"
| "geom_type (Poly _) = POLYGONTYPE"
| "geom_type (Collection t _ _ _ _) = t"
| "geom_type (Nurbs _) = NURBSCURVETYPE"

fun geom_flags :: "LWGEOM \<Rightarrow> lwflags" where
  "geom_flags (Point g) = pt_flags g"
| "geom_flags (Line g) = ln_flags g"
| "geom_flags (CircString g) = ln_flags g"
| "geom_flags (Triangle g) = ln_flags g"
| "geom_flags (Poly g) = py_flags g"
| "geom_flags (Collection _ _ _ f _) = f"
| "geom_flags (Nurbs g) = nc_flags g"

fun geom_srid :: "LWGEOM \<Rightarrow> int" where
  "geom_srid (Point g) = pt_srid g"
| "geom_srid (Line g) = ln_srid g"
| "geom_srid (CircString g) = ln_srid g"
| "geom_srid (Triangle g) = ln_srid g"
| "geom_srid (Poly g) = py_srid g"
| "geom_srid (Collection _ _ s _ _) = s"
| "geom_srid (Nurbs g) = nc_srid g"

fun geom_bbox :: "LWGEOM \<Rightarrow> GBOX option" where
  "geom_bbox (Point g) = pt_bbox g"
| "geom_bbox (Line g) = ln_bbox g"
| "geom_bbox (CircString g) = ln_bbox g"
| "geom_bbox (Triangle g) = ln_bbox g"
| "geom_bbox (Poly g) = py_bbox g"
| "geom_bbox (Collection _ b _ _ _) = b"
| "geom_bbox (Nurbs g) = nc_bbox g"

fun set_geom_flags :: "lwflags \<Rightarrow> LWGEOM \<Rightarrow> LWGEOM" where
  "set_geom_flags f (Point g) = Point (g\<lparr>pt_flags := f\<rparr>)"
| "set_geom_flags f (Line g) = Line (g\<lparr>ln_flags := f\<rparr>)"
| "set_geom_flags f (CircString g) = CircString (g\<lparr>ln_flags := f\<rparr>)"
| "set_geom_flags f (Triangle g) = Triangle (g\<lparr>ln_flags := f\<rparr>)"
| "set_geom_flags f (Poly g) = Poly (g\<lparr>py_flags := f\<rparr>)"
| "set_geom_flags f (Collection t b s _ gs) = Collection t b s f gs"
| "set_geom_flags f (Nurbs g) = Nurbs (g\<lparr>nc_flags := f\<rparr>)"

fun set_geom_bbox :: "GBOX option \<Rightarrow> LWGEOM \<Rightarrow> LWGEOM" where
  "set_geom_bbox b (Point g) = Point (g\<lparr>pt_bbox := b\<rparr>)"
| "set_geom_bbox b (Line g) = Line (g\<lparr>ln_bbox := b\<rparr>)"
| "set_geom_bbox b (CircString g) = CircString (g\<lparr>ln_bbox := b\<rparr>)"
| "set_geom_bbox b (Triangle g) = Triangle (g\<lparr>ln_bbox := b\<rparr>)"
| "set_geom_bbox b (Poly g) = Poly (g\<lparr>py_bbox := b\<rparr>)"
| "set_geom_bbox b (Collection t _ s f gs) = Collection t b s f gs"
| "set_geom_bbox b (Nurbs g) = Nurbs (g\<lparr>nc_bbox := b\<rparr>)"

text \<open>
  Modelled from the spec: the point-array and point helpers of the library
  (\<open>ptarray_construct\<close>, \<open>ptarray_construct_empty\<close>, \<open>ptarray_append_point\<close>,
  \<open>getPoint4d_p\<close>, \<open>lwpoint_construct\<close>, \<open>lwpoint_construct_empty\<close>) are not among
  the sources. Point access yields a 4D point with z and m zeroed when absent; an appended
  point is stored in the dimensions of the array; a constructed point takes its Z and M
  flags from its point array.
\<close>

definition ptarray_construct_empty :: "bool \<Rightarrow> bool \<Rightarrow> POINTARRAY" where
  "ptarray_construct_empty hasz hasm =
     \<lparr>npoints = 0, pa_flags = lwflags_of hasz hasm False, serialized_pointlist = []\<rparr>"

definition getPoint_internal :: "POINTARRAY \<Rightarrow> nat \<Rightarrow> double list" where
  "getPoint_internal pa n = drop (n * FLAGS_NDIMS (pa_flags pa)) (serialized_pointlist pa)"

definition getPoint4d_p :: "POINTARRAY \<Rightarrow> nat \<Rightarrow> POINT4D" where
  "getPoint4d_p pa n =
     (let ptr = getPoint_internal pa n;
          hasz = FLAGS_GET_Z (pa_flags pa);
          hasm = FLAGS_GET_M (pa_flags pa)
      in \<lparr>p_x = ptr ! 0, p_y = ptr ! 1,
          p_z = (if hasz then ptr ! 2 else d_zero),
          p_m = (if hasm then (if hasz then ptr ! 3 else ptr ! 2) else d_zero)\<rparr>)"

definition ptarray_append_point :: "POINTARRAY \<Rightarrow> POINT4D \<Rightarrow> POINTARRAY" where
  "ptarray_append_point pa pt =
     pa\<lparr>npoints := npoints pa + 1,
        serialized_pointlist := serialized_pointlist pa @
          [p_x pt, p_y pt] @ (if FLAGS_GET_Z (pa_flags pa) then [p_z pt] else [])
                           @ (if FLAGS_GET_M (pa_flags pa) then [p_m pt] else [])\<rparr>"

definition lwpoint_construct :: "int \<Rightarrow> GBOX option \<Rightarrow> POINTARRAY \<Rightarrow> LWPOINT" where
  "lwpoint_construct srid bbox pa =
     \<lparr>pt_bbox = bbox, point = pa, pt_srid = srid,
      pt_flags = (lwflags_of (FLAGS_GET_Z (pa_flags pa)) (FLAGS_GET_M (pa_flags pa)) False)
                   \<lparr>FLAGS_GET_BBOX := (bbox \<noteq> None)\<rparr>\<rparr>"

definition lwpoint_construct_empty :: "int \<Rightarrow> bool \<Rightarrow> bool \<Rightarrow> LWPOINT" where
  "lwpoint_construct_empty srid hasz hasm =
     \<lparr>pt_bbox = None, point = ptarray_construct_empty hasz hasm, pt_srid = srid,
      pt_flags = lwflags_of hasz hasm False\<rparr>"

definition ptarray_point_size :: "POINTARRAY \<Rightarrow> nat" where
  "ptarray_point_size pa = 8 * FLAGS_NDIMS (pa_flags pa)"

section \<open>NURBS engine (lwgeom\_nurbs.c)\<close>

text \<open>
  \<open>lwnurbscurve_construct\<close>. A \<open>NULL\<close> pointer argument is \<open>None\<close>. The result is
  \<open>Inr None\<close> for the \<open>return NULL\<close>, \<open>Inl\<close> for \<open>lwerror\<close> (which does not return
  under the handlers of the library and of the database), \<open>Inr (Some c)\<close> for the
  curve. \<open>memcpy\<close> of \<open>n\<close> doubles is \<open>take n\<close>.
\<close>

definition lwnurbscurve_construct ::
  "int \<Rightarrow> GBOX option \<Rightarrow> nat \<Rightarrow> POINTARRAY option \<Rightarrow> double list option \<Rightarrow>
   double list option \<Rightarrow> nat \<Rightarrow> nat \<Rightarrow> lwerr + LWNURBSCURVE option" where
  "lwnurbscurve_construct srid bbox degree pts wts kts nweights nknots =
     (if degree < 1 \<or> degree > 10 then Inr None
      else if pts \<noteq> None \<and> wts \<noteq> None \<and> nweights \<noteq> npoints (the pts)
        then Inl (Lwerror ''NURBS: nweights must equal number of control points'')
      else if pts \<noteq> None \<and> kts \<noteq> None
              \<and> nknots \<noteq> u32_add (u32_add (npoints (the pts)) degree) 1
        then Inl (Lwerror ''NURBS: nknots must equal npoints + degree + 1'')
      else Inr (Some
        \<lparr>nc_bbox = bbox,
         nc_flags = (case pts of Some pa \<Rightarrow> pa_flags pa | None \<Rightarrow> flags_zero),
         nc_srid = srid,
         nc_degree = degree,
         nc_points = pts,
         nc_weights = (case wts of
                         Some ws \<Rightarrow> if nweights > 0 then Some (take nweights ws) else None
                       | None \<Rightarrow> None),
         nc_nweights = nweights,
         nc_knots = (case kts of
                       Some ks \<Rightarrow> if nknots > 0 then Some (take nknots ks) else None
                     | None \<Rightarrow> None),
         nc_nknots = nknots\<rparr>))"

text \<open>\<open>lwnurbscurve_construct_empty\<close>.\<close>

definition lwnurbscurve_construct_empty :: "int \<Rightarrow> bool \<Rightarrow> bool \<Rightarrow> LWNURBSCURVE" where
  "lwnurbscurve_construct_empty srid hasz hasm =
     \<lparr>nc_bbox = None, nc_flags = lwflags_of hasz hasm False, nc_srid = srid, nc_degree = 1,
      nc_points = Some (ptarray_construct_empty hasz hasm),
      nc_weights = None, nc_nweights = 0, nc_knots = None, nc_nknots = 0\<rparr>"

text \<open>
  \<open>lwnurbscurve_generate_uniform_knots\<close>. The three loops write into the freshly
  allocated array; \<open>for (i = lo; i < hi; i++) a[i] = f(i)\<close> is \<open>store_loop\<close>.
\<close>

definition store_loop :: "nat \<Rightarrow> nat \<Rightarrow> (nat \<Rightarrow> nat) \<Rightarrow> (nat \<Rightarrow> 'a) \<Rightarrow> 'a list \<Rightarrow> 'a list" where
  "store_loop lo hi idx f xs = fold (\<lambda>i a. a[idx i := f i]) [lo..<hi] xs"

definition lwnurbscurve_generate_uniform_knots ::
  "cenv \<Rightarrow> nat \<Rightarrow> nat \<Rightarrow> double list option" where
  "lwnurbscurve_generate_uniform_knots env degree np =
     (if degree = 0 \<or> np < u32_add degree 1 then None
      else
        let nknots = u32_add (u32_add np degree) 1;
            k0 = replicate nknots (lwalloc_fill env);
            k1 = store_loop 0 (degree + 1) (\<lambda>i. i) (\<lambda>i. d_zero) k0;
            k2 = store_loop (u32_sub (u32_sub nknots degree) 1) nknots (\<lambda>i. i) (\<lambda>i. d_one) k1;
            k3 = (if nknots > u32_mul 2 (u32_add degree 1) then
                    let internal_knots = u32_sub nknots (u32_mul 2 (u32_add degree 1)) in
                    store_loop 0 internal_knots
                      (\<lambda>i. u32_add (u32_add degree 1) i)
                      (\<lambda>i. fdiv env (u32_to_double env (u32_add i 1))
                                    (u32_to_double env (u32_add internal_knots 1))) k2
                  else k2)
        in Some k3)"

text \<open>\<open>lwnurbscurve_get_knots_for_wkb\<close>: the stored vector when there is one, the
  synthesised one otherwise.\<close>

definition lwnurbscurve_get_knots_for_wkb ::
  "cenv \<Rightarrow> LWNURBSCURVE option \<Rightarrow> double list option" where
  "lwnurbscurve_get_knots_for_wkb env curve =
     (case curve of
        None \<Rightarrow> None
      | Some c \<Rightarrow>
          (case nc_points c of
             None \<Rightarrow> None
           | Some pa \<Rightarrow>
               (if nc_knots c \<noteq> None \<and> nc_nknots c > 0
                then Some (take (nc_nknots c) (the (nc_knots c)))
                else lwnurbscurve_generate_uniform_knots env (nc_degree c) (npoints pa))))"

text \<open>
  \<open>lwnurbscurve_basis_function\<close> (Cox-de Boor). The indices are \<open>int\<close> in the source; the
  callers pass a control-point index and the degree, which are not negative.
\<close>

fun lwnurbscurve_basis_function ::
  "cenv \<Rightarrow> nat \<Rightarrow> nat \<Rightarrow> double \<Rightarrow> double list \<Rightarrow> nat \<Rightarrow> double" where
  "lwnurbscurve_basis_function env i 0 u knots nknots =
     (if i + 0 + 1 \<ge> nknots then d_zero
      else if dbl_le (knots ! i) u \<and> dbl_lt u (knots ! (i + 1)) then d_one else d_zero)"
| "lwnurbscurve_basis_function env i (Suc q) u knots nknots =
     (let p = Suc q in
      if i + p + 1 \<ge> nknots then d_zero
      else
        let denom1 = fsub env (knots ! (i + p)) (knots ! i);
            term1 = (if \<not> dbl_eq denom1 d_zero
                     then fmul env (fdiv env (fsub env u (knots ! i)) denom1)
                            (lwnurbscurve_basis_function env i q u knots nknots)
                     else d_zero);
            denom2 = fsub env (knots ! (i + p + 1)) (knots ! (i + 1));
            term2 = (if \<not> dbl_eq denom2 d_zero
                     then fmul env (fdiv env (fsub env (knots ! (i + p + 1)) u) denom2)
                            (lwnurbscurve_basis_function env (i + 1) q u knots nknots)
                     else d_zero)
        in fadd env term1 term2)"

text \<open>The accumulators of the evaluation loop: \<open>x\<close>, \<open>y\<close>, \<open>z\<close>, \<open>m\<close> and \<open>denom\<close>.\<close>

record eval_acc =
  acc_x :: double
  acc_y :: double
  acc_z :: double
  acc_m :: double
  acc_denom :: double

definition eval_step ::
  "cenv \<Rightarrow> LWNURBSCURVE \<Rightarrow> POINTARRAY \<Rightarrow> bool \<Rightarrow> bool \<Rightarrow> double \<Rightarrow> double list \<Rightarrow>
   nat \<Rightarrow> eval_acc \<Rightarrow> eval_acc" where
  "eval_step env c pa hasz hasm t knots i a =
     (let ctrl_pt = getPoint4d_p pa i;
          N = lwnurbscurve_basis_function env i (nc_degree c) t knots (length knots);
          w = (case nc_weights c of
                 Some ws \<Rightarrow> if i < nc_nweights c then ws ! i else d_one
               | None \<Rightarrow> d_one);
          wN = fmul env w N
      in \<lparr>acc_x = fadd env (acc_x a) (fmul env wN (p_x ctrl_pt)),
          acc_y = fadd env (acc_y a) (fmul env wN (p_y ctrl_pt)),
          acc_z = (if hasz then fadd env (acc_z a) (fmul env wN (p_z ctrl_pt)) else acc_z a),
          acc_m = (if hasm then fadd env (acc_m a) (fmul env wN (p_m ctrl_pt)) else acc_m a),
          acc_denom = fadd env (acc_denom a) wN\<rparr>)"

text \<open>The label \<open>create_result\<close>: a point of the curve's SRID holding the one result.\<close>

definition create_result :: "LWNURBSCURVE \<Rightarrow> bool \<Rightarrow> bool \<Rightarrow> POINT4D \<Rightarrow> LWPOINT" where
  "create_result c hasz hasm result =
     (let lwpoint = lwpoint_construct (nc_srid c) None (ptarray_construct_empty hasz hasm)
      in lwpoint\<lparr>point := ptarray_append_point (point lwpoint) result\<rparr>)"

definition lwnurbscurve_evaluate :: "cenv \<Rightarrow> LWNURBSCURVE option \<Rightarrow> double \<Rightarrow> LWPOINT" where
  "lwnurbscurve_evaluate env curve t =
     (case curve of
        None \<Rightarrow> lwpoint_construct_empty SRID_UNKNOWN False False
      | Some c \<Rightarrow>
         (case nc_points c of
            None \<Rightarrow> lwpoint_construct_empty SRID_UNKNOWN False False
          | Some pa \<Rightarrow>
             if npoints pa = 0 then lwpoint_construct_empty SRID_UNKNOWN False False
             else
               let hasz = FLAGS_GET_Z (nc_flags c);
                   hasm = FLAGS_GET_M (nc_flags c)
               in
               if dbl_le t d_zero then create_result c hasz hasm (getPoint4d_p pa 0)
               else if dbl_le d_one t
                 then create_result c hasz hasm (getPoint4d_p pa (u32_sub (npoints pa) 1))
               else
                 (case lwnurbscurve_get_knots_for_wkb env curve of
                    None \<Rightarrow> lwpoint_construct_empty (nc_srid c) hasz hasm
                  | Some knots \<Rightarrow>
                     if length knots = 0 then lwpoint_construct_empty (nc_srid c) hasz hasm
                     else
                       let a0 = \<lparr>acc_x = d_zero, acc_y = d_zero, acc_z = d_zero,
                                 acc_m = d_zero, acc_denom = d_zero\<rparr>;
                           a1 = fold (eval_step env c pa hasz hasm t knots) [0..<npoints pa] a0;
                           a2 = (if nc_weights c \<noteq> None \<and> \<not> dbl_eq (acc_denom a1) d_zero
                                 then \<lparr>acc_x = fdiv env (acc_x a1) (acc_denom a1),
                                       acc_y = fdiv env (acc_y a1) (acc_denom a1),
                                       acc_z = (if hasz then fdiv env (acc_z a1) (acc_denom a1)
                                                else acc_z a1),
                                       acc_m = (if hasm then fdiv env (acc_m a1) (acc_denom a1)
                                                else acc_m a1),
                                       acc_denom = acc_denom a1\<rparr>
                                 else a1);
                           result = \<lparr>p_x = acc_x a2, p_y = acc_y a2,
                                     p_z = (if hasz then acc_z a2 else d_zero),
                                     p_m = (if hasm then acc_m a2 else d_zero)\<rparr>
                       in create_result c hasz hasm result)))"


section \<open>WKB writer, NURBS part (lwout\_wkb.c)\<close>

text \<open>
  Modelled from the spec: the variant bits are macros of \<open>liblwgeom.h\<close>, not among the
  sources; the spec lists them as independent bit flags on encoder calls.
\<close>

record wkb_variant =
  WKB_ISO :: bool
  WKB_SFSQL :: bool
  WKB_EXTENDED :: bool
  WKB_NDR :: bool
  WKB_XDR :: bool
  WKB_HEX :: bool
  WKB_NO_NPOINTS :: bool
  WKB_NO_SRID :: bool

text \<open>The machine is little-endian (\<open>IS_BIG_ENDIAN\<close> is false): the bytes of an integer
  and of a double in memory are least significant first.\<close>

definition IS_BIG_ENDIAN :: bool where
  "IS_BIG_ENDIAN = False"

definition u32_bytes :: "nat \<Rightarrow> byte list" where
  "u32_bytes n = map (\<lambda>k. of_nat (n div 256 ^ k mod 256)) [0..<4]"

definition dbl_bytes :: "double \<Rightarrow> byte list" where
  "dbl_bytes d = map (\<lambda>k. ucast (drop_bit (8 * k) d)) [0..<8]"

definition hexchr :: "byte list" where
  "hexchr = map (\<lambda>c. of_nat (of_char c)) ''0123456789ABCDEF''"

definition hex_of_byte :: "byte \<Rightarrow> byte list" where
  "hex_of_byte b = [hexchr ! unat (drop_bit 4 b), hexchr ! unat (b AND 0x0F)]"

definition wkb_swap_bytes :: "wkb_variant \<Rightarrow> bool" where
  "wkb_swap_bytes variant \<longleftrightarrow>
     \<not> ((WKB_NDR variant \<and> \<not> IS_BIG_ENDIAN) \<or> (\<not> WKB_NDR variant \<and> IS_BIG_ENDIAN))"

definition endian_to_wkb_buf :: "wkb_variant \<Rightarrow> byte list" where
  "endian_to_wkb_buf variant =
     (if WKB_HEX variant then [of_nat (of_char CHR ''0''),
                                if WKB_NDR variant then of_nat (of_char CHR ''1'')
                                else of_nat (of_char CHR ''0'')]
      else [if WKB_NDR variant then 1 else 0])"

text \<open>\<open>integer_to_wkb_buf\<close> and \<open>double_to_wkb_buf\<close> share their body, on 4 and on 8
  bytes of memory.\<close>

definition mem_to_wkb_buf :: "byte list \<Rightarrow> wkb_variant \<Rightarrow> byte list" where
  "mem_to_wkb_buf ptr variant =
     (let size = length ptr in
      if WKB_HEX variant then
        (let swap = wkb_swap_bytes variant in
         concat (map (\<lambda>i. let j = (if swap then size - 1 - i else i) in hex_of_byte (ptr ! j))
                     [0..<size]))
      else if wkb_swap_bytes variant then map (\<lambda>i. ptr ! (size - 1 - i)) [0..<size]
      else ptr)"

definition integer_to_wkb_buf :: "nat \<Rightarrow> wkb_variant \<Rightarrow> byte list" where
  "integer_to_wkb_buf ival variant = mem_to_wkb_buf (u32_bytes ival) variant"

definition double_to_wkb_buf :: "double \<Rightarrow> wkb_variant \<Rightarrow> byte list" where
  "double_to_wkb_buf d variant = mem_to_wkb_buf (dbl_bytes d) variant"

definition byte_to_wkb_buf :: "byte \<Rightarrow> wkb_variant \<Rightarrow> byte list" where
  "byte_to_wkb_buf bval variant = (if WKB_HEX variant then hex_of_byte bval else [bval])"

text \<open>Modelled from the spec: \<open>lwgeom_has_srid\<close> is not among the sources; a geometry
  has an SRID when its SRID is not the sentinel for "unknown".\<close>

definition lwgeom_has_srid :: "LWGEOM \<Rightarrow> bool" where
  "lwgeom_has_srid geom \<longleftrightarrow> geom_srid geom \<noteq> SRID_UNKNOWN"

definition lwgeom_wkb_needs_srid :: "LWGEOM \<Rightarrow> wkb_variant \<Rightarrow> bool" where
  "lwgeom_wkb_needs_srid geom variant =
     (if WKB_NO_SRID variant then False
      else if WKB_EXTENDED variant \<and> lwgeom_has_srid geom then True
      else False)"

text \<open>
  \<open>lwgeom_wkb_type\<close>. The table \<open>wkb_code\<close> stands for the \<open>WKB_..._TYPE\<close> macros of the
  \<open>switch\<close> (not among the sources); every variant of \<open>lwtype\<close> has a case there. The
  offsets \<open>WKBZOFFSET\<close>, \<open>WKBMOFFSET\<close> and \<open>WKBSRIDFLAG\<close> are the high bits given by
  the spec.
\<close>

definition lwgeom_wkb_type :: "(lwtype \<Rightarrow> nat) \<Rightarrow> LWGEOM \<Rightarrow> wkb_variant \<Rightarrow> nat" where
  "lwgeom_wkb_type wkb_code geom variant =
     (let wkb_type = wkb_code (geom_type geom);
          hasz = FLAGS_GET_Z (geom_flags geom);
          hasm = FLAGS_GET_M (geom_flags geom)
      in
      if geom_type geom = NURBSCURVETYPE then
        (if hasz \<and> \<not> hasm then u32_add wkb_type 1000
         else if hasm \<and> \<not> hasz then u32_add wkb_type 2000
         else if hasz \<and> hasm then u32_add wkb_type 3000
         else wkb_type)
      else if WKB_EXTENDED variant then
        (let t1 = (if hasz then wkb_type OR 0x80000000 else wkb_type);
             t2 = (if hasm then t1 OR 0x40000000 else t1)
         in if lwgeom_wkb_needs_srid geom variant then t2 OR 0x20000000 else t2)
      else if WKB_ISO variant then
        (let t1 = (if hasz then u32_add wkb_type 1000 else wkb_type)
         in if hasm then u32_add t1 2000 else t1)
      else wkb_type)"

text \<open>
  \<open>lwnurbscurve_to_wkb_buf\<close>, in the three parts of its body: the header up to the
  count of control points, the loop over the control points, and the block that writes the
  knots. An \<open>int32_t\<close> SRID written as \<open>uint32_t\<close> is reduced modulo \<open>2 ^ 32\<close>.
\<close>

definition nurbs_wkb_header ::
  "(lwtype \<Rightarrow> nat) \<Rightarrow> LWNURBSCURVE \<Rightarrow> wkb_variant \<Rightarrow> byte list" where
  "nurbs_wkb_header wkb_code curve variant =
     (let wkb_type = lwgeom_wkb_type wkb_code (Nurbs curve) variant;
          np = (case nc_points curve of Some pa \<Rightarrow> npoints pa | None \<Rightarrow> 0)
      in endian_to_wkb_buf variant
         @ integer_to_wkb_buf wkb_type variant
         @ (if lwgeom_wkb_needs_srid (Nurbs curve) variant
            then integer_to_wkb_buf (nat (nc_srid curve mod 2 ^ 32)) variant else [])
         @ integer_to_wkb_buf (nc_degree curve) variant
         @ integer_to_wkb_buf np variant)"

definition nurbs_wkb_point :: "LWNURBSCURVE \<Rightarrow> wkb_variant \<Rightarrow> nat \<Rightarrow> nat \<Rightarrow> byte list" where
  "nurbs_wkb_point curve variant dims i =
     endian_to_wkb_buf variant
     @ (case nc_points curve of
          Some pa \<Rightarrow>
            concat (map (\<lambda>d. double_to_wkb_buf (getPoint_internal pa i ! d) variant) [0..<dims])
        | None \<Rightarrow> [])
     @ (let has_weight =
              (case nc_weights curve of
                 Some ws \<Rightarrow> i < nc_nweights curve \<and> \<not> dbl_eq (ws ! i) d_one
               | None \<Rightarrow> False)
        in byte_to_wkb_buf (if has_weight then 1 else 0) variant
           @ (if has_weight then double_to_wkb_buf (the (nc_weights curve) ! i) variant else []))"

definition nurbs_wkb_knots :: "cenv \<Rightarrow> LWNURBSCURVE \<Rightarrow> wkb_variant \<Rightarrow> byte list" where
  "nurbs_wkb_knots env curve variant =
     (case lwnurbscurve_get_knots_for_wkb env (Some curve) of
        Some knots \<Rightarrow>
          if length knots > 0
          then integer_to_wkb_buf (length knots) variant
               @ concat (map (\<lambda>k. double_to_wkb_buf k variant) knots)
          else integer_to_wkb_buf 0 variant
      | None \<Rightarrow> integer_to_wkb_buf 0 variant)"

definition lwnurbscurve_to_wkb_buf ::
  "cenv \<Rightarrow> (lwtype \<Rightarrow> nat) \<Rightarrow> LWNURBSCURVE \<Rightarrow> wkb_variant \<Rightarrow> byte list" where
  "lwnurbscurve_to_wkb_buf env wkb_code curve variant =
     (let np = (case nc_points curve of Some pa \<Rightarrow> npoints pa | None \<Rightarrow> 0);
          dims = (case nc_points curve of Some pa \<Rightarrow> FLAGS_NDIMS (pa_flags pa) | None \<Rightarrow> 2)
      in nurbs_wkb_header wkb_code curve variant
         @ concat (map (nurbs_wkb_point curve variant dims) [0..<np])
         @ nurbs_wkb_knots env curve variant)"

section \<open>The serialized form GS2 (gserialized2.c)\<close>

subsection \<open>Memory\<close>

text \<open>
  A buffer is a list of bytes and a pointer into it an offset. Integers, floats and doubles
  lie in memory least significant byte first. A \<open>float\<close> is its binary32 bit pattern.
\<close>

type_synonym float32 = "32 word"

definition f32_bytes :: "float32 \<Rightarrow> byte list" where
  "f32_bytes f = map (\<lambda>k. ucast (drop_bit (8 * k) f)) [0..<4]"

definition u64_bytes :: "nat \<Rightarrow> byte list" where
  "u64_bytes n = map (\<lambda>k. of_nat (n div 256 ^ k mod 256)) [0..<8]"

definition ordinate_bytes :: "double list \<Rightarrow> byte list" where
  "ordinate_bytes ds = concat (map dbl_bytes ds)"

definition le_nat :: "byte list \<Rightarrow> nat" where
  "le_nat bs = foldr (\<lambda>b acc. unat b + 256 * acc) bs 0"

definition mem_read :: "byte list \<Rightarrow> nat \<Rightarrow> nat \<Rightarrow> lwerr + byte list" where
  "mem_read buf off n =
     (if off + n \<le> length buf then Inr (take n (drop off buf)) else Inl BufferOverrun)"

definition gserialized2_get_uint32_t :: "byte list \<Rightarrow> nat \<Rightarrow> lwerr + nat" where
  "gserialized2_get_uint32_t buf loc =
     (case mem_read buf loc 4 of Inl e \<Rightarrow> Inl e | Inr bs \<Rightarrow> Inr (le_nat bs))"

definition get_int32 :: "byte list \<Rightarrow> nat \<Rightarrow> lwerr + int" where
  "get_int32 buf loc =
     (case mem_read buf loc 4 of
        Inl e \<Rightarrow> Inl e
      | Inr bs \<Rightarrow> Inr (sint (word_of_nat (le_nat bs) :: 32 word)))"

definition get_double :: "byte list \<Rightarrow> nat \<Rightarrow> lwerr + double" where
  "get_double buf loc =
     (case mem_read buf loc 8 of Inl e \<Rightarrow> Inl e | Inr bs \<Rightarrow> Inr (word_of_nat (le_nat bs)))"

definition get_float :: "byte list \<Rightarrow> nat \<Rightarrow> lwerr + float32" where
  "get_float buf loc =
     (case mem_read buf loc 4 of Inl e \<Rightarrow> Inl e | Inr bs \<Rightarrow> Inr (word_of_nat (le_nat bs)))"

definition get_doubles :: "byte list \<Rightarrow> nat \<Rightarrow> nat \<Rightarrow> lwerr + double list" where
  "get_doubles buf loc n =
     (case mem_read buf loc (8 * n) of
        Inl e \<Rightarrow> Inl e
      | Inr bs \<Rightarrow> Inr (map (\<lambda>k. word_of_nat (le_nat (take 8 (drop (8 * k) bs)))) [0..<n]))"

subsection \<open>Helpers of the library that the file uses\<close>

text \<open>
  Modelled from the spec: \<open>gbox_serialized_size\<close>, \<open>lwgeom_is_empty\<close>,
  \<open>lwcollection_allows_subtype\<close>, \<open>lwgeom_add_bbox\<close>, \<open>gbox_float_round\<close> and the macros
  \<open>FP_MIN\<close>, \<open>FP_MAX\<close> are not among the sources. A stored box has two floats per box
  dimension, and a geodetic box is always 3D. A geometry is empty when its count (points,
  rings) is zero, and a collection when all of its members are. The admissible children of
  a collection are those of the spec's table. A box added to a geometry carries the
  geometry's flags. The float rounding of a box moves every minimum with
  \<open>next_float_down\<close> and every maximum with \<open>next_float_up\<close>, in the dimensions of the
  box.
\<close>

definition gbox_serialized_size :: "lwflags \<Rightarrow> nat" where
  "gbox_serialized_size f = (if FLAGS_GET_GEODETIC f then 6 * 4 else 2 * FLAGS_NDIMS f * 4)"

fun lwgeom_is_empty :: "LWGEOM \<Rightarrow> bool" where
  "lwgeom_is_empty (Point g) = (npoints (point g) = 0)"
| "lwgeom_is_empty (Line g) = (npoints (points g) = 0)"
| "lwgeom_is_empty (CircString g) = (npoints (points g) = 0)"
| "lwgeom_is_empty (Triangle g) = (npoints (points g) = 0)"
| "lwgeom_is_empty (Poly g) = (rings g = [])"
| "lwgeom_is_empty (Collection _ _ _ _ gs) = list_all lwgeom_is_empty gs"
| "lwgeom_is_empty (Nurbs g) =
     (case nc_points g of None \<Rightarrow> True | Some pa \<Rightarrow> npoints pa = 0)"

definition lwcollection_allows_subtype :: "lwtype \<Rightarrow> nat \<Rightarrow> bool" where
  "lwcollection_allows_subtype collectiontype subtype =
     (if collectiontype = COLLECTIONTYPE then True
      else if collectiontype = MULTIPOINTTYPE then subtype = lwtype_code POINTTYPE
      else if collectiontype = MULTILINETYPE then subtype = lwtype_code LINETYPE
      else if collectiontype = MULTIPOLYGONTYPE
        then subtype = lwtype_code POLYGONTYPE \<or> subtype = lwtype_code TRIANGLETYPE
      else if collectiontype = COMPOUNDTYPE
        then subtype = lwtype_code LINETYPE \<or> subtype = lwtype_code CIRCSTRINGTYPE
      else if collectiontype = CURVEPOLYTYPE \<or> collectiontype = MULTICURVETYPE
        then subtype = lwtype_code LINETYPE \<or> subtype = lwtype_code CIRCSTRINGTYPE
             \<or> subtype = lwtype_code COMPOUNDTYPE
      else if collectiontype = MULTISURFACETYPE
        then subtype = lwtype_code POLYGONTYPE \<or> subtype = lwtype_code CURVEPOLYTYPE
      else if collectiontype = POLYHEDRALSURFACETYPE then subtype = lwtype_code POLYGONTYPE
      else if collectiontype = TINTYPE then subtype = lwtype_code TRIANGLETYPE
      else False)"

definition FP_MIN :: "double \<Rightarrow> double \<Rightarrow> double" where
  "FP_MIN a b = (if dbl_lt a b then a else b)"

definition FP_MAX :: "double \<Rightarrow> double \<Rightarrow> double" where
  "FP_MAX a b = (if dbl_lt b a then a else b)"

text \<open>
  What the file takes from the rest of the library and cannot be read from the sources:
  the clamping of an SRID, whether a geometry needs a cached box, the computation of a box
  (\<open>None\<close> for \<open>LW_FAILURE\<close>), the two float roundings, the conversion of a float to a
  double, and the content of an uninitialised \<open>GBOX\<close> on the stack.
\<close>

record lwenv =
  clamp_srid :: "int \<Rightarrow> int"
  lwgeom_needs_bbox :: "LWGEOM \<Rightarrow> bool"
  lwgeom_calculate_gbox :: "LWGEOM \<Rightarrow> GBOX \<Rightarrow> GBOX option"
  next_float_down :: "double \<Rightarrow> float32"
  next_float_up :: "double \<Rightarrow> float32"
  float_to_double :: "float32 \<Rightarrow> double"
  stack_gbox :: GBOX

definition gbox_new :: "lwflags \<Rightarrow> GBOX" where
  "gbox_new f = \<lparr>gb_flags = f, xmin = d_zero, xmax = d_zero, ymin = d_zero, ymax = d_zero,
     zmin = d_zero, zmax = d_zero, mmin = d_zero, mmax = d_zero\<rparr>"

definition lwgeom_add_bbox :: "lwenv \<Rightarrow> LWGEOM \<Rightarrow> LWGEOM" where
  "lwgeom_add_bbox env geom =
     (if lwgeom_is_empty geom then geom
      else if geom_bbox geom \<noteq> None then geom
      else
        let f = (geom_flags geom)\<lparr>FLAGS_GET_BBOX := True\<rparr>;
            box0 = gbox_new f;
            box = (case lwgeom_calculate_gbox env (set_geom_flags f geom) box0 of
                     Some b \<Rightarrow> b\<lparr>gb_flags := f\<rparr>
                   | None \<Rightarrow> box0)
        in set_geom_bbox (Some box) (set_geom_flags f geom))"

definition gbox_float_round :: "lwenv \<Rightarrow> GBOX \<Rightarrow> GBOX" where
  "gbox_float_round env gbox =
     (let dn = (\<lambda>d. float_to_double env (next_float_down env d));
          up = (\<lambda>d. float_to_double env (next_float_up env d));
          b1 = gbox\<lparr>xmin := dn (xmin gbox), xmax := up (xmax gbox),
                     ymin := dn (ymin gbox), ymax := up (ymax gbox)\<rparr>;
          b2 = (if FLAGS_GET_M (gb_flags gbox)
                then b1\<lparr>mmin := dn (mmin gbox), mmax := up (mmax gbox)\<rparr> else b1)
      in if FLAGS_GET_Z (gb_flags gbox)
         then b2\<lparr>zmin := dn (zmin gbox), zmax := up (zmax gbox)\<rparr> else b2)"

subsection \<open>Header\<close>

text \<open>
  Modelled from the spec: the \<open>G2FLAGS\<close> macros and the \<open>GSERIALIZED\<close> struct are declared
  in headers that are not among the sources. The flag byte holds Z, M, BBOX, GEODETIC,
  EXTENDED and a version; the extended flag word holds SOLID in its lowest bit. The
  struct is the size word, three SRID bytes, the flag byte and the data area.
\<close>

record g2flags =
  G2FLAGS_GET_Z :: bool
  G2FLAGS_GET_M :: bool
  G2FLAGS_GET_BBOX :: bool
  G2FLAGS_GET_GEODETIC :: bool
  G2FLAGS_GET_EXTENDED :: bool
  G2FLAGS_GET_VERSION :: nat

definition G2FLAGS_NDIMS :: "g2flags \<Rightarrow> nat" where
  "G2FLAGS_NDIMS gf =
     2 + (if G2FLAGS_GET_Z gf then 1 else 0) + (if G2FLAGS_GET_M gf then 1 else 0)"

definition G2FLAG_X_SOLID :: nat where
  "G2FLAG_X_SOLID = 1"

record GSERIALIZED =
  gs_size :: nat
  gs_srid :: "byte list"
  gs_gflags :: g2flags
  gs_data :: "byte list"

definition gserialized2_has_bbox :: "GSERIALIZED \<Rightarrow> bool" where
  "gserialized2_has_bbox g = G2FLAGS_GET_BBOX (gs_gflags g)"

definition gserialized2_has_extended :: "GSERIALIZED \<Rightarrow> bool" where
  "gserialized2_has_extended g = G2FLAGS_GET_EXTENDED (gs_gflags g)"

definition gserialized2_get_lwflags :: "GSERIALIZED \<Rightarrow> lwerr + lwflags" where
  "gserialized2_get_lwflags g =
     (let gflags = gs_gflags g;
          lwflags = \<lparr>FLAGS_GET_Z = G2FLAGS_GET_Z gflags, FLAGS_GET_M = G2FLAGS_GET_M gflags,
                     FLAGS_GET_BBOX = G2FLAGS_GET_BBOX gflags,
                     FLAGS_GET_GEODETIC = G2FLAGS_GET_GEODETIC gflags,
                     FLAGS_GET_SOLID = False\<rparr>
      in if G2FLAGS_GET_EXTENDED gflags then
           (case mem_read (gs_data g) 0 8 of
              Inl e \<Rightarrow> Inl e
            | Inr bs \<Rightarrow> Inr (lwflags\<lparr>FLAGS_GET_SOLID := ((le_nat bs AND G2FLAG_X_SOLID) \<noteq> 0)\<rparr>))
         else Inr lwflags)"

definition lwflags_uses_extended_flags :: "lwflags \<Rightarrow> bool" where
  "lwflags_uses_extended_flags lwflags = FLAGS_GET_SOLID lwflags"

definition gserialized2_box_size :: "GSERIALIZED \<Rightarrow> nat" where
  "gserialized2_box_size g =
     (if G2FLAGS_GET_GEODETIC (gs_gflags g) then 6 * 4
      else 2 * G2FLAGS_NDIMS (gs_gflags g) * 4)"

definition gserialized2_header_size :: "GSERIALIZED \<Rightarrow> nat" where
  "gserialized2_header_size g =
     8 + (if gserialized2_has_extended g then 8 else 0)
       + (if gserialized2_has_bbox g then gserialized2_box_size g else 0)"

text \<open>\<open>gserialized2_get_geometry_p\<close>: the offset of the payload in the data area.\<close>

definition gserialized2_get_geometry_p :: "GSERIALIZED \<Rightarrow> nat" where
  "gserialized2_get_geometry_p g =
     (if gserialized2_has_extended g then 8 else 0)
     + (if gserialized2_has_bbox g then gserialized2_box_size g else 0)"

definition lwflags_get_g2flags :: "lwflags \<Rightarrow> g2flags" where
  "lwflags_get_g2flags lwflags =
     \<lparr>G2FLAGS_GET_Z = FLAGS_GET_Z lwflags, G2FLAGS_GET_M = FLAGS_GET_M lwflags,
      G2FLAGS_GET_BBOX = FLAGS_GET_BBOX lwflags,
      G2FLAGS_GET_GEODETIC = FLAGS_GET_GEODETIC lwflags,
      G2FLAGS_GET_EXTENDED = lwflags_uses_extended_flags lwflags,
      G2FLAGS_GET_VERSION = 1\<rparr>"

definition gserialized2_get_type :: "GSERIALIZED \<Rightarrow> lwerr + nat" where
  "gserialized2_get_type g =
     gserialized2_get_uint32_t (gs_data g) (gserialized2_get_geometry_p g)"

text \<open>\<open>gserialized2_get_srid\<close>: the three bytes, sign-extended from 21 bits (the shift up
  and back by 11 of an \<open>int32_t\<close>).\<close>

definition gserialized2_get_srid :: "GSERIALIZED \<Rightarrow> int" where
  "gserialized2_get_srid g =
     (let s0 = push_bit 16 (uint (gs_srid g ! 0));
          s1 = s0 OR push_bit 8 (uint (gs_srid g ! 1));
          s2 = s1 OR uint (gs_srid g ! 2);
          srid = signed_take_bit 20 s2
      in if srid = 0 then SRID_UNKNOWN else srid)"

definition gserialized2_set_srid :: "lwenv \<Rightarrow> int \<Rightarrow> byte list" where
  "gserialized2_set_srid env srid0 =
     (let srid1 = clamp_srid env srid0;
          srid = (if srid1 = SRID_UNKNOWN then 0 else srid1)
      in [of_int (drop_bit 16 (srid AND 0x001F0000)),
          of_int (drop_bit 8 (srid AND 0x0000FF00)),
          of_int (srid AND 0x000000FF)])"

subsection \<open>The emptiness probe\<close>

text \<open>
  \<open>gserialized2_is_empty_recurse\<close> returns the size it walked and the flag \<open>*isempty\<close>.
  The type and the count are read as \<open>int32_t\<close>; a count that is not positive gives no
  iteration. The loop over the members is \<open>is_empty_loop\<close>, with the running \<open>lz\<close> and
  the number of iterations left.
\<close>

definition lwtype_code_is_collection :: "int \<Rightarrow> bool" where
  "lwtype_code_is_collection t =
     (t \<ge> 0 \<and> (case lwtype_of_code (nat t) of Some ty \<Rightarrow> lwtype_is_collection ty
                | None \<Rightarrow> False))"

function gserialized2_is_empty_recurse :: "byte list \<Rightarrow> nat \<Rightarrow> lwerr + (nat \<times> bool)"
  and is_empty_loop :: "byte list \<Rightarrow> nat \<Rightarrow> nat \<Rightarrow> nat \<Rightarrow> lwerr + (nat \<times> bool)" where
  "gserialized2_is_empty_recurse buf p =
     (case get_int32 buf p of
        Inl e \<Rightarrow> Inl e
      | Inr type \<Rightarrow>
         (case get_int32 buf (p + 4) of
            Inl e \<Rightarrow> Inl e
          | Inr num \<Rightarrow>
              if lwtype_code_is_collection type then is_empty_loop buf p 8 (nat num)
              else Inr (8, num = 0)))"
| "is_empty_loop buf p lz 0 = Inr (lz, True)"
| "is_empty_loop buf p lz (Suc n) =
     (case gserialized2_is_empty_recurse buf (p + lz) of
        Inl e \<Rightarrow> Inl e
      | Inr (sz, isempty) \<Rightarrow>
          if \<not> isempty then Inr (lz + sz, False)
          else is_empty_loop buf p (lz + sz) n)"
  by pat_completeness auto
termination
  by (relation "inv_image (less_than <*lex*> less_than <*lex*> less_than)
        (\<lambda>x. case x of
                Inl (buf, p) \<Rightarrow> (length buf - p, 0, 0)
              | Inr (buf, p, lz, n) \<Rightarrow> (length buf - (p + lz), 1, n))")
     (auto simp: get_int32_def mem_read_def split: if_splits sum.splits)

definition gserialized2_is_empty :: "GSERIALIZED \<Rightarrow> lwerr + bool" where
  "gserialized2_is_empty g =
     (case gserialized2_is_empty_recurse (gs_data g) (gserialized2_get_geometry_p g) of
        Inl e \<Rightarrow> Inl e
      | Inr (sz, isempty) \<Rightarrow> Inr isempty)"

subsection \<open>The sizer\<close>

text \<open>\<open>LWLINE\<close>, \<open>LWTRIANGLE\<close> and \<open>LWCIRCSTRING\<close> have sizers with the same body.\<close>

definition gserialized2_from_lwpoint_size :: "LWPOINT \<Rightarrow> nat" where
  "gserialized2_from_lwpoint_size pt =
     4 + 4 + 8 * npoints (point pt) * FLAGS_NDIMS (pt_flags pt)"

definition gserialized2_from_lwline_size :: "LWLINE \<Rightarrow> nat" where
  "gserialized2_from_lwline_size line =
     4 + 4 + 8 * npoints (points line) * FLAGS_NDIMS (ln_flags line)"

definition gserialized2_from_lwtriangle_size :: "LWLINE \<Rightarrow> nat" where
  "gserialized2_from_lwtriangle_size triangle =
     4 + 4 + 8 * npoints (points triangle) * FLAGS_NDIMS (ln_flags triangle)"

definition gserialized2_from_lwcircstring_size :: "LWLINE \<Rightarrow> nat" where
  "gserialized2_from_lwcircstring_size curve =
     4 + 4 + 8 * npoints (points curve) * FLAGS_NDIMS (ln_flags curve)"

definition gserialized2_from_lwpoly_size :: "LWPOLY \<Rightarrow> nat" where
  "gserialized2_from_lwpoly_size poly =
     (let point_size = FLAGS_NDIMS (py_flags poly) * 8;
          size0 = 4 + 4 + (if length (rings poly) mod 2 \<noteq> 0 then 4 else 0)
      in fold (\<lambda>ring size. size + 4 + npoints ring * point_size) (rings poly) size0)"

definition gserialized2_from_lwnurbscurve_size :: "LWNURBSCURVE \<Rightarrow> nat" where
  "gserialized2_from_lwnurbscurve_size curve =
     4 + 4 + 4 + 4 + 4
     + (if nc_weights curve \<noteq> None \<and> nc_nweights curve > 0 then 8 * nc_nweights curve else 0)
     + (if nc_knots curve \<noteq> None \<and> nc_nknots curve > 0 then 8 * nc_nknots curve else 0)
     + (case nc_points curve of
          Some pa \<Rightarrow> 8 * npoints pa * FLAGS_NDIMS (nc_flags curve)
        | None \<Rightarrow> 0)"

text \<open>\<open>gserialized2_from_any_size\<close>; the case of a collection is the body of
  \<open>gserialized2_from_lwcollection_size\<close>.\<close>

fun gserialized2_from_any_size :: "LWGEOM \<Rightarrow> nat" where
  "gserialized2_from_any_size (Point g) = gserialized2_from_lwpoint_size g"
| "gserialized2_from_any_size (Line g) = gserialized2_from_lwline_size g"
| "gserialized2_from_any_size (Poly g) = gserialized2_from_lwpoly_size g"
| "gserialized2_from_any_size (Triangle g) = gserialized2_from_lwtriangle_size g"
| "gserialized2_from_any_size (CircString g) = gserialized2_from_lwcircstring_size g"
| "gserialized2_from_any_size (Collection t b s f gs) =
     fold (\<lambda>g size. size + gserialized2_from_any_size g) gs (4 + 4)"
| "gserialized2_from_any_size (Nurbs g) = gserialized2_from_lwnurbscurve_size g"

definition gserialized2_from_lwgeom_size :: "LWGEOM \<Rightarrow> nat" where
  "gserialized2_from_lwgeom_size geom =
     8 + (if lwflags_uses_extended_flags (geom_flags geom) then 8 else 0)
       + (if geom_bbox geom \<noteq> None then gbox_serialized_size (geom_flags geom) else 0)
       + gserialized2_from_any_size geom"

subsection \<open>The encoder\<close>

text \<open>
  A writer returns the bytes it wrote; its return value in the source, the number of bytes
  written, is their length. \<open>memcpy\<close> of \<open>n\<close> ordinates out of a point array is \<open>take n\<close>
  of its ordinates.
\<close>

definition gserialized2_from_lwpoint :: "LWPOINT \<Rightarrow> lwerr + byte list" where
  "gserialized2_from_lwpoint pt =
     (let ptsize = ptarray_point_size (point pt) in
      if FLAGS_GET_ZM (pt_flags pt) \<noteq> FLAGS_GET_ZM (pa_flags (point pt))
      then Inl (Lwerror ''Dimensions mismatch in lwpoint'')
      else Inr (u32_bytes (lwtype_code POINTTYPE)
                @ u32_bytes (npoints (point pt))
                @ (if npoints (point pt) > 0
                   then ordinate_bytes (take (ptsize div 8) (getPoint_internal (point pt) 0))
                   else [])))"

definition gserialized2_from_lwline :: "LWLINE \<Rightarrow> lwerr + byte list" where
  "gserialized2_from_lwline line =
     (if FLAGS_GET_Z (ln_flags line) \<noteq> FLAGS_GET_Z (pa_flags (points line))
      then Inl (Lwerror ''Dimensions mismatch in lwline'')
      else
        let ptsize = ptarray_point_size (points line) in
        Inr (u32_bytes (lwtype_code LINETYPE)
             @ u32_bytes (npoints (points line))
             @ (if npoints (points line) > 0
                then ordinate_bytes (take (npoints (points line) * ptsize div 8)
                                       (getPoint_internal (points line) 0))
                else [])))"

definition gserialized2_from_lwpoly :: "LWPOLY \<Rightarrow> lwerr + byte list" where
  "gserialized2_from_lwpoly poly =
     (let ptsize = 8 * FLAGS_NDIMS (py_flags poly);
          head = u32_bytes (lwtype_code POLYGONTYPE)
                 @ u32_bytes (length (rings poly))
                 @ concat (map (\<lambda>pa. u32_bytes (npoints pa)) (rings poly))
                 @ (if length (rings poly) mod 2 \<noteq> 0 then [0, 0, 0, 0] else [])
      in fold (\<lambda>pa acc.
                 case acc of
                   Inl e \<Rightarrow> Inl e
                 | Inr loc \<Rightarrow>
                     if FLAGS_GET_ZM (py_flags poly) \<noteq> FLAGS_GET_ZM (pa_flags pa)
                     then Inl (Lwerror ''Dimensions mismatch in lwpoly'')
                     else Inr (loc @ ordinate_bytes (take (npoints pa * ptsize div 8)
                                                        (getPoint_internal pa 0))))
              (rings poly) (Inr head))"

definition gserialized2_from_lwtriangle :: "LWLINE \<Rightarrow> lwerr + byte list" where
  "gserialized2_from_lwtriangle triangle =
     (if FLAGS_GET_ZM (ln_flags triangle) \<noteq> FLAGS_GET_ZM (pa_flags (points triangle))
      then Inl (Lwerror ''Dimensions mismatch in lwtriangle'')
      else
        let ptsize = ptarray_point_size (points triangle) in
        Inr (u32_bytes (lwtype_code TRIANGLETYPE)
             @ u32_bytes (npoints (points triangle))
             @ (if npoints (points triangle) > 0
                then ordinate_bytes (take (npoints (points triangle) * ptsize div 8)
                                       (getPoint_internal (points triangle) 0))
                else [])))"

definition gserialized2_from_lwcircstring :: "LWLINE \<Rightarrow> lwerr + byte list" where
  "gserialized2_from_lwcircstring curve =
     (if FLAGS_GET_ZM (ln_flags curve) \<noteq> FLAGS_GET_ZM (pa_flags (points curve))
      then Inl (Lwerror ''Dimensions mismatch in lwcircstring'')
      else
        let ptsize = ptarray_point_size (points curve) in
        Inr (u32_bytes (lwtype_code CIRCSTRINGTYPE)
             @ u32_bytes (npoints (points curve))
             @ (if npoints (points curve) > 0
                then ordinate_bytes (take (npoints (points curve) * ptsize div 8)
                                       (getPoint_internal (points curve) 0))
                else [])))"

definition gserialized2_from_lwnurbscurve :: "LWNURBSCURVE \<Rightarrow> lwerr + byte list" where
  "gserialized2_from_lwnurbscurve curve =
     (if (case nc_points curve of
            Some pa \<Rightarrow> FLAGS_GET_ZM (nc_flags curve) \<noteq> FLAGS_GET_ZM (pa_flags pa)
          | None \<Rightarrow> False)
      then Inl (Lwerror ''Dimensions mismatch in lwnurbscurve'')
      else
        let ptsize = (case nc_points curve of Some pa \<Rightarrow> ptarray_point_size pa | None \<Rightarrow> 0);
            np = (case nc_points curve of Some pa \<Rightarrow> npoints pa | None \<Rightarrow> 0)
        in Inr (u32_bytes (lwtype_code NURBSCURVETYPE)
                @ u32_bytes np
                @ u32_bytes (nc_degree curve)
                @ u32_bytes (nc_nweights curve)
                @ u32_bytes (nc_nknots curve)
                @ (case nc_weights curve of
                     Some ws \<Rightarrow> if nc_nweights curve > 0
                                then ordinate_bytes (take (nc_nweights curve) ws) else []
                   | None \<Rightarrow> [])
                @ (case nc_knots curve of
                     Some ks \<Rightarrow> if nc_nknots curve > 0
                                then ordinate_bytes (take (nc_nknots curve) ks) else []
                   | None \<Rightarrow> [])
                @ (case nc_points curve of
                     Some pa \<Rightarrow> if npoints pa > 0
                                then ordinate_bytes (take (npoints pa * ptsize div 8)
                                                       (getPoint_internal pa 0))
                                else []
                   | None \<Rightarrow> [])))"

text \<open>\<open>gserialized2_from_lwgeom_any\<close>; the case of a collection is the body of
  \<open>gserialized2_from_lwcollection\<close>, whose loop stops at the first error.\<close>

fun gserialized2_from_lwgeom_any :: "LWGEOM \<Rightarrow> lwerr + byte list" where
  "gserialized2_from_lwgeom_any (Point g) = gserialized2_from_lwpoint g"
| "gserialized2_from_lwgeom_any (Line g) = gserialized2_from_lwline g"
| "gserialized2_from_lwgeom_any (Poly g) = gserialized2_from_lwpoly g"
| "gserialized2_from_lwgeom_any (Triangle g) = gserialized2_from_lwtriangle g"
| "gserialized2_from_lwgeom_any (CircString g) = gserialized2_from_lwcircstring g"
| "gserialized2_from_lwgeom_any (Collection t b s f gs) =
     fold (\<lambda>g acc.
             case acc of
               Inl e \<Rightarrow> Inl e
             | Inr loc \<Rightarrow>
                 if FLAGS_GET_ZM f \<noteq> FLAGS_GET_ZM (geom_flags g)
                 then Inl (Lwerror ''Dimensions mismatch in lwcollection'')
                 else (case gserialized2_from_lwgeom_any g of
                         Inl e \<Rightarrow> Inl e
                       | Inr sub \<Rightarrow> Inr (loc @ sub)))
          gs (Inr (u32_bytes (lwtype_code t) @ u32_bytes (length gs)))"
| "gserialized2_from_lwgeom_any (Nurbs g) = gserialized2_from_lwnurbscurve g"

definition gserialized2_from_extended_flags :: "lwflags \<Rightarrow> byte list" where
  "gserialized2_from_extended_flags lwflags =
     (if lwflags_uses_extended_flags lwflags
      then u64_bytes (if FLAGS_GET_SOLID lwflags then G2FLAG_X_SOLID else 0)
      else [])"

definition gserialized2_from_gbox :: "lwenv \<Rightarrow> GBOX \<Rightarrow> byte list" where
  "gserialized2_from_gbox env gbox =
     (let xy = f32_bytes (next_float_down env (xmin gbox))
               @ f32_bytes (next_float_up env (xmax gbox))
               @ f32_bytes (next_float_down env (ymin gbox))
               @ f32_bytes (next_float_up env (ymax gbox));
          z = f32_bytes (next_float_down env (zmin gbox))
              @ f32_bytes (next_float_up env (zmax gbox));
          m = f32_bytes (next_float_down env (mmin gbox))
              @ f32_bytes (next_float_up env (mmax gbox))
      in if FLAGS_GET_GEODETIC (gb_flags gbox) then xy @ z
         else xy @ (if FLAGS_GET_Z (gb_flags gbox) then z else [])
                 @ (if FLAGS_GET_M (gb_flags gbox) then m else []))"

text \<open>
  \<open>gserialized2_from_lwgeom\<close>. The first two statements (a box is added when one is
  needed, the BBOX flag follows the box) are \<open>lwgeom_harmonize\<close>; the geometry they leave
  is the one that is sized and written. \<open>return_size\<close> is counted from the parts written,
  and the \<open>assert\<close> compares it with the size that was predicted.
\<close>

definition lwgeom_harmonize :: "lwenv \<Rightarrow> LWGEOM \<Rightarrow> LWGEOM" where
  "lwgeom_harmonize env geom =
     (let geom1 = (if geom_bbox geom = None \<and> lwgeom_needs_bbox env geom
                      \<and> \<not> lwgeom_is_empty geom
                   then lwgeom_add_bbox env geom else geom)
      in set_geom_flags ((geom_flags geom1)\<lparr>FLAGS_GET_BBOX := (geom_bbox geom1 \<noteq> None)\<rparr>)
           geom1)"

definition gserialized2_from_lwgeom :: "lwenv \<Rightarrow> LWGEOM \<Rightarrow> lwerr + GSERIALIZED" where
  "gserialized2_from_lwgeom env geom0 =
     (let geom = lwgeom_harmonize env geom0;
          expected_size = gserialized2_from_lwgeom_size geom;
          ext = gserialized2_from_extended_flags (geom_flags geom);
          box = (case geom_bbox geom of Some b \<Rightarrow> gserialized2_from_gbox env b | None \<Rightarrow> [])
      in case gserialized2_from_lwgeom_any geom of
           Inl e \<Rightarrow> Inl e
         | Inr payload \<Rightarrow>
             let return_size = 8 + length ext + length box + length payload in
             if expected_size \<noteq> return_size
             then Inl (AssertFailed ''expected_size == return_size'')
             else Inr \<lparr>gs_size = expected_size,
                       gs_srid = gserialized2_set_srid env (geom_srid geom),
                       gs_gflags = lwflags_get_g2flags (geom_flags geom),
                       gs_data = ext @ box @ payload\<rparr>)"

subsection \<open>Reading and peeking the box\<close>

text \<open>
  \<open>gserialized2_read_gbox_p\<close> and \<open>gserialized2_peek_gbox_p\<close> fill the box of the caller:
  they take it and return \<open>None\<close> for \<open>LW_FAILURE\<close>, the box for \<open>LW_SUCCESS\<close>.
  \<open>fbox[i]\<close>, \<open>dptr[i]\<close> and \<open>iptr[i]\<close> are reads at the offsets 4i, 8i and 4i.
\<close>

definition gserialized2_read_gbox_p ::
  "lwenv \<Rightarrow> GSERIALIZED \<Rightarrow> GBOX \<Rightarrow> lwerr + GBOX option" where
  "gserialized2_read_gbox_p env g gbox =
     (let gflags = gs_gflags g;
          base = (if gserialized2_has_extended g then 8 else 0);
          fbox = (\<lambda>i. case get_float (gs_data g) (base + 4 * i) of
                         Inl e \<Rightarrow> Inl e | Inr f \<Rightarrow> Inr (float_to_double env f))
      in
      bindE (gserialized2_get_lwflags g) (\<lambda>fl.
      let b0 = gbox\<lparr>gb_flags := fl\<rparr> in
      if G2FLAGS_GET_BBOX gflags then
        bindE (fbox 0) (\<lambda>x0. bindE (fbox 1) (\<lambda>x1. bindE (fbox 2) (\<lambda>y0. bindE (fbox 3) (\<lambda>y1.
        let b1 = b0\<lparr>xmin := x0, xmax := x1, ymin := y0, ymax := y1\<rparr> in
        if G2FLAGS_GET_GEODETIC gflags then
          bindE (fbox 4) (\<lambda>z0. bindE (fbox 5) (\<lambda>z1. Inr (Some (b1\<lparr>zmin := z0, zmax := z1\<rparr>))))
        else
          bindE (if G2FLAGS_GET_Z gflags
                 then bindE (fbox 4) (\<lambda>z0. bindE (fbox 5) (\<lambda>z1.
                        Inr (b1\<lparr>zmin := z0, zmax := z1\<rparr>, 6)))
                 else Inr (b1, 4)) (\<lambda>(b2, i).
          bindE (if G2FLAGS_GET_M gflags
                 then bindE (fbox i) (\<lambda>m0. bindE (fbox (i + 1)) (\<lambda>m1.
                        Inr (b2\<lparr>mmin := m0, mmax := m1\<rparr>)))
                 else Inr b2) (\<lambda>b3. Inr (Some b3)))))))
      else Inr None))"

text \<open>The branches for a point and for a multipoint of one point share their body, from
  the double index \<open>i\<close> on (1 and 2); so do those for a two-point line and for a multiline
  of one two-point line.\<close>

definition peek_point_box ::
  "lwenv \<Rightarrow> GSERIALIZED \<Rightarrow> GBOX \<Rightarrow> nat \<Rightarrow> lwerr + GBOX option" where
  "peek_point_box env g gbox i0 =
     (let gflags = gs_gflags g;
          dptr = (\<lambda>i. get_double (gs_data g) (gserialized2_get_geometry_p g + 8 * i))
      in
      bindE (dptr i0) (\<lambda>x. bindE (dptr (i0 + 1)) (\<lambda>y.
      bindE (gserialized2_get_lwflags g) (\<lambda>fl.
      let b1 = gbox\<lparr>xmin := x, xmax := x, ymin := y, ymax := y, gb_flags := fl\<rparr> in
      bindE (if G2FLAGS_GET_Z gflags
             then bindE (dptr (i0 + 2)) (\<lambda>z. Inr (b1\<lparr>zmin := z, zmax := z\<rparr>, i0 + 3))
             else Inr (b1, i0 + 2)) (\<lambda>(b2, i).
      bindE (if G2FLAGS_GET_M gflags
             then bindE (dptr i) (\<lambda>m. Inr (b2\<lparr>mmin := m, mmax := m\<rparr>))
             else Inr b2) (\<lambda>b3.
      Inr (Some (gbox_float_round env b3))))))))"

definition peek_line_box ::
  "lwenv \<Rightarrow> GSERIALIZED \<Rightarrow> GBOX \<Rightarrow> nat \<Rightarrow> lwerr + GBOX option" where
  "peek_line_box env g gbox i0 =
     (let gflags = gs_gflags g;
          ndims = G2FLAGS_NDIMS gflags;
          dptr = (\<lambda>i. get_double (gs_data g) (gserialized2_get_geometry_p g + 8 * i));
          pair = (\<lambda>i. bindE (dptr i) (\<lambda>a. bindE (dptr (i + ndims)) (\<lambda>b. Inr (a, b))))
      in
      bindE (pair i0) (\<lambda>(x0, x1).
      bindE (pair (i0 + 1)) (\<lambda>(y0, y1).
      bindE (gserialized2_get_lwflags g) (\<lambda>fl.
      let b1 = gbox\<lparr>xmin := FP_MIN x0 x1, xmax := FP_MAX x0 x1,
                     ymin := FP_MIN y0 y1, ymax := FP_MAX y0 y1, gb_flags := fl\<rparr> in
      bindE (if G2FLAGS_GET_Z gflags
             then bindE (pair (i0 + 2)) (\<lambda>(z0, z1).
                    Inr (b1\<lparr>zmin := FP_MIN z0 z1, zmax := FP_MAX z0 z1\<rparr>, i0 + 2))
             else Inr (b1, i0 + 1)) (\<lambda>(b2, i).
      bindE (if G2FLAGS_GET_M gflags
             then bindE (pair (i + 1)) (\<lambda>(m0, m1).
                    Inr (b2\<lparr>mmin := FP_MIN m0 m1, mmax := FP_MAX m0 m1\<rparr>))
             else Inr b2) (\<lambda>b3.
      Inr (Some (gbox_float_round env b3))))))))"

definition gserialized2_peek_gbox_p ::
  "lwenv \<Rightarrow> GSERIALIZED \<Rightarrow> GBOX \<Rightarrow> lwerr + GBOX option" where
  "gserialized2_peek_gbox_p env g gbox =
     bindE (gserialized2_get_type g) (\<lambda>type.
     let iptr = (\<lambda>i. get_int32 (gs_data g) (gserialized2_get_geometry_p g + 4 * i)) in
     if G2FLAGS_GET_GEODETIC (gs_gflags g) \<or> G2FLAGS_GET_BBOX (gs_gflags g) then Inr None
     else if type = lwtype_code POINTTYPE then
       bindE (iptr 1) (\<lambda>np.
       if np = 0 then Inr None else peek_point_box env g gbox 1)
     else if type = lwtype_code LINETYPE then
       bindE (iptr 1) (\<lambda>np.
       if np \<noteq> 2 then Inr None else peek_line_box env g gbox 1)
     else if type = lwtype_code MULTIPOINTTYPE then
       bindE (iptr 1) (\<lambda>ngeoms.
       if ngeoms \<noteq> 1 then Inr None
       else bindE (iptr 3) (\<lambda>np.
            if np \<noteq> 1 then Inr None else peek_point_box env g gbox 2))
     else if type = lwtype_code MULTILINETYPE then
       bindE (iptr 1) (\<lambda>ngeoms.
       if ngeoms \<noteq> 1 then Inr None
       else bindE (iptr 3) (\<lambda>np.
            if np \<noteq> 2 then Inr None else peek_line_box env g gbox 2))
     else Inr None)"

subsection \<open>The decoder\<close>

text \<open>
  A decoder returns the geometry and the number of bytes it consumed (\<open>*size\<close>).
\<close>

text \<open>
  Modelled from the spec: \<open>ptarray_construct_reference_data\<close> and \<open>ptarray_construct\<close>
  are not among the sources. The first makes a point array of the given count and
  dimensions over the ordinates that lie at the pointer; the model reads them at once. The
  second is only called for no points, where it is \<open>ptarray_construct_empty\<close>.
\<close>

definition ptarray_construct_reference_data ::
  "bool \<Rightarrow> bool \<Rightarrow> nat \<Rightarrow> byte list \<Rightarrow> nat \<Rightarrow> lwerr + POINTARRAY" where
  "ptarray_construct_reference_data hasz hasm np buf ptr =
     (let f = lwflags_of hasz hasm False in
      case get_doubles buf ptr (np * FLAGS_NDIMS f) of
        Inl e \<Rightarrow> Inl e
      | Inr ds \<Rightarrow> Inr \<lparr>npoints = np, pa_flags = f, serialized_pointlist = ds\<rparr>)"

definition lwpoint_from_gserialized2_buffer ::
  "byte list \<Rightarrow> nat \<Rightarrow> lwflags \<Rightarrow> int \<Rightarrow> lwerr + (LWPOINT \<times> nat)" where
  "lwpoint_from_gserialized2_buffer buf data_ptr lwflags srid =
     bindE (gserialized2_get_uint32_t buf (data_ptr + 4)) (\<lambda>np.
     bindE (if np > 0
            then ptarray_construct_reference_data (FLAGS_GET_Z lwflags) (FLAGS_GET_M lwflags) 1
                   buf (data_ptr + 8)
            else Inr (ptarray_construct_empty (FLAGS_GET_Z lwflags) (FLAGS_GET_M lwflags)))
       (\<lambda>pa.
     Inr (\<lparr>pt_bbox = None, point = pa, pt_srid = srid, pt_flags = lwflags\<rparr>,
          8 + 8 * np * FLAGS_NDIMS lwflags)))"

text \<open>\<open>lwline_from_gserialized2_buffer\<close>, \<open>lwtriangle_from_gserialized2_buffer\<close> and
  \<open>lwcircstring_from_gserialized2_buffer\<close> have the same body.\<close>

definition lwline_from_gserialized2_buffer ::
  "byte list \<Rightarrow> nat \<Rightarrow> lwflags \<Rightarrow> int \<Rightarrow> lwerr + (LWLINE \<times> nat)" where
  "lwline_from_gserialized2_buffer buf data_ptr lwflags srid =
     bindE (gserialized2_get_uint32_t buf (data_ptr + 4)) (\<lambda>np.
     bindE (if np > 0
            then ptarray_construct_reference_data (FLAGS_GET_Z lwflags) (FLAGS_GET_M lwflags) np
                   buf (data_ptr + 8)
            else Inr (ptarray_construct_empty (FLAGS_GET_Z lwflags) (FLAGS_GET_M lwflags)))
       (\<lambda>pa.
     Inr (\<lparr>ln_bbox = None, points = pa, ln_srid = srid, ln_flags = lwflags\<rparr>,
          8 + 8 * FLAGS_NDIMS lwflags * np)))"

text \<open>The loop of \<open>lwpoly_from_gserialized2_buffer\<close> over the rings, with the pointer to
  the counts and the pointer to the ordinates; it returns the rings and the last
  \<open>ordinate_ptr\<close>.\<close>

fun lwpoly_rings_from_buffer ::
  "byte list \<Rightarrow> lwflags \<Rightarrow> nat \<Rightarrow> nat \<Rightarrow> nat \<Rightarrow> lwerr + (POINTARRAY list \<times> nat)" where
  "lwpoly_rings_from_buffer buf lwflags 0 data_ptr ordinate_ptr = Inr ([], ordinate_ptr)"
| "lwpoly_rings_from_buffer buf lwflags (Suc n) data_ptr ordinate_ptr =
     (case gserialized2_get_uint32_t buf data_ptr of
        Inl e \<Rightarrow> Inl e
      | Inr np \<Rightarrow>
         (case ptarray_construct_reference_data (FLAGS_GET_Z lwflags) (FLAGS_GET_M lwflags) np
                 buf ordinate_ptr of
            Inl e \<Rightarrow> Inl e
          | Inr pa \<Rightarrow>
             (case lwpoly_rings_from_buffer buf lwflags n (data_ptr + 4)
                     (ordinate_ptr + 8 * FLAGS_NDIMS lwflags * np) of
                Inl e \<Rightarrow> Inl e
              | Inr (rs, optr) \<Rightarrow> Inr (pa # rs, optr))))"

definition lwpoly_from_gserialized2_buffer ::
  "byte list \<Rightarrow> nat \<Rightarrow> lwflags \<Rightarrow> int \<Rightarrow> lwerr + (LWPOLY \<times> nat)" where
  "lwpoly_from_gserialized2_buffer buf start_ptr lwflags srid =
     bindE (gserialized2_get_uint32_t buf (start_ptr + 4)) (\<lambda>nrings.
     let data_ptr = start_ptr + 8;
         ordinate_ptr = (if nrings > 0
                         then data_ptr + nrings * 4 + (if nrings mod 2 \<noteq> 0 then 4 else 0)
                         else data_ptr)
     in bindE (lwpoly_rings_from_buffer buf lwflags nrings data_ptr ordinate_ptr)
          (\<lambda>(rs, optr).
        Inr (\<lparr>py_bbox = None, rings = rs, py_srid = srid, py_flags = lwflags\<rparr>,
             optr - start_ptr)))"

text \<open>\<open>lwnurbscurve_from_gserialized2_buffer\<close> has no SRID parameter.\<close>

definition lwnurbscurve_from_gserialized2_buffer ::
  "byte list \<Rightarrow> nat \<Rightarrow> lwflags \<Rightarrow> lwerr + (LWNURBSCURVE \<times> nat)" where
  "lwnurbscurve_from_gserialized2_buffer buf start_ptr lwflags =
     bindE (gserialized2_get_uint32_t buf (start_ptr + 4)) (\<lambda>np.
     bindE (gserialized2_get_uint32_t buf (start_ptr + 8)) (\<lambda>degree.
     bindE (gserialized2_get_uint32_t buf (start_ptr + 12)) (\<lambda>nweights.
     bindE (gserialized2_get_uint32_t buf (start_ptr + 16)) (\<lambda>nknots.
     let p0 = start_ptr + 20 in
     bindE (if nweights > 0
            then bindE (get_doubles buf p0 nweights) (\<lambda>ws. Inr (Some ws, p0 + 8 * nweights))
            else Inr (None, p0)) (\<lambda>(weights, p1).
     bindE (if nknots > 0
            then bindE (get_doubles buf p1 nknots) (\<lambda>ks. Inr (Some ks, p1 + 8 * nknots))
            else Inr (None, p1)) (\<lambda>(knots, p2).
     bindE (if np > 0
            then ptarray_construct_reference_data (FLAGS_GET_Z lwflags) (FLAGS_GET_M lwflags) np
                   buf p2
            else Inr (ptarray_construct_empty (FLAGS_GET_Z lwflags) (FLAGS_GET_M lwflags)))
       (\<lambda>pa.
     Inr (\<lparr>nc_bbox = None, nc_flags = lwflags, nc_srid = SRID_UNKNOWN, nc_degree = degree,
           nc_points = Some pa, nc_weights = weights, nc_nweights = nweights,
           nc_knots = knots, nc_nknots = nknots\<rparr>,
          p2 + 8 * FLAGS_NDIMS lwflags * np - start_ptr))))))))"

text \<open>
  \<open>lwgeom_from_gserialized2_buffer\<close> and the loop of
  \<open>lwcollection_from_gserialized2_buffer\<close> over the members (\<open>lwcollection_geoms\<close>, with
  the number of members left and \<open>data_ptr\<close>); the case of a collection type is the body
  of \<open>lwcollection_from_gserialized2_buffer\<close>.
\<close>

function lwgeom_from_gserialized2_buffer ::
    "byte list \<Rightarrow> nat \<Rightarrow> lwflags \<Rightarrow> int \<Rightarrow> lwerr + (LWGEOM \<times> nat)"
  and lwcollection_geoms ::
    "byte list \<Rightarrow> lwtype \<Rightarrow> lwflags \<Rightarrow> int \<Rightarrow> nat \<Rightarrow> nat \<Rightarrow> lwerr + (LWGEOM list \<times> nat)" where
  "lwgeom_from_gserialized2_buffer buf data_ptr lwflags srid =
     (case gserialized2_get_uint32_t buf data_ptr of
        Inl e \<Rightarrow> Inl e
      | Inr type \<Rightarrow>
         (case lwtype_of_code type of
            None \<Rightarrow> Inl (Lwerror ''Unknown geometry type'')
          | Some t \<Rightarrow>
             if t = POINTTYPE then
               (case lwpoint_from_gserialized2_buffer buf data_ptr lwflags srid of
                  Inl e \<Rightarrow> Inl e | Inr (g, sz) \<Rightarrow> Inr (Point g, sz))
             else if t = LINETYPE then
               (case lwline_from_gserialized2_buffer buf data_ptr lwflags srid of
                  Inl e \<Rightarrow> Inl e | Inr (g, sz) \<Rightarrow> Inr (Line g, sz))
             else if t = CIRCSTRINGTYPE then
               (case lwline_from_gserialized2_buffer buf data_ptr lwflags srid of
                  Inl e \<Rightarrow> Inl e | Inr (g, sz) \<Rightarrow> Inr (CircString g, sz))
             else if t = POLYGONTYPE then
               (case lwpoly_from_gserialized2_buffer buf data_ptr lwflags srid of
                  Inl e \<Rightarrow> Inl e | Inr (g, sz) \<Rightarrow> Inr (Poly g, sz))
             else if t = TRIANGLETYPE then
               (case lwline_from_gserialized2_buffer buf data_ptr lwflags srid of
                  Inl e \<Rightarrow> Inl e | Inr (g, sz) \<Rightarrow> Inr (Triangle g, sz))
             else if t = NURBSCURVETYPE then
               (case lwnurbscurve_from_gserialized2_buffer buf data_ptr lwflags of
                  Inl e \<Rightarrow> Inl e | Inr (g, sz) \<Rightarrow> Inr (Nurbs g, sz))
             else
               (case gserialized2_get_uint32_t buf (data_ptr + 4) of
                  Inl e \<Rightarrow> Inl e
                | Inr ngeoms \<Rightarrow>
                   (case lwcollection_geoms buf t (lwflags\<lparr>FLAGS_GET_BBOX := False\<rparr>) srid
                           ngeoms (data_ptr + 8) of
                      Inl e \<Rightarrow> Inl e
                    | Inr (gs, ptr) \<Rightarrow>
                        Inr (Collection t None srid lwflags gs, ptr - data_ptr)))))"
| "lwcollection_geoms buf type lwflags srid 0 data_ptr = Inr ([], data_ptr)"
| "lwcollection_geoms buf type lwflags srid (Suc n) data_ptr =
     (case gserialized2_get_uint32_t buf data_ptr of
        Inl e \<Rightarrow> Inl e
      | Inr subtype \<Rightarrow>
          if \<not> lwcollection_allows_subtype type subtype
          then Inl (Lwerror ''Invalid subtype for collection type'')
          else
            (case lwgeom_from_gserialized2_buffer buf data_ptr lwflags srid of
               Inl e \<Rightarrow> Inl e
             | Inr (g, subsize) \<Rightarrow>
                (case lwcollection_geoms buf type lwflags srid n (data_ptr + subsize) of
                   Inl e \<Rightarrow> Inl e
                 | Inr (gs, ptr) \<Rightarrow> Inr (g # gs, ptr))))"
  by pat_completeness auto
termination
  by (relation "inv_image (less_than <*lex*> less_than <*lex*> less_than)
        (\<lambda>x. case x of
                Inl (buf, p, f, s) \<Rightarrow> (length buf - p, 0, 0)
              | Inr (buf, t, f, s, n, p) \<Rightarrow> (length buf - p, 1, n))")
     (auto simp: gserialized2_get_uint32_t_def mem_read_def split: if_splits sum.splits)

text \<open>
  \<open>lwgeom_from_gserialized2\<close>. The type written back into the geometry is the one the
  decoder dispatched on, so it is the variant already; the flags are written back. The
  box is the stored one, or a computed one when the geometry needs it, or none.
\<close>

definition lwgeom_from_gserialized2 :: "lwenv \<Rightarrow> GSERIALIZED \<Rightarrow> lwerr + LWGEOM" where
  "lwgeom_from_gserialized2 env g =
     (let srid = gserialized2_get_srid g in
      bindE (gserialized2_get_type g) (\<lambda>lwtype.
      bindE (gserialized2_get_lwflags g) (\<lambda>lwflags.
      let data_ptr = (if G2FLAGS_GET_EXTENDED (gs_gflags g) then 8 else 0)
                     + (if FLAGS_GET_BBOX lwflags then gbox_serialized_size lwflags else 0)
      in
      bindE (lwgeom_from_gserialized2_buffer (gs_data g) data_ptr lwflags srid) (\<lambda>(lwgeom0, size).
      let lwgeom = set_geom_flags lwflags lwgeom0 in
      bindE (gserialized2_read_gbox_p env g (stack_gbox env)) (\<lambda>r.
      case r of
        Some bbox \<Rightarrow> Inr (set_geom_bbox (Some bbox) lwgeom)
      | None \<Rightarrow>
          if lwgeom_needs_bbox env lwgeom then
            (case lwgeom_calculate_gbox env lwgeom ((stack_gbox env)\<lparr>gb_flags := lwflags\<rparr>) of
               Some bbox \<Rightarrow> Inr (set_geom_bbox (Some bbox) lwgeom)
             | None \<Rightarrow> Inr (set_geom_bbox None lwgeom))
          else Inr (set_geom_bbox None lwgeom))))))"

section \<open>SQL interface (lwgeom\_nurbs\_functions.c)\<close>

text \<open>
  Modelled from the spec: the macros of the PostgreSQL function manager (\<open>PG_ARGISNULL\<close>,
  \<open>PG_RETURN_NULL\<close>, \<open>PG_RETURN_BOOL\<close>, ...) and \<open>ereport\<close> are not among the sources. A
  function of the SQL interface takes its argument as an option, \<open>None\<close> for SQL \<open>NULL\<close>.
  It returns SQL \<open>NULL\<close> or a value, or it raises an error: \<open>ereport(ERROR, ...)\<close> does not
  return, and is \<open>Inl\<close> of the error code and the message.
\<close>

datatype sqlstate =
  ERRCODE_INVALID_PARAMETER_VALUE | ERRCODE_INTERNAL_ERROR | ERRCODE_NULL_VALUE_NOT_ALLOWED

datatype 'a datum = PG_NULL | PG_VALUE 'a

type_synonym 'a pg_result = "(sqlstate \<times> string) + 'a datum"

text \<open>
  What the file takes from the rest of PostGIS and cannot be read from the sources: the
  deserializer \<open>lwgeom_from_gserialized\<close>, which may raise an error of its own or return a
  \<open>NULL\<close> pointer, the serializer \<open>geometry_serialize\<close>, and \<open>lwmpoint_construct\<close>.
\<close>

record pgenv =
  lwgeom_from_gserialized :: "GSERIALIZED \<Rightarrow> (sqlstate \<times> string) + LWGEOM option"
  geometry_serialize :: "LWGEOM \<Rightarrow> GSERIALIZED"
  lwmpoint_construct :: "int \<Rightarrow> POINTARRAY \<Rightarrow> LWGEOM option"

text \<open>
  The test \<open>!geom || geom->type != NURBSCURVETYPE\<close> followed by the cast to
  \<open>LWNURBSCURVE*\<close>: the type tag of a geometry is its variant, so the test fails exactly
  for a curve, which \<open>as_nurbs\<close> returns.
\<close>

fun as_nurbs :: "LWGEOM option \<Rightarrow> LWNURBSCURVE option" where
  "as_nurbs (Some (Nurbs nurbs)) = Some nurbs"
| "as_nurbs _ = None"

text \<open>The casts \<open>(int32)\<close> and \<open>(int)\<close> of a \<open>uint32_t\<close>.\<close>

definition to_int32 :: "nat \<Rightarrow> int" where
  "to_int32 n = (let m = int (n mod 2 ^ 32) in if m < 2 ^ 31 then m else m - 2 ^ 32)"

definition float8_array_from_double_array :: "double list option \<Rightarrow> int \<Rightarrow> double list option" where
  "float8_array_from_double_array values cnt =
     (case values of
        None \<Rightarrow> None
      | Some vs \<Rightarrow> if cnt \<le> 0 then None else Some (take (nat cnt) vs))"

definition not_a_curve :: "sqlstate \<times> string" where
  "not_a_curve = (ERRCODE_INVALID_PARAMETER_VALUE, ''Input must be a NURBS curve'')"

definition ST_NurbsCurveControlPoints :: "pgenv \<Rightarrow> GSERIALIZED option \<Rightarrow> GSERIALIZED pg_result" where
  "ST_NurbsCurveControlPoints env arg0 =
     (case arg0 of
        None \<Rightarrow> Inr PG_NULL
      | Some pnurbs \<Rightarrow>
          bindE (lwgeom_from_gserialized env pnurbs) (\<lambda>geom.
          case as_nurbs geom of
            None \<Rightarrow> Inl not_a_curve
          | Some nurbs \<Rightarrow>
             (case nc_points nurbs of
                None \<Rightarrow> Inl (ERRCODE_INVALID_PARAMETER_VALUE, ''NURBS curve has no control points'')
              | Some pa \<Rightarrow>
                  if npoints pa = 0
                  then Inl (ERRCODE_INVALID_PARAMETER_VALUE, ''NURBS curve has no control points'')
                  else (case lwmpoint_construct env (nc_srid nurbs) pa of
                          None \<Rightarrow> Inl (ERRCODE_INTERNAL_ERROR, ''Failed to create control points'')
                        | Some mpoint \<Rightarrow> Inr (PG_VALUE (geometry_serialize env mpoint))))))"

definition ST_NurbsCurveDegree :: "pgenv \<Rightarrow> GSERIALIZED option \<Rightarrow> int pg_result" where
  "ST_NurbsCurveDegree env arg0 =
     (case arg0 of
        None \<Rightarrow> Inr PG_NULL
      | Some pnurbs \<Rightarrow>
          bindE (lwgeom_from_gserialized env pnurbs) (\<lambda>geom.
          case as_nurbs geom of
            None \<Rightarrow> Inl not_a_curve
          | Some nurbs \<Rightarrow> Inr (PG_VALUE (to_int32 (nc_degree nurbs)))))"

definition ST_NurbsCurveWeights :: "pgenv \<Rightarrow> GSERIALIZED option \<Rightarrow> double list pg_result" where
  "ST_NurbsCurveWeights env arg0 =
     (case arg0 of
        None \<Rightarrow> Inr PG_NULL
      | Some pnurbs \<Rightarrow>
          bindE (lwgeom_from_gserialized env pnurbs) (\<lambda>geom.
          case as_nurbs geom of
            None \<Rightarrow> Inl not_a_curve
          | Some nurbs \<Rightarrow>
              if nc_weights nurbs = None then Inr PG_NULL
              else (case float8_array_from_double_array (nc_weights nurbs)
                           (to_int32 (nc_nweights nurbs)) of
                      None \<Rightarrow> Inr PG_NULL
                    | Some result \<Rightarrow> Inr (PG_VALUE result))))"

definition ST_NurbsCurveKnots :: "pgenv \<Rightarrow> GSERIALIZED option \<Rightarrow> double list pg_result" where
  "ST_NurbsCurveKnots env arg0 =
     (case arg0 of
        None \<Rightarrow> Inr PG_NULL
      | Some pnurbs \<Rightarrow>
          bindE (lwgeom_from_gserialized env pnurbs) (\<lambda>geom.
          case as_nurbs geom of
            None \<Rightarrow> Inl not_a_curve
          | Some nurbs \<Rightarrow>
              if nc_knots nurbs = None \<or> nc_nknots nurbs = 0 then Inr PG_NULL
              else if nc_nknots nurbs \<le> 0 then Inr PG_NULL
              else (case float8_array_from_double_array (nc_knots nurbs)
                           (to_int32 (nc_nknots nurbs)) of
                      None \<Rightarrow> Inr PG_NULL
                    | Some result \<Rightarrow> Inr (PG_VALUE result))))"

definition ST_NurbsCurveNumControlPoints :: "pgenv \<Rightarrow> GSERIALIZED option \<Rightarrow> int pg_result" where
  "ST_NurbsCurveNumControlPoints env arg0 =
     (case arg0 of
        None \<Rightarrow> Inr PG_NULL
      | Some pnurbs \<Rightarrow>
          bindE (lwgeom_from_gserialized env pnurbs) (\<lambda>geom.
          case as_nurbs geom of
            None \<Rightarrow> Inl not_a_curve
          | Some nurbs \<Rightarrow>
              Inr (PG_VALUE (case nc_points nurbs of
                               Some pa \<Rightarrow> to_int32 (npoints pa)
                             | None \<Rightarrow> 0))))"

definition ST_NurbsCurveIsRational :: "pgenv \<Rightarrow> GSERIALIZED option \<Rightarrow> bool pg_result" where
  "ST_NurbsCurveIsRational env arg0 =
     (case arg0 of
        None \<Rightarrow> Inr PG_NULL
      | Some pnurbs \<Rightarrow>
          bindE (lwgeom_from_gserialized env pnurbs) (\<lambda>geom.
          case as_nurbs geom of
            None \<Rightarrow> Inl not_a_curve
          | Some nurbs \<Rightarrow> Inr (PG_VALUE (nc_weights nurbs \<noteq> None))))"

text \<open>
  The checks of \<open>ST_NurbsCurveIsValid\<close> on a curve, each \<open>goto cleanup\<close> with
  \<open>is_valid = false\<close> being the answer \<open>False\<close>. The sums are those of \<open>uint32_t\<close>. The two
  loops look for an index that fails; they read the arrays at the indices the source
  reads.
\<close>

definition nurbs_weights_ok :: "LWNURBSCURVE \<Rightarrow> POINTARRAY \<Rightarrow> bool" where
  "nurbs_weights_ok nurbs pa =
     (case nc_weights nurbs of
        None \<Rightarrow> True
      | Some ws \<Rightarrow>
          if nc_nweights nurbs > 0 then
            if nc_nweights nurbs < npoints pa then False
            else \<not> list_ex (\<lambda>i. dbl_le (ws ! i) d_zero)
                    [0..<min (nc_nweights nurbs) (npoints pa)]
          else True)"

definition nurbs_knots_ok :: "LWNURBSCURVE \<Rightarrow> POINTARRAY \<Rightarrow> bool" where
  "nurbs_knots_ok nurbs pa =
     (case nc_knots nurbs of
        None \<Rightarrow> True
      | Some ks \<Rightarrow>
          if nc_nknots nurbs > 0 then
            let expected_knots = u32_add (u32_add (npoints pa) (nc_degree nurbs)) 1 in
            if nc_nknots nurbs < expected_knots then False
            else
              let actual_check_count =
                    (if nc_nknots nurbs < expected_knots then nc_nknots nurbs
                     else expected_knots)
              in \<not> list_ex (\<lambda>i. dbl_lt (ks ! i) (ks ! (i - 1))) [1..<actual_check_count]
          else True)"

definition ST_NurbsCurveIsValid :: "pgenv \<Rightarrow> GSERIALIZED option \<Rightarrow> bool pg_result" where
  "ST_NurbsCurveIsValid env arg0 =
     (case arg0 of
        None \<Rightarrow> Inr PG_NULL
      | Some pnurbs \<Rightarrow>
          bindE (lwgeom_from_gserialized env pnurbs) (\<lambda>geom.
          case as_nurbs geom of
            None \<Rightarrow> Inr (PG_VALUE False)
          | Some nurbs \<Rightarrow>
             (case nc_points nurbs of
                None \<Rightarrow> Inr (PG_VALUE False)
              | Some pa \<Rightarrow>
                  if npoints pa < u32_add (nc_degree nurbs) 1 then Inr (PG_VALUE False)
                  else if \<not> nurbs_weights_ok nurbs pa then Inr (PG_VALUE False)
                  else Inr (PG_VALUE (nurbs_knots_ok nurbs pa)))))"

section \<open>Valid geometries\<close>

text \<open>
  The invariants of the data model that the encoder relies on: every point array holds as
  many ordinates as its count and flags say; the Z and M flags of a geometry are those of
  each of its point arrays and of each of its members; a point has at most one coordinate;
  the weights and knots of a curve hold at least as many entries as their counts; a cached
  box has the dimensions of its geometry.
\<close>

definition ptarray_agrees :: "lwflags \<Rightarrow> POINTARRAY \<Rightarrow> bool" where
  "ptarray_agrees f pa \<longleftrightarrow>
     ptarray_wf pa \<and> FLAGS_GET_Z (pa_flags pa) = FLAGS_GET_Z f
     \<and> FLAGS_GET_M (pa_flags pa) = FLAGS_GET_M f"

fun lwgeom_valid :: "LWGEOM \<Rightarrow> bool" where
  "lwgeom_valid (Point g) = (ptarray_agrees (pt_flags g) (point g) \<and> npoints (point g) \<le> 1)"
| "lwgeom_valid (Line g) = ptarray_agrees (ln_flags g) (points g)"
| "lwgeom_valid (CircString g) = ptarray_agrees (ln_flags g) (points g)"
| "lwgeom_valid (Triangle g) = ptarray_agrees (ln_flags g) (points g)"
| "lwgeom_valid (Poly g) = list_all (ptarray_agrees (py_flags g)) (rings g)"
| "lwgeom_valid (Collection t b s f gs) =
     list_all (\<lambda>g. lwgeom_valid g \<and> FLAGS_GET_Z (geom_flags g) = FLAGS_GET_Z f
                  \<and> FLAGS_GET_M (geom_flags g) = FLAGS_GET_M f) gs"
| "lwgeom_valid (Nurbs g) =
     ((case nc_points g of Some pa \<Rightarrow> ptarray_agrees (nc_flags g) pa | None \<Rightarrow> True)
      \<and> (case nc_weights g of Some ws \<Rightarrow> nc_nweights g \<le> length ws | None \<Rightarrow> True)
      \<and> (case nc_knots g of Some ks \<Rightarrow> nc_nknots g \<le> length ks | None \<Rightarrow> True))"

definition gbox_agrees :: "LWGEOM \<Rightarrow> bool" where
  "gbox_agrees geom \<longleftrightarrow>
     (case geom_bbox geom of
        None \<Rightarrow> True
      | Some b \<Rightarrow> FLAGS_GET_Z (gb_flags b) = FLAGS_GET_Z (geom_flags geom)
                 \<and> FLAGS_GET_M (gb_flags b) = FLAGS_GET_M (geom_flags geom)
                 \<and> FLAGS_GET_GEODETIC (gb_flags b) = FLAGS_GET_GEODETIC (geom_flags geom))"

section \<open>Closed forms and sample inputs\<close>

text \<open>The clamped uniform knot vector in the words of the spec: \<open>npoints + degree + 1\<close>
  entries, the first \<open>degree + 1\<close> zero, the last \<open>degree + 1\<close> one, and the interior
  entry number \<open>i\<close> equal to \<open>i / (K + 1)\<close> for \<open>K = npoints - degree - 1\<close> (so that
  \<open>K + 1 = npoints - degree\<close>).\<close>

definition uniform_knots_spec :: "cenv \<Rightarrow> nat \<Rightarrow> nat \<Rightarrow> double list" where
  "uniform_knots_spec env p n =
     map (\<lambda>k. if k < p + 1 then d_zero
              else if k < n then fdiv env (u32_to_double env (k - p)) (u32_to_double env (n - p))
              else d_one) [0..<n + p + 1]"

text \<open>An instance of the machine environment, for running the model on concrete inputs
  whose result does not depend on the rounding operations.\<close>

definition cenv_sample :: cenv where
  "cenv_sample = \<lparr>fadd = (\<lambda>a b. a + b), fsub = (\<lambda>a b. a - b), fmul = (\<lambda>a b. a * b),
     fdiv = (\<lambda>a b. a div b), u32_to_double = of_nat, lwalloc_fill = 0\<rparr>"

text \<open>A table of WKB type numbers for the same purpose: only the type word of an output
  depends on it.\<close>

definition wkb_code_sample :: "lwtype \<Rightarrow> nat" where
  "wkb_code_sample t = 0"

definition variant_iso_ndr :: wkb_variant where
  "variant_iso_ndr = \<lparr>WKB_ISO = True, WKB_SFSQL = False, WKB_EXTENDED = False, WKB_NDR = True,
     WKB_XDR = False, WKB_HEX = False, WKB_NO_NPOINTS = False, WKB_NO_SRID = False\<rparr>"

text \<open>The double 0.5.\<close>

definition d_half :: double where
  "d_half = 0x3FE0000000000000"

text \<open>A curve of degree 2 with the single control point (0 0), no weights and no knots.\<close>

definition curve_deg2_one_point :: LWNURBSCURVE where
  "curve_deg2_one_point =
     \<lparr>nc_bbox = None, nc_flags = flags_zero, nc_srid = SRID_UNKNOWN, nc_degree = 2,
      nc_points = Some \<lparr>npoints = 1, pa_flags = flags_zero,
                         serialized_pointlist = [d_zero, d_zero]\<rparr>,
      nc_weights = None, nc_nweights = 0, nc_knots = None, nc_nknots = 0\<rparr>"

text \<open>The control points (0 0), (1 1), (2 0) of the spec's scenario S4.\<close>

definition d_two :: double where
  "d_two = 0x4000000000000000"

definition ctrl_pts_s4 :: POINTARRAY where
  "ctrl_pts_s4 = \<lparr>npoints = 3, pa_flags = flags_zero,
     serialized_pointlist = [d_zero, d_zero, d_one, d_one, d_two, d_zero]\<rparr>"


text \<open>An instance of the library environment in which no geometry needs a cached box;
  the float conversions are not used then.\<close>

definition lwenv_sample :: lwenv where
  "lwenv_sample = \<lparr>clamp_srid = (\<lambda>s. s), lwgeom_needs_bbox = (\<lambda>g. False),
     lwgeom_calculate_gbox = (\<lambda>g b. None), next_float_down = (\<lambda>d. 0),
     next_float_up = (\<lambda>d. 0), float_to_double = (\<lambda>f. 0), stack_gbox = gbox_new flags_zero\<rparr>"

text \<open>The doubles 5.0 and 10.0, and the line (0 0, 10 5) of the spec's scenario S3.\<close>

definition d_five :: double where
  "d_five = 0x4014000000000000"

definition d_ten :: double where
  "d_ten = 0x4024000000000000"

definition line_s3 :: LWLINE where
  "line_s3 = \<lparr>ln_bbox = None,
     points = \<lparr>npoints = 2, pa_flags = flags_zero,
                serialized_pointlist = [d_zero, d_zero, d_ten, d_five]\<rparr>,
     ln_srid = SRID_UNKNOWN, ln_flags = flags_zero\<rparr>"

text \<open>A polygon of one ring (0 0, 1 1, 2 0, 0 0) with SRID 4326.\<close>

definition poly_one_ring :: LWPOLY where
  "poly_one_ring = \<lparr>py_bbox = None,
     rings = [\<lparr>npoints = 4, pa_flags = flags_zero,
               serialized_pointlist = [d_zero, d_zero, d_one, d_one, d_two, d_zero,
                                       d_zero, d_zero]\<rparr>],
     py_srid = 4326, py_flags = flags_zero\<rparr>"

text \<open>The point (1 2) with SRID 4326, and a collection of an empty curve and that point.\<close>

definition point_1_2 :: LWPOINT where
  "point_1_2 = lwpoint_construct 4326 None
     \<lparr>npoints = 1, pa_flags = flags_zero, serialized_pointlist = [d_one, d_two]\<rparr>"

definition coll_empty_curve_and_point :: LWGEOM where
  "coll_empty_curve_and_point =
     Collection COLLECTIONTYPE None 4326 flags_zero
       [Nurbs (lwnurbscurve_construct_empty 4326 False False), Point point_1_2]"

text \<open>The curve of degree 2 over the control points of S4 with SRID 4326, the weights
  (1, 1, 1) and the knots (0, 0, 0, 1, 1, 1).\<close>

definition curve_s4_4326 :: LWNURBSCURVE where
  "curve_s4_4326 =
     \<lparr>nc_bbox = None, nc_flags = flags_zero, nc_srid = 4326, nc_degree = 2,
      nc_points = Some ctrl_pts_s4,
      nc_weights = Some [d_one, d_one, d_one], nc_nweights = 3,
      nc_knots = Some [d_zero, d_zero, d_zero, d_one, d_one, d_one], nc_nknots = 6\<rparr>"

text \<open>The payload of that curve: the type 16, the counts 3, 2, 3 and 6, then the
  weights, the knots and the control points, each double in little-endian order.\<close>

definition curve_s4_payload :: "byte list" where
  "curve_s4_payload =
     [0x10, 0, 0, 0, 3, 0, 0, 0, 2, 0, 0, 0, 3, 0, 0, 0,
            6, 0, 0, 0, 0, 0, 0, 0, 0, 0, 0xf0, 0x3f, 0, 0, 0, 0,
            0, 0, 0xf0, 0x3f, 0, 0, 0, 0, 0, 0, 0xf0, 0x3f, 0, 0, 0, 0,
            0, 0, 0, 0, 0, 0, 0, 0, 0, 0, 0, 0, 0, 0, 0, 0,
            0, 0, 0, 0, 0, 0, 0, 0, 0, 0, 0xf0, 0x3f, 0, 0, 0, 0,
            0, 0, 0xf0, 0x3f, 0, 0, 0, 0, 0, 0, 0xf0, 0x3f, 0, 0, 0, 0,
            0, 0, 0, 0, 0, 0, 0, 0, 0, 0, 0, 0, 0, 0, 0, 0,
            0, 0, 0xf0, 0x3f, 0, 0, 0, 0, 0, 0, 0xf0, 0x3f, 0, 0, 0, 0,
            0, 0, 0, 0x40, 0, 0, 0, 0, 0, 0, 0, 0]"

text \<open>An instance of the SQL environment whose deserializer is the GS2 decoder, and the
  serialized form of the line of S3.\<close>

definition pgenv_sample :: pgenv where
  "pgenv_sample =
     \<lparr>lwgeom_from_gserialized =
        (\<lambda>g. case lwgeom_from_gserialized2 lwenv_sample g of
                Inl e \<Rightarrow> Inl (ERRCODE_INTERNAL_ERROR, ''lwerror'')
              | Inr geom \<Rightarrow> Inr (Some geom)),
      geometry_serialize =
        (\<lambda>geom. case gserialized2_from_lwgeom lwenv_sample geom of
                   Inl e \<Rightarrow> \<lparr>gs_size = 0, gs_srid = [], gs_gflags = lwflags_get_g2flags flags_zero,
                              gs_data = []\<rparr>
                 | Inr g \<Rightarrow> g),
      lwmpoint_construct = (\<lambda>srid pa. None)\<rparr>"

definition line_s3_serialized_form :: GSERIALIZED where
  "line_s3_serialized_form =
     \<lparr>gs_size = 48, gs_srid = [0, 0, 0], gs_gflags = lwflags_get_g2flags flags_zero,
      gs_data = [2, 0, 0, 0, 2, 0, 0, 0,
                 0, 0, 0, 0, 0, 0, 0, 0, 0, 0, 0, 0, 0, 0, 0, 0,
                 0, 0, 0, 0, 0, 0, 0x24, 0x40, 0, 0, 0, 0, 0, 0, 0x14, 0x40]\<rparr>"

section \<open>Verified properties: NURBS engine\<close>

subsection \<open>Machine arithmetic\<close>

lemma u32_add_small: "a + b < 2 ^ 32 \<Longrightarrow> u32_add a b = a + b"
  by (simp add: u32_add_def)

lemma u32_mul_small: "a * b < 2 ^ 32 \<Longrightarrow> u32_mul a b = a * b"
  by (simp add: u32_mul_def)

lemma u32_sub_small:
  assumes "b \<le> a" "a < 2 ^ 32"
  shows "u32_sub a b = a - b"
proof -
  have "(a + 2 ^ 32 - b) mod 2 ^ 32 = ((a - b) + 2 ^ 32) mod (2 ^ 32 :: nat)"
    using assms by simp
  also have "\<dots> = (a - b) mod 2 ^ 32" by simp
  also have "\<dots> = a - b" using assms by simp
  finally show ?thesis using assms by (simp add: u32_sub_def)
qed

lemma dbl_zero_key: "dbl_key d_zero = 0" "\<not> dbl_is_nan d_zero"
  by (simp_all add: dbl_key_def d_zero_def dbl_is_nan_def dbl_mag_def)

lemma dbl_one_key: "dbl_key d_one = 0x3FF0000000000000" "\<not> dbl_is_nan d_one"
  by (simp_all add: dbl_key_def d_one_def dbl_is_nan_def dbl_mag_def)

lemma dbl_half_key: "dbl_key d_half = 0x3FE0000000000000" "\<not> dbl_is_nan d_half"
  by (simp_all add: dbl_key_def d_half_def dbl_is_nan_def dbl_mag_def)

lemma dbl_le_one_not_le_zero: "dbl_le d_one t \<Longrightarrow> \<not> dbl_le t d_zero"
  by (simp add: dbl_le_def dbl_zero_key dbl_one_key)

lemma dbl_lt_not_le: "dbl_lt a b \<Longrightarrow> \<not> dbl_le b a"
  by (simp add: dbl_lt_def dbl_le_def)

subsection \<open>Store loops\<close>

lemma store_loop_length [simp]: "length (store_loop lo hi idx f xs) = length xs"
proof -
  have "length (fold (\<lambda>i a. a[idx i := f i]) js xs) = length xs" for js
    by (induction js arbitrary: xs) auto
  then show ?thesis by (simp add: store_loop_def)
qed

lemma store_loop_cong:
  assumes "\<And>i. lo \<le> i \<Longrightarrow> i < hi \<Longrightarrow> idx i = idx' i \<and> f i = f' i"
  shows "store_loop lo hi idx f xs = store_loop lo hi idx' f' xs"
proof -
  have "(\<forall>i \<in> set js. idx i = idx' i \<and> f i = f' i) \<Longrightarrow>
        fold (\<lambda>i a. a[idx i := f i]) js xs = fold (\<lambda>i a. a[idx' i := f' i]) js xs" for js
    by (induction js arbitrary: xs) auto
  then show ?thesis using assms by (simp add: store_loop_def)
qed

lemma store_loop_Suc:
  "lo \<le> hi \<Longrightarrow> store_loop lo (Suc hi) idx f xs = (store_loop lo hi idx f xs)[idx hi := f hi]"
  by (simp add: store_loop_def)

lemma store_loop_empty: "hi \<le> lo \<Longrightarrow> store_loop lo hi idx f xs = xs"
  by (simp add: store_loop_def)

lemma store_loop_nth:
  assumes "k < length xs"
  shows "store_loop lo hi (\<lambda>i. c + i) f xs ! k =
         (if c + lo \<le> k \<and> k < c + hi then f (k - c) else xs ! k)"
proof (induction hi)
  case 0
  then show ?case by (auto simp: store_loop_empty)
next
  case (Suc hi)
  show ?case
  proof (cases "lo \<le> hi")
    case True
    have "store_loop lo (Suc hi) (\<lambda>i. c + i) f xs ! k =
          (if k = c + hi then f hi else store_loop lo hi (\<lambda>i. c + i) f xs ! k)"
      using True assms by (simp add: store_loop_Suc nth_list_update)
    also have "\<dots> = (if c + lo \<le> k \<and> k < c + Suc hi then f (k - c) else xs ! k)"
      using True by (auto simp: Suc)
    finally show ?thesis .
  next
    case False
    then have "Suc hi \<le> lo" by simp
    then show ?thesis by (auto simp: store_loop_empty)
  qed
qed

lemma store_loop_nth_id:
  assumes "k < length xs"
  shows "store_loop lo hi (\<lambda>i. i) f xs ! k = (if lo \<le> k \<and> k < hi then f k else xs ! k)"
  using store_loop_nth [OF assms, of lo hi 0 f] by simp

subsection \<open>Knot synthesis\<close>

lemma uniform_knots_spec_length [simp]:
  "length (uniform_knots_spec env p n) = n + p + 1"
  by (simp add: uniform_knots_spec_def)

lemma uniform_knots_spec_nth:
  "k < n + p + 1 \<Longrightarrow> uniform_knots_spec env p n ! k =
     (if k < p + 1 then d_zero
      else if k < n then fdiv env (u32_to_double env (k - p)) (u32_to_double env (n - p))
      else d_one)"
  unfolding uniform_knots_spec_def by (simp del: upt_Suc)

lemma generate_uniform_knots_eq:
  assumes "1 \<le> p" "p + 1 \<le> n" "n + p + 1 < 2 ^ 32"
  shows "lwnurbscurve_generate_uniform_knots env p n = Some (uniform_knots_spec env p n)"
proof -
  let ?k0 = "replicate (n + p + 1) (lwalloc_fill env)"
  let ?k1 = "store_loop 0 (p + 1) (\<lambda>i. i) (\<lambda>i. d_zero) ?k0"
  let ?k2 = "store_loop n (n + p + 1) (\<lambda>i. i) (\<lambda>i. d_one) ?k1"
  let ?f = "\<lambda>i. fdiv env (u32_to_double env (i + 1)) (u32_to_double env (n - p))"
  let ?k3 = "store_loop 0 (n - p - 1) (\<lambda>i. (p + 1) + i) ?f ?k2"
  have a: "u32_add p 1 = p + 1" using assms by (simp add: u32_add_small)
  have b: "u32_add (u32_add n p) 1 = n + p + 1" using assms by (simp add: u32_add_small)
  have c: "u32_mul 2 (p + 1) = 2 * (p + 1)" using assms by (simp add: u32_mul_small)
  have d: "u32_sub (u32_sub (n + p + 1) p) 1 = n" using assms by (simp add: u32_sub_small)
  have e: "u32_sub (n + p + 1) (2 * (p + 1)) = n - p - 1" using assms by (simp add: u32_sub_small)
  have f: "store_loop 0 (n - p - 1) (\<lambda>i. u32_add (p + 1) i)
              (\<lambda>i. fdiv env (u32_to_double env (u32_add i 1))
                      (u32_to_double env (u32_add (n - p - 1) 1))) ys
           = store_loop 0 (n - p - 1) (\<lambda>i. (p + 1) + i) ?f ys" for ys
  proof (rule store_loop_cong)
    fix i assume "0 \<le> i" "i < n - p - 1"
    moreover have "n - p - 1 + 1 = n - p" using assms by arith
    ultimately show "u32_add (p + 1) i = p + 1 + i \<and>
          fdiv env (u32_to_double env (u32_add i 1)) (u32_to_double env (u32_add (n - p - 1) 1))
            = ?f i"
      using assms by (simp add: u32_add_small)
  qed
  have guard: "\<not> (p = 0 \<or> n < p + 1)" using assms by simp
  have g: "lwnurbscurve_generate_uniform_knots env p n = Some ?k3"
  proof (cases "n + p + 1 > 2 * (p + 1)")
    case True
    show ?thesis
      unfolding lwnurbscurve_generate_uniform_knots_def Let_def a b c d e f
      by (simp only: guard True if_False if_True)
  next
    case False
    then have z: "n - p - 1 = 0" by simp
    have "?k3 = ?k2" unfolding z by (simp only: store_loop_empty [OF order_refl])
    then show ?thesis
      unfolding lwnurbscurve_generate_uniform_knots_def Let_def a b c d e f
      by (simp only: guard False if_False)
  qed
  have "?k3 = uniform_knots_spec env p n"
  proof (rule nth_equalityI)
    show "length ?k3 = length (uniform_knots_spec env p n)" by simp
  next
    fix k assume "k < length ?k3"
    then have k: "k < n + p + 1" by simp
    have l2: "k < length ?k2" and l1: "k < length ?k1" and l0: "k < length ?k0"
      using k by simp_all
    have "?k3 ! k = (if (p + 1) + 0 \<le> k \<and> k < (p + 1) + (n - p - 1)
                     then ?f (k - (p + 1)) else ?k2 ! k)"
      by (rule store_loop_nth [OF l2])
    moreover have "?k2 ! k = (if n \<le> k \<and> k < n + p + 1 then d_one else ?k1 ! k)"
      by (rule store_loop_nth_id [OF l1])
    moreover have "?k1 ! k = (if 0 \<le> k \<and> k < p + 1 then d_zero else ?k0 ! k)"
      by (rule store_loop_nth_id [OF l0])
    moreover note uniform_knots_spec_nth [OF k, of env]
    moreover have "p + 1 + (n - p - 1) = n" using assms by arith
    moreover have "k - (p + 1) + 1 = k - p" if "p + 1 \<le> k" using that by arith
    ultimately show "?k3 ! k = uniform_knots_spec env p n ! k"
      using assms k by auto
  qed
  with g show ?thesis by simp
qed

text \<open>
  C6. For a degree \<open>p\<close> in [1,10] and \<open>n\<close> control points (with \<open>n + p + 1\<close> in the range of
  \<open>uint32_t\<close>): when \<open>n \<ge> p + 1\<close> the synthesis returns a vector of length \<open>n + p + 1\<close>
  whose first \<open>p + 1\<close> entries are 0.0, whose last \<open>p + 1\<close> entries are 1.0 and whose
  \<open>K = n - p - 1\<close> interior entries are the double quotients \<open>i / (K + 1)\<close> for
  \<open>i = 1..K\<close>; when \<open>n < p + 1\<close> it returns no knots.
\<close>

theorem generate_uniform_knots_clamped:
  assumes "1 \<le> p" "p \<le> 10" "n + p + 1 < 2 ^ 32"
  shows "(p + 1 \<le> n \<longrightarrow>
            (\<exists>ks. lwnurbscurve_generate_uniform_knots env p n = Some ks
               \<and> length ks = n + p + 1
               \<and> (\<forall>i < p + 1. ks ! i = d_zero)
               \<and> (\<forall>i < p + 1. ks ! (n + i) = d_one)
               \<and> (\<forall>i. 1 \<le> i \<and> i \<le> n - p - 1 \<longrightarrow>
                     ks ! (p + i) = fdiv env (u32_to_double env i)
                                      (u32_to_double env (n - p - 1 + 1)))))
       \<and> (n < p + 1 \<longrightarrow> lwnurbscurve_generate_uniform_knots env p n = None)"
proof (intro conjI impI)
  assume "n < p + 1"
  then show "lwnurbscurve_generate_uniform_knots env p n = None"
    using assms by (simp add: lwnurbscurve_generate_uniform_knots_def u32_add_small)
next
  assume h: "p + 1 \<le> n"
  let ?ks = "uniform_knots_spec env p n"
  have eq: "lwnurbscurve_generate_uniform_knots env p n = Some ?ks"
    using generate_uniform_knots_eq [OF assms(1) h assms(3)] .
  have len: "length ?ks = n + p + 1" by simp
  have z: "\<forall>i < p + 1. ?ks ! i = d_zero"
    using h by (simp add: uniform_knots_spec_nth)
  have o: "\<forall>i < p + 1. ?ks ! (n + i) = d_one"
    using h by (simp add: uniform_knots_spec_nth)
  have m: "\<forall>i. 1 \<le> i \<and> i \<le> n - p - 1 \<longrightarrow>
             ?ks ! (p + i) = fdiv env (u32_to_double env i) (u32_to_double env (n - p - 1 + 1))"
  proof (intro allI impI)
    fix i assume i: "1 \<le> i \<and> i \<le> n - p - 1"
    have e: "n - p - 1 + 1 = n - p" using h by arith
    have "p + i < n" "\<not> p + i < p + 1" "p + i < n + p + 1" "p + i - p = i" using i h by arith+
    then show "?ks ! (p + i) = fdiv env (u32_to_double env i) (u32_to_double env (n - p - 1 + 1))"
      unfolding e by (simp add: uniform_knots_spec_nth)
  qed
  show "\<exists>ks. lwnurbscurve_generate_uniform_knots env p n = Some ks
               \<and> length ks = n + p + 1
               \<and> (\<forall>i < p + 1. ks ! i = d_zero)
               \<and> (\<forall>i < p + 1. ks ! (n + i) = d_one)
               \<and> (\<forall>i. 1 \<le> i \<and> i \<le> n - p - 1 \<longrightarrow>
                     ks ! (p + i) = fdiv env (u32_to_double env i)
                                      (u32_to_double env (n - p - 1 + 1)))"
    using eq len z o m by blast
qed

theorem generate_uniform_knots_clamped_witness:
  "(1::nat) \<le> 2 \<and> (2::nat) \<le> 10 \<and> (5::nat) + 2 + 1 < 2 ^ 32 \<and> (2::nat) + 1 \<le> 5
   \<and> (\<exists>ks. lwnurbscurve_generate_uniform_knots cenv_sample 2 5 = Some ks \<and> length ks = 8
         \<and> ks ! 0 = d_zero \<and> ks ! 2 = d_zero \<and> ks ! 5 = d_one \<and> ks ! 7 = d_one
         \<and> ks ! 3 = fdiv cenv_sample (u32_to_double cenv_sample 1) (u32_to_double cenv_sample 3))
   \<and> lwnurbscurve_generate_uniform_knots cenv_sample 2 1 = None"
proof -
  have h: "(1::nat) \<le> 2" "(2::nat) \<le> 10" "(5::nat) + 2 + 1 < 2 ^ 32" "(1::nat) + 2 + 1 < 2 ^ 32"
    by simp_all
  from generate_uniform_knots_clamped [OF h(1) h(2) h(3), of cenv_sample]
  obtain ks where ks: "lwnurbscurve_generate_uniform_knots cenv_sample 2 5 = Some ks"
      "length ks = 5 + 2 + 1" "\<forall>i < 2 + 1. ks ! i = d_zero" "\<forall>i < 2 + 1. ks ! (5 + i) = d_one"
      "\<forall>i. 1 \<le> i \<and> i \<le> 5 - 2 - 1 \<longrightarrow>
          ks ! (2 + i) = fdiv cenv_sample (u32_to_double cenv_sample i)
                           (u32_to_double cenv_sample (5 - 2 - 1 + 1))"
    by auto
  have "ks ! 0 = d_zero" "ks ! 2 = d_zero" using ks(3) by simp_all
  moreover have "ks ! 5 = d_one" "ks ! 7 = d_one"
    using ks(4) [rule_format, of 0] ks(4) [rule_format, of 2] by simp_all
  moreover have "ks ! 3 = fdiv cenv_sample (u32_to_double cenv_sample 1)
                           (u32_to_double cenv_sample 3)"
    using ks(5) [rule_format, of 1] by simp
  moreover have "lwnurbscurve_generate_uniform_knots cenv_sample 2 1 = None"
    using generate_uniform_knots_clamped [OF h(1) h(2) h(4), of cenv_sample] by simp
  ultimately show ?thesis using ks(1,2) by simp
qed

subsection \<open>Construction\<close>

text \<open>
  C7, as stated, fails where no point array is given: the two count checks are guarded by
  \<open>points &&\<close>, so weights whose count differs from the number of control points (none)
  are accepted. Here one weight and no control points give a curve.
\<close>

theorem construct_null_points_counterexample:
  "lwnurbscurve_construct 0 None 2 None (Some [d_one]) None 1 0 =
     Inr (Some \<lparr>nc_bbox = None, nc_flags = flags_zero, nc_srid = 0, nc_degree = 2,
                nc_points = None, nc_weights = Some [d_one], nc_nweights = 1,
                nc_knots = None, nc_nknots = 0\<rparr>)"
  by (simp add: lwnurbscurve_construct_def)

text \<open>
  C7, amended. \<open>lwnurbscurve_construct\<close> returns no curve for a degree outside [1,10], for
  control points given together with weights whose count differs from the number of control
  points, and for control points given together with knots whose count differs from
  \<open>npoints + degree + 1\<close>. For every other input (in particular when no point array is
  given) it returns a curve holding the given degree and points, and copies of the first
  \<open>nweights\<close> weights and the first \<open>nknots\<close> knots (none when the count is zero).
\<close>

theorem construct_validation:
  "(degree < 1 \<or> 10 < degree \<longrightarrow>
      lwnurbscurve_construct srid bbox degree pts wts kts nweights nknots = Inr None)
   \<and> (1 \<le> degree \<and> degree \<le> 10 \<and> pts = Some pa \<and> wts \<noteq> None \<and> nweights \<noteq> npoints pa \<longrightarrow>
        (\<exists>e. lwnurbscurve_construct srid bbox degree pts wts kts nweights nknots = Inl e))
   \<and> (1 \<le> degree \<and> degree \<le> 10 \<and> pts = Some pa \<and> kts \<noteq> None
        \<and> npoints pa + degree + 1 < 2 ^ 32 \<and> nknots \<noteq> npoints pa + degree + 1 \<longrightarrow>
        (\<exists>e. lwnurbscurve_construct srid bbox degree pts wts kts nweights nknots = Inl e))
   \<and> (1 \<le> degree \<and> degree \<le> 10
        \<and> (\<forall>pa. pts = Some pa \<longrightarrow>
              (wts \<noteq> None \<longrightarrow> nweights = npoints pa)
              \<and> (kts \<noteq> None \<longrightarrow> nknots = npoints pa + degree + 1 \<and> nknots < 2 ^ 32)) \<longrightarrow>
        lwnurbscurve_construct srid bbox degree pts wts kts nweights nknots =
          Inr (Some
            \<lparr>nc_bbox = bbox,
             nc_flags = (case pts of Some pa \<Rightarrow> pa_flags pa | None \<Rightarrow> flags_zero),
             nc_srid = srid, nc_degree = degree, nc_points = pts,
             nc_weights = (case wts of
                             Some ws \<Rightarrow> if nweights > 0 then Some (take nweights ws) else None
                           | None \<Rightarrow> None),
             nc_nweights = nweights,
             nc_knots = (case kts of
                           Some ks \<Rightarrow> if nknots > 0 then Some (take nknots ks) else None
                         | None \<Rightarrow> None),
             nc_nknots = nknots\<rparr>))"
proof (intro conjI impI)
  assume "degree < 1 \<or> 10 < degree"
  then show "lwnurbscurve_construct srid bbox degree pts wts kts nweights nknots = Inr None"
    by (auto simp: lwnurbscurve_construct_def)
next
  assume "1 \<le> degree \<and> degree \<le> 10 \<and> pts = Some pa \<and> wts \<noteq> None \<and> nweights \<noteq> npoints pa"
  then show "\<exists>e. lwnurbscurve_construct srid bbox degree pts wts kts nweights nknots = Inl e"
    by (auto simp: lwnurbscurve_construct_def)
next
  assume h: "1 \<le> degree \<and> degree \<le> 10 \<and> pts = Some pa \<and> kts \<noteq> None
        \<and> npoints pa + degree + 1 < 2 ^ 32 \<and> nknots \<noteq> npoints pa + degree + 1"
  then have "u32_add (u32_add (npoints pa) degree) 1 = npoints pa + degree + 1"
    by (simp add: u32_add_small)
  with h show "\<exists>e. lwnurbscurve_construct srid bbox degree pts wts kts nweights nknots = Inl e"
    by (auto simp: lwnurbscurve_construct_def)
next
  assume h: "1 \<le> degree \<and> degree \<le> 10
        \<and> (\<forall>pa. pts = Some pa \<longrightarrow>
              (wts \<noteq> None \<longrightarrow> nweights = npoints pa)
              \<and> (kts \<noteq> None \<longrightarrow> nknots = npoints pa + degree + 1 \<and> nknots < 2 ^ 32))"
  show "lwnurbscurve_construct srid bbox degree pts wts kts nweights nknots =
          Inr (Some
            \<lparr>nc_bbox = bbox,
             nc_flags = (case pts of Some pa \<Rightarrow> pa_flags pa | None \<Rightarrow> flags_zero),
             nc_srid = srid, nc_degree = degree, nc_points = pts,
             nc_weights = (case wts of
                             Some ws \<Rightarrow> if nweights > 0 then Some (take nweights ws) else None
                           | None \<Rightarrow> None),
             nc_nweights = nweights,
             nc_knots = (case kts of
                           Some ks \<Rightarrow> if nknots > 0 then Some (take nknots ks) else None
                         | None \<Rightarrow> None),
             nc_nknots = nknots\<rparr>)"
  proof (cases pts)
    case None
    then show ?thesis using h by (simp add: lwnurbscurve_construct_def)
  next
    case (Some pa)
    have k: "kts \<noteq> None \<Longrightarrow> nknots = u32_add (u32_add (npoints pa) degree) 1"
      using h Some by (simp add: u32_add_small)
    show ?thesis using h Some k by (auto simp: lwnurbscurve_construct_def)
  qed
qed

theorem construct_validation_witness:
  "lwnurbscurve_construct 0 None 0 (Some ctrl_pts_s4) None None 0 0 = Inr None
   \<and> (\<exists>e. lwnurbscurve_construct 0 None 2 (Some ctrl_pts_s4) (Some [d_one]) None 1 0 = Inl e)
   \<and> (\<exists>e. lwnurbscurve_construct 0 None 2 (Some ctrl_pts_s4) None (Some [d_zero]) 0 1 = Inl e)
   \<and> lwnurbscurve_construct 0 None 2 (Some ctrl_pts_s4) (Some [d_one, d_two, d_one]) None 3 0 =
       Inr (Some \<lparr>nc_bbox = None, nc_flags = flags_zero, nc_srid = 0, nc_degree = 2,
                  nc_points = Some ctrl_pts_s4, nc_weights = Some [d_one, d_two, d_one],
                  nc_nweights = 3, nc_knots = None, nc_nknots = 0\<rparr>)"
  using construct_validation [where degree = 0 and srid = 0 and bbox = None
          and pts = "Some ctrl_pts_s4" and wts = None and kts = None and nweights = 0
          and nknots = 0 and pa = ctrl_pts_s4]
        construct_validation [where degree = 2 and srid = 0 and bbox = None
          and pts = "Some ctrl_pts_s4" and wts = "Some [d_one]" and kts = None and nweights = 1
          and nknots = 0 and pa = ctrl_pts_s4]
        construct_validation [where degree = 2 and srid = 0 and bbox = None
          and pts = "Some ctrl_pts_s4" and wts = None and kts = "Some [d_zero]" and nweights = 0
          and nknots = 1 and pa = ctrl_pts_s4]
        construct_validation [where degree = 2 and srid = 0 and bbox = None
          and pts = "Some ctrl_pts_s4" and wts = "Some [d_one, d_two, d_one]" and kts = None
          and nweights = 3 and nknots = 0 and pa = ctrl_pts_s4]
  by (simp add: ctrl_pts_s4_def)

subsection \<open>Evaluation\<close>

text \<open>What \<open>create_result\<close> holds for a control point: a point array of one point, with
  the ordinates of that control point, under the curve's SRID.\<close>

lemma take_2_nth: "2 \<le> length xs \<Longrightarrow> take 2 xs = [xs ! 0, xs ! 1]"
  by (cases xs; cases "tl xs") auto

lemma take_3_nth: "3 \<le> length xs \<Longrightarrow> take 3 xs = [xs ! 0, xs ! 1, xs ! 2]"
  by (cases xs; cases "tl xs"; cases "tl (tl xs)") auto

lemma take_4_nth: "4 \<le> length xs \<Longrightarrow> take 4 xs = [xs ! 0, xs ! 1, xs ! 2, xs ! 3]"
  by (cases xs; cases "tl xs"; cases "tl (tl xs)"; cases "tl (tl (tl xs))") auto

lemma create_result_control_point:
  assumes wf: "ptarray_wf pa" and i: "i < npoints pa"
    and z: "hasz = FLAGS_GET_Z (pa_flags pa)" and m: "hasm = FLAGS_GET_M (pa_flags pa)"
  shows "serialized_pointlist (point (create_result c hasz hasm (getPoint4d_p pa i)))
           = take (FLAGS_NDIMS (pa_flags pa)) (getPoint_internal pa i)"
    and "npoints (point (create_result c hasz hasm (getPoint4d_p pa i))) = 1"
    and "pt_srid (create_result c hasz hasm (getPoint4d_p pa i)) = nc_srid c"
proof -
  let ?d = "FLAGS_NDIMS (pa_flags pa)"
  have "(i + 1) * ?d \<le> npoints pa * ?d" using i by (intro mult_le_mono1) simp
  then have len: "?d \<le> length (getPoint_internal pa i)"
    using wf by (simp add: ptarray_wf_def getPoint_internal_def)
  show "serialized_pointlist (point (create_result c hasz hasm (getPoint4d_p pa i)))
           = take ?d (getPoint_internal pa i)"
    using len z m
    by (cases "FLAGS_GET_Z (pa_flags pa)"; cases "FLAGS_GET_M (pa_flags pa)")
       (simp_all add: create_result_def lwpoint_construct_def ptarray_append_point_def
          ptarray_construct_empty_def lwflags_of_def getPoint4d_p_def FLAGS_NDIMS_def Let_def
          take_2_nth take_3_nth take_4_nth)
  show "npoints (point (create_result c hasz hasm (getPoint4d_p pa i))) = 1"
    by (simp add: create_result_def lwpoint_construct_def ptarray_append_point_def
          ptarray_construct_empty_def Let_def)
  show "pt_srid (create_result c hasz hasm (getPoint4d_p pa i)) = nc_srid c"
    by (simp add: create_result_def lwpoint_construct_def Let_def)
qed

text \<open>
  C9. For a curve with no stored knot vector whose number of control points is at least 1
  and less than \<open>degree + 1\<close>: at a parameter strictly between 0 and 1 the evaluation
  returns an empty point (of the curve's SRID and dimensions), because no knots are
  synthesised; at \<open>t \<le> 0\<close> it returns the first control point and at \<open>t \<ge> 1\<close> the last.
\<close>

theorem evaluate_too_few_points:
  assumes pts: "nc_points c = Some pa"
    and nk: "nc_knots c = None"
    and n1: "1 \<le> npoints pa"
    and np: "npoints pa < nc_degree c + 1"
    and deg: "nc_degree c + 1 < 2 ^ 32"
  shows "(dbl_lt d_zero t \<and> dbl_lt t d_one \<longrightarrow>
            lwnurbscurve_evaluate env (Some c) t =
              lwpoint_construct_empty (nc_srid c) (FLAGS_GET_Z (nc_flags c))
                (FLAGS_GET_M (nc_flags c)))
       \<and> (dbl_le t d_zero \<longrightarrow>
            lwnurbscurve_evaluate env (Some c) t =
              create_result c (FLAGS_GET_Z (nc_flags c)) (FLAGS_GET_M (nc_flags c))
                (getPoint4d_p pa 0))
       \<and> (dbl_le d_one t \<longrightarrow>
            lwnurbscurve_evaluate env (Some c) t =
              create_result c (FLAGS_GET_Z (nc_flags c)) (FLAGS_GET_M (nc_flags c))
                (getPoint4d_p pa (npoints pa - 1)))"
proof -
  have nz: "npoints pa \<noteq> 0" using n1 by simp
  have gen: "lwnurbscurve_generate_uniform_knots env (nc_degree c) (npoints pa) = None"
    using np deg by (simp add: lwnurbscurve_generate_uniform_knots_def u32_add_small)
  have kn: "lwnurbscurve_get_knots_for_wkb env (Some c) = None"
    using pts nk gen by (simp add: lwnurbscurve_get_knots_for_wkb_def)
  have sub: "u32_sub (npoints pa) 1 = npoints pa - 1"
    using n1 np deg by (intro u32_sub_small) simp_all
  show ?thesis
  proof (intro conjI impI)
    assume "dbl_lt d_zero t \<and> dbl_lt t d_one"
    then have "\<not> dbl_le t d_zero" "\<not> dbl_le d_one t" by (simp_all add: dbl_lt_not_le)
    then show "lwnurbscurve_evaluate env (Some c) t =
              lwpoint_construct_empty (nc_srid c) (FLAGS_GET_Z (nc_flags c))
                (FLAGS_GET_M (nc_flags c))"
      using pts nz kn by (simp add: lwnurbscurve_evaluate_def Let_def)
  next
    assume "dbl_le t d_zero"
    then show "lwnurbscurve_evaluate env (Some c) t =
              create_result c (FLAGS_GET_Z (nc_flags c)) (FLAGS_GET_M (nc_flags c))
                (getPoint4d_p pa 0)"
      using pts nz by (simp add: lwnurbscurve_evaluate_def Let_def)
  next
    assume h: "dbl_le d_one t"
    then have "\<not> dbl_le t d_zero" by (rule dbl_le_one_not_le_zero)
    then show "lwnurbscurve_evaluate env (Some c) t =
              create_result c (FLAGS_GET_Z (nc_flags c)) (FLAGS_GET_M (nc_flags c))
                (getPoint4d_p pa (npoints pa - 1))"
      using pts nz h sub by (simp add: lwnurbscurve_evaluate_def Let_def)
  qed
qed

theorem evaluate_too_few_points_witness:
  "lwnurbscurve_evaluate cenv_sample (Some curve_deg2_one_point) d_half =
     lwpoint_construct_empty SRID_UNKNOWN False False
   \<and> lwnurbscurve_evaluate cenv_sample (Some curve_deg2_one_point) d_zero =
       \<lparr>pt_bbox = None,
        point = \<lparr>npoints = 1, pa_flags = flags_zero, serialized_pointlist = [d_zero, d_zero]\<rparr>,
        pt_srid = SRID_UNKNOWN, pt_flags = flags_zero\<rparr>
   \<and> lwnurbscurve_evaluate cenv_sample (Some curve_deg2_one_point) d_one =
       \<lparr>pt_bbox = None,
        point = \<lparr>npoints = 1, pa_flags = flags_zero, serialized_pointlist = [d_zero, d_zero]\<rparr>,
        pt_srid = SRID_UNKNOWN, pt_flags = flags_zero\<rparr>"
proof -
  let ?pa = "\<lparr>npoints = 1, pa_flags = flags_zero, serialized_pointlist = [d_zero, d_zero]\<rparr>"
  have a: "nc_points curve_deg2_one_point = Some ?pa" "nc_knots curve_deg2_one_point = None"
      "1 \<le> npoints ?pa" "npoints ?pa < nc_degree curve_deg2_one_point + 1"
      "nc_degree curve_deg2_one_point + 1 < 2 ^ 32"
    by (simp_all add: curve_deg2_one_point_def)
  have t: "dbl_lt d_zero d_half \<and> dbl_lt d_half d_one" "dbl_le d_zero d_zero" "dbl_le d_one d_one"
    by (simp_all add: dbl_lt_def dbl_le_def dbl_zero_key dbl_one_key dbl_half_key)
  show ?thesis
    using evaluate_too_few_points [OF a, of d_half cenv_sample]
          evaluate_too_few_points [OF a, of d_zero cenv_sample]
          evaluate_too_few_points [OF a, of d_one cenv_sample] t
    by (simp add: curve_deg2_one_point_def create_result_def lwpoint_construct_def
          ptarray_append_point_def ptarray_construct_empty_def getPoint4d_p_def
          getPoint_internal_def flags_zero_def lwflags_of_def Let_def)
qed

text \<open>
  C5. The code at the failing input: a curve with SRID 4326 and a Z dimension but no
  control points, evaluated at 0.5. The first guard of \<open>lwnurbscurve_evaluate\<close> answers for
  a \<open>NULL\<close> curve, a \<open>NULL\<close> point array and an empty point array alike, with
  \<open>lwpoint_construct_empty(SRID_UNKNOWN, 0, 0)\<close>: the point has neither the curve's SRID
  nor its Z dimension.
\<close>

theorem evaluate_empty_curve_drops_srid:
  "lwnurbscurve_evaluate cenv_sample (Some (lwnurbscurve_construct_empty 4326 True False)) d_half
     = lwpoint_construct_empty SRID_UNKNOWN False False
   \<and> pt_srid (lwpoint_construct_empty SRID_UNKNOWN False False) = 0
   \<and> \<not> FLAGS_GET_Z (pt_flags (lwpoint_construct_empty SRID_UNKNOWN False False))
   \<and> nc_srid (lwnurbscurve_construct_empty 4326 True False) = 4326
   \<and> FLAGS_GET_Z (nc_flags (lwnurbscurve_construct_empty 4326 True False))"
  by (simp add: lwnurbscurve_evaluate_def lwnurbscurve_construct_empty_def
        ptarray_construct_empty_def lwpoint_construct_empty_def lwflags_of_def SRID_UNKNOWN_def)

lemma evaluate_no_points:
  "nc_points c = Some pa \<Longrightarrow> npoints pa = 0 \<Longrightarrow>
   lwnurbscurve_evaluate env (Some c) t = lwpoint_construct_empty SRID_UNKNOWN False False"
  by (simp add: lwnurbscurve_evaluate_def)

section \<open>Verified properties: WKB writer\<close>

text \<open>
  C4, as stated, fails for a curve with fewer than \<open>degree + 1\<close> control points: the
  synthesis returns no knots and the writer takes its fallback branch. For degree 2 and the
  single control point (0 0), in the little-endian ISO variant, the output ends with the
  knot count 0.
\<close>

theorem wkb_knots_omitted_counterexample:
  "lwnurbscurve_to_wkb_buf cenv_sample wkb_code_sample curve_deg2_one_point variant_iso_ndr =
     [1, 0, 0, 0, 0, 2, 0, 0, 0, 1, 0, 0, 0,
      1, 0, 0, 0, 0, 0, 0, 0, 0, 0, 0, 0, 0, 0, 0, 0, 0, 0,
      0, 0, 0, 0]"
  by (simp add: lwnurbscurve_to_wkb_buf_def nurbs_wkb_header_def nurbs_wkb_point_def
      nurbs_wkb_knots_def lwnurbscurve_get_knots_for_wkb_def curve_deg2_one_point_def
      lwnurbscurve_generate_uniform_knots_def u32_add_def integer_to_wkb_buf_def mem_to_wkb_buf_def
      variant_iso_ndr_def wkb_swap_bytes_def IS_BIG_ENDIAN_def u32_bytes_def upt_rec
      lwgeom_wkb_type_def wkb_code_sample_def flags_zero_def lwflags_of_def
      lwgeom_wkb_needs_srid_def endian_to_wkb_buf_def FLAGS_NDIMS_def getPoint_internal_def
      double_to_wkb_buf_def dbl_bytes_def d_zero_def byte_to_wkb_buf_def)

text \<open>
  C4, amended. For a curve that stores no knot vector, of degree at least 1: when it has at
  least \<open>degree + 1\<close> control points the clamped uniform knot vector is synthesised and
  written, so that the emitted knot count is \<open>npoints + degree + 1\<close>; when it has fewer
  the writer emits the knot count 0 and no knots. The knot block is the end of the output.
\<close>

theorem wkb_knots_synthesised:
  assumes pts: "nc_points c = Some pa"
    and nk: "nc_knots c = None"
    and d1: "1 \<le> nc_degree c"
    and nw: "npoints pa + nc_degree c + 1 < 2 ^ 32"
  shows "(nc_degree c + 1 \<le> npoints pa \<longrightarrow>
            nurbs_wkb_knots env c variant =
              integer_to_wkb_buf (npoints pa + nc_degree c + 1) variant
              @ concat (map (\<lambda>k. double_to_wkb_buf k variant)
                          (uniform_knots_spec env (nc_degree c) (npoints pa))))
       \<and> (npoints pa < nc_degree c + 1 \<longrightarrow>
            nurbs_wkb_knots env c variant = integer_to_wkb_buf 0 variant)
       \<and> lwnurbscurve_to_wkb_buf env wkb_code c variant =
            nurbs_wkb_header wkb_code c variant
            @ concat (map (nurbs_wkb_point c variant (FLAGS_NDIMS (pa_flags pa))) [0..<npoints pa])
            @ nurbs_wkb_knots env c variant"
proof (intro conjI impI)
  assume h: "nc_degree c + 1 \<le> npoints pa"
  have g: "lwnurbscurve_get_knots_for_wkb env (Some c)
             = Some (uniform_knots_spec env (nc_degree c) (npoints pa))"
    using pts nk generate_uniform_knots_eq [OF d1 h nw]
    by (simp add: lwnurbscurve_get_knots_for_wkb_def)
  show "nurbs_wkb_knots env c variant =
              integer_to_wkb_buf (npoints pa + nc_degree c + 1) variant
              @ concat (map (\<lambda>k. double_to_wkb_buf k variant)
                          (uniform_knots_spec env (nc_degree c) (npoints pa)))"
    unfolding nurbs_wkb_knots_def g by simp
next
  assume h: "npoints pa < nc_degree c + 1"
  have "lwnurbscurve_generate_uniform_knots env (nc_degree c) (npoints pa) = None"
    using h nw by (simp add: lwnurbscurve_generate_uniform_knots_def u32_add_small)
  then have g: "lwnurbscurve_get_knots_for_wkb env (Some c) = None"
    using pts nk by (simp add: lwnurbscurve_get_knots_for_wkb_def)
  show "nurbs_wkb_knots env c variant = integer_to_wkb_buf 0 variant"
    unfolding nurbs_wkb_knots_def g by simp
next
  show "lwnurbscurve_to_wkb_buf env wkb_code c variant =
            nurbs_wkb_header wkb_code c variant
            @ concat (map (nurbs_wkb_point c variant (FLAGS_NDIMS (pa_flags pa))) [0..<npoints pa])
            @ nurbs_wkb_knots env c variant"
    using pts by (simp add: lwnurbscurve_to_wkb_buf_def)
qed

theorem wkb_knots_synthesised_witness:
  "nurbs_wkb_knots cenv_sample
     \<lparr>nc_bbox = None, nc_flags = flags_zero, nc_srid = 0, nc_degree = 2,
      nc_points = Some ctrl_pts_s4, nc_weights = None, nc_nweights = 0,
      nc_knots = None, nc_nknots = 0\<rparr> variant_iso_ndr
     = integer_to_wkb_buf 6 variant_iso_ndr
       @ concat (map (\<lambda>k. double_to_wkb_buf k variant_iso_ndr)
                   [d_zero, d_zero, d_zero, d_one, d_one, d_one])
   \<and> nurbs_wkb_knots cenv_sample curve_deg2_one_point variant_iso_ndr
       = integer_to_wkb_buf 0 variant_iso_ndr"
proof -
  let ?c = "\<lparr>nc_bbox = None, nc_flags = flags_zero, nc_srid = 0, nc_degree = 2,
      nc_points = Some ctrl_pts_s4, nc_weights = None, nc_nweights = 0,
      nc_knots = None, nc_nknots = 0\<rparr>"
  let ?pa = "\<lparr>npoints = 1, pa_flags = flags_zero, serialized_pointlist = [d_zero, d_zero]\<rparr>"
  have a: "nc_points ?c = Some ctrl_pts_s4" "nc_knots ?c = None" "1 \<le> nc_degree ?c"
      "npoints ctrl_pts_s4 + nc_degree ?c + 1 < 2 ^ 32"
    by (simp_all add: ctrl_pts_s4_def)
  have b: "nc_points curve_deg2_one_point = Some ?pa" "nc_knots curve_deg2_one_point = None"
      "1 \<le> nc_degree curve_deg2_one_point"
      "npoints ?pa + nc_degree curve_deg2_one_point + 1 < 2 ^ 32"
    by (simp_all add: curve_deg2_one_point_def)
  have k: "uniform_knots_spec cenv_sample 2 3 = [d_zero, d_zero, d_zero, d_one, d_one, d_one]"
    by (simp add: uniform_knots_spec_def upt_rec)
  show ?thesis
    using wkb_knots_synthesised [OF a, of cenv_sample variant_iso_ndr wkb_code_sample]
          wkb_knots_synthesised [OF b, of cenv_sample variant_iso_ndr wkb_code_sample] k
    by (simp add: ctrl_pts_s4_def curve_deg2_one_point_def)
qed


section \<open>Verified properties: GS2 encoder\<close>

subsection \<open>Lengths of the written pieces\<close>

lemma length_u32_bytes [simp]: "length (u32_bytes n) = 4"
  by (simp add: u32_bytes_def)

lemma length_u64_bytes [simp]: "length (u64_bytes n) = 8"
  by (simp add: u64_bytes_def)

lemma length_f32_bytes [simp]: "length (f32_bytes f) = 4"
  by (simp add: f32_bytes_def)

lemma length_dbl_bytes [simp]: "length (dbl_bytes d) = 8"
  by (simp add: dbl_bytes_def)

lemma length_ordinate_bytes [simp]: "length (ordinate_bytes ds) = 8 * length ds"
  by (induction ds) (simp_all add: ordinate_bytes_def)

lemma ZM_eq: "FLAGS_GET_ZM f = FLAGS_GET_ZM f' \<longleftrightarrow>
   FLAGS_GET_Z f = FLAGS_GET_Z f' \<and> FLAGS_GET_M f = FLAGS_GET_M f'"
  by (auto simp: FLAGS_GET_ZM_def)

lemma NDIMS_eq: "FLAGS_GET_Z f = FLAGS_GET_Z f' \<Longrightarrow> FLAGS_GET_M f = FLAGS_GET_M f' \<Longrightarrow>
   FLAGS_NDIMS f = FLAGS_NDIMS f'"
  by (simp add: FLAGS_NDIMS_def)

lemma ptarray_payload_length:
  assumes "ptarray_agrees f pa"
  shows "length (ordinate_bytes (take (npoints pa * ptarray_point_size pa div 8)
                                   (getPoint_internal pa 0)))
         = 8 * npoints pa * FLAGS_NDIMS f"
    and "FLAGS_GET_ZM f = FLAGS_GET_ZM (pa_flags pa)"
    and "FLAGS_NDIMS (pa_flags pa) = FLAGS_NDIMS f"
proof -
  have n: "FLAGS_NDIMS (pa_flags pa) = FLAGS_NDIMS f"
    using assms by (simp add: ptarray_agrees_def FLAGS_NDIMS_def)
  have "npoints pa * (8 * FLAGS_NDIMS f) div 8 = npoints pa * FLAGS_NDIMS f"
    by (simp add: mult.left_commute)
  then show "length (ordinate_bytes (take (npoints pa * ptarray_point_size pa div 8)
                                   (getPoint_internal pa 0)))
         = 8 * npoints pa * FLAGS_NDIMS f"
    using assms n by (simp add: ptarray_agrees_def ptarray_wf_def ptarray_point_size_def
        getPoint_internal_def)
  show "FLAGS_GET_ZM f = FLAGS_GET_ZM (pa_flags pa)"
    using assms by (simp add: ptarray_agrees_def FLAGS_GET_ZM_def)
  show "FLAGS_NDIMS (pa_flags pa) = FLAGS_NDIMS f" by (rule n)
qed

lemma lwpoint_size_exact:
  assumes "ptarray_agrees (pt_flags g) (point g)" "npoints (point g) \<le> 1"
  shows "\<exists>bs. gserialized2_from_lwpoint g = Inr bs \<and> length bs = gserialized2_from_lwpoint_size g"
proof -
  have c: "npoints (point g) = 0 \<or> npoints (point g) = 1" using assms(2) by arith
  from ptarray_payload_length [OF assms(1)] c show ?thesis
    by (auto simp: gserialized2_from_lwpoint_def gserialized2_from_lwpoint_size_def Let_def
        ptarray_point_size_def)
qed

lemma lwline_size_exact:
  assumes "ptarray_agrees (ln_flags g) (points g)"
  shows "\<exists>bs. gserialized2_from_lwline g = Inr bs \<and> length bs = gserialized2_from_lwline_size g"
    and "\<exists>bs. gserialized2_from_lwtriangle g = Inr bs
            \<and> length bs = gserialized2_from_lwtriangle_size g"
    and "\<exists>bs. gserialized2_from_lwcircstring g = Inr bs
            \<and> length bs = gserialized2_from_lwcircstring_size g"
  using ptarray_payload_length [OF assms] assms
  by (auto simp: gserialized2_from_lwline_def gserialized2_from_lwline_size_def
      gserialized2_from_lwtriangle_def gserialized2_from_lwtriangle_size_def
      gserialized2_from_lwcircstring_def gserialized2_from_lwcircstring_size_def Let_def
      ptarray_agrees_def)

lemma lwpoly_rings_fold:
  assumes "list_all (ptarray_agrees f) rs"
  shows "\<exists>bs. fold (\<lambda>pa acc.
                 case acc of
                   Inl e \<Rightarrow> Inl e
                 | Inr loc \<Rightarrow>
                     if FLAGS_GET_ZM f \<noteq> FLAGS_GET_ZM (pa_flags pa)
                     then Inl (Lwerror ''Dimensions mismatch in lwpoly'')
                     else Inr (loc @ ordinate_bytes (take (npoints pa * (8 * FLAGS_NDIMS f) div 8)
                                                        (getPoint_internal pa 0))))
              rs (Inr h0) = Inr bs
       \<and> length bs = length h0 + sum_list (map (\<lambda>pa. npoints pa * (FLAGS_NDIMS f * 8)) rs)"
  using assms
proof (induction rs arbitrary: h0)
  case Nil
  then show ?case by simp
next
  case (Cons pa rs)
  then have a: "ptarray_agrees f pa" and r: "list_all (ptarray_agrees f) rs" by simp_all
  note p = ptarray_payload_length [OF a]
  let ?hd = "h0 @ ordinate_bytes (take (npoints pa * (8 * FLAGS_NDIMS f) div 8)
                                   (getPoint_internal pa 0))"
  have l: "length ?hd = length h0 + npoints pa * (FLAGS_NDIMS f * 8)"
    using p by (simp add: ptarray_point_size_def)
  from Cons.IH [OF r, of ?hd] l p(2) show ?case by auto
qed

lemma size_fold_sum:
  "fold (\<lambda>x s. s + g x) xs a = a + sum_list (map g xs)" for g :: "'a \<Rightarrow> nat"
  by (induction xs arbitrary: a) simp_all

lemma size_fold_sum4:
  "fold (\<lambda>x s. s + 4 + g x) xs a = a + 4 * length xs + sum_list (map g xs)" for g :: "'a \<Rightarrow> nat"
  by (induction xs arbitrary: a) simp_all

lemma length_concat_u32: "length (concat (map (\<lambda>pa. u32_bytes (h pa)) rs)) = 4 * length rs"
  by (induction rs) simp_all

lemma lwpoly_size_exact:
  assumes "list_all (ptarray_agrees (py_flags g)) (rings g)"
  shows "\<exists>bs. gserialized2_from_lwpoly g = Inr bs \<and> length bs = gserialized2_from_lwpoly_size g"
proof -
  let ?hd = "u32_bytes (lwtype_code POLYGONTYPE)
                 @ u32_bytes (length (rings g))
                 @ concat (map (\<lambda>pa. u32_bytes (npoints pa)) (rings g))
                 @ (if length (rings g) mod 2 \<noteq> 0 then [0, 0, 0, 0] else [])"
  from lwpoly_rings_fold [OF assms, of ?hd]
  show ?thesis
    by (auto simp: gserialized2_from_lwpoly_def gserialized2_from_lwpoly_size_def Let_def
        size_fold_sum4 length_concat_u32)
qed

lemma lwnurbscurve_size_exact:
  assumes "lwgeom_valid (Nurbs g)"
  shows "\<exists>bs. gserialized2_from_lwnurbscurve g = Inr bs
            \<and> length bs = gserialized2_from_lwnurbscurve_size g"
proof (cases "nc_points g")
  case None
  then show ?thesis using assms
    by (auto simp: gserialized2_from_lwnurbscurve_def gserialized2_from_lwnurbscurve_size_def
        Let_def split: option.splits)
next
  case (Some pa)
  then have a: "ptarray_agrees (nc_flags g) pa" using assms by simp
  from ptarray_payload_length [OF a] Some assms show ?thesis
    by (auto simp: gserialized2_from_lwnurbscurve_def gserialized2_from_lwnurbscurve_size_def
        Let_def split: option.splits)
qed

lemma collection_fold:
  assumes "\<And>g. g \<in> set gs \<Longrightarrow> \<exists>bs. W g = Inr bs \<and> length bs = S g"
    and "\<And>g. g \<in> set gs \<Longrightarrow> FLAGS_GET_ZM f = FLAGS_GET_ZM (geom_flags g)"
  shows "\<exists>bs. fold (\<lambda>g acc.
             case acc of
               Inl e \<Rightarrow> Inl e
             | Inr loc \<Rightarrow>
                 if FLAGS_GET_ZM f \<noteq> FLAGS_GET_ZM (geom_flags g)
                 then Inl (Lwerror ''Dimensions mismatch in lwcollection'')
                 else (case W g of
                         Inl e \<Rightarrow> Inl e
                       | Inr sub \<Rightarrow> Inr (loc @ sub)))
          gs (Inr h0) = Inr bs
      \<and> length bs = length h0 + sum_list (map S gs)"
  using assms
proof (induction gs arbitrary: h0)
  case Nil
  then show ?case by simp
next
  case (Cons g gs)
  from Cons.prems(1) [of g] obtain sub where sub: "W g = Inr sub" "length sub = S g" by auto
  have zm: "FLAGS_GET_ZM f = FLAGS_GET_ZM (geom_flags g)" using Cons.prems(2) by simp
  from Cons.IH [of "h0 @ sub"] Cons.prems sub zm show ?case by auto
qed

lemma payload_size_exact:
  "lwgeom_valid geom \<Longrightarrow>
   \<exists>bs. gserialized2_from_lwgeom_any geom = Inr bs \<and> length bs = gserialized2_from_any_size geom"
proof (induction geom)
  case (Point g)
  then show ?case using lwpoint_size_exact [of g] by simp
next
  case (Line g)
  then show ?case using lwline_size_exact(1) [of g] by simp
next
  case (CircString g)
  then show ?case using lwline_size_exact(3) [of g] by simp
next
  case (Triangle g)
  then show ?case using lwline_size_exact(2) [of g] by simp
next
  case (Poly g)
  then show ?case using lwpoly_size_exact [of g] by simp
next
  case (Collection t b s f gs)
  have v: "\<And>g. g \<in> set gs \<Longrightarrow> lwgeom_valid g \<and> FLAGS_GET_ZM f = FLAGS_GET_ZM (geom_flags g)"
    using Collection.prems by (auto simp: list_all_iff FLAGS_GET_ZM_def)
  have 1: "\<And>g. g \<in> set gs \<Longrightarrow> \<exists>bs. gserialized2_from_lwgeom_any g = Inr bs
               \<and> length bs = gserialized2_from_any_size g"
    using Collection.IH v by blast
  from collection_fold [of gs gserialized2_from_lwgeom_any gserialized2_from_any_size f
      "u32_bytes (lwtype_code t) @ u32_bytes (length gs)", OF 1] v
  show ?case by (auto simp: size_fold_sum)
next
  case (Nurbs g)
  then show ?case using lwnurbscurve_size_exact [of g] by simp
qed

subsection \<open>Harmonizing keeps a geometry valid\<close>

lemma geom_bbox_set_flags [simp]: "geom_bbox (set_geom_flags f g) = geom_bbox g"
  by (cases g) simp_all

lemma geom_flags_set_flags [simp]: "geom_flags (set_geom_flags f g) = f"
  by (cases g) simp_all

lemma geom_flags_set_bbox [simp]: "geom_flags (set_geom_bbox b g) = geom_flags g"
  by (cases g) simp_all

lemma geom_bbox_set_bbox [simp]: "geom_bbox (set_geom_bbox b g) = b"
  by (cases g) simp_all

lemma ptarray_agrees_flags:
  "FLAGS_GET_Z f' = FLAGS_GET_Z f \<Longrightarrow> FLAGS_GET_M f' = FLAGS_GET_M f \<Longrightarrow>
   ptarray_agrees f' = ptarray_agrees f"
  by (rule ext) (simp add: ptarray_agrees_def)

lemma lwgeom_valid_set_flags:
  assumes "FLAGS_GET_Z f' = FLAGS_GET_Z (geom_flags g)" "FLAGS_GET_M f' = FLAGS_GET_M (geom_flags g)"
  shows "lwgeom_valid (set_geom_flags f' g) = lwgeom_valid g"
proof (cases g)
  case (Poly p)
  then show ?thesis using assms ptarray_agrees_flags [of f' "py_flags p"] by simp
qed (use assms in \<open>auto simp: ptarray_agrees_def split: option.splits\<close>)

lemma lwgeom_valid_set_bbox [simp]: "lwgeom_valid (set_geom_bbox b g) = lwgeom_valid g"
  by (cases g) (auto split: option.splits)

lemma harmonize_valid:
  assumes "lwgeom_valid geom" "gbox_agrees geom"
  shows "lwgeom_valid (lwgeom_harmonize env geom)" and "gbox_agrees (lwgeom_harmonize env geom)"
    and "FLAGS_GET_BBOX (geom_flags (lwgeom_harmonize env geom))
           = (geom_bbox (lwgeom_harmonize env geom) \<noteq> None)"
proof -
  show "lwgeom_valid (lwgeom_harmonize env geom)"
    using assms(1)
    by (simp add: lwgeom_harmonize_def lwgeom_add_bbox_def Let_def lwgeom_valid_set_flags)
  show "gbox_agrees (lwgeom_harmonize env geom)"
    using assms(2)
    by (auto simp: lwgeom_harmonize_def lwgeom_add_bbox_def Let_def gbox_agrees_def gbox_new_def
        split: option.splits)
  show "FLAGS_GET_BBOX (geom_flags (lwgeom_harmonize env geom))
           = (geom_bbox (lwgeom_harmonize env geom) \<noteq> None)"
    by (simp add: lwgeom_harmonize_def Let_def)
qed

lemma from_gbox_length:
  assumes "FLAGS_GET_Z (gb_flags b) = FLAGS_GET_Z f" "FLAGS_GET_M (gb_flags b) = FLAGS_GET_M f"
    "FLAGS_GET_GEODETIC (gb_flags b) = FLAGS_GET_GEODETIC f"
  shows "length (gserialized2_from_gbox env b) = gbox_serialized_size f"
  using assms by (simp add: gserialized2_from_gbox_def gbox_serialized_size_def Let_def
      FLAGS_NDIMS_def)

lemma header_size_exact:
  assumes "gbox_agrees geom"
  shows "8 + length (gserialized2_from_extended_flags (geom_flags geom))
           + length (case geom_bbox geom of Some b \<Rightarrow> gserialized2_from_gbox env b | None \<Rightarrow> [])
           + gserialized2_from_any_size geom
         = gserialized2_from_lwgeom_size geom"
proof (cases "geom_bbox geom")
  case None
  then show ?thesis
    by (simp add: gserialized2_from_lwgeom_size_def gserialized2_from_extended_flags_def)
next
  case (Some b)
  then have "length (gserialized2_from_gbox env b) = gbox_serialized_size (geom_flags geom)"
    using assms by (intro from_gbox_length) (simp_all add: gbox_agrees_def)
  then show ?thesis using Some
    by (simp add: gserialized2_from_lwgeom_size_def gserialized2_from_extended_flags_def)
qed

text \<open>
  C2. Size prediction is exact. Whatever \<open>gserialized2_from_lwgeom\<close> returns has the size
  that \<open>gserialized2_from_lwgeom_size\<close> predicted for the harmonized geometry (header, extended
  flags, box and payload), and that size is the one stored in the result. For every valid
  geometry whose cached box, if any, has the geometry's dimensions, the payload writer
  succeeds, the payload it writes is as long as the payload sizer says, and the encoder
  returns: the size check of the encoder never fails.
\<close>

theorem gserialized2_size_prediction_exact:
  "(\<forall>g. gserialized2_from_lwgeom env geom = Inr g \<longrightarrow>
        8 + length (gs_data g) = gserialized2_from_lwgeom_size (lwgeom_harmonize env geom)
        \<and> gs_size g = 8 + length (gs_data g))
   \<and> (lwgeom_valid geom \<and> gbox_agrees geom \<longrightarrow>
        (\<exists>payload. gserialized2_from_lwgeom_any (lwgeom_harmonize env geom) = Inr payload
            \<and> length payload = gserialized2_from_any_size (lwgeom_harmonize env geom))
        \<and> (\<exists>g. gserialized2_from_lwgeom env geom = Inr g))"
proof (intro conjI allI impI)
  fix g assume "gserialized2_from_lwgeom env geom = Inr g"
  then show "8 + length (gs_data g) = gserialized2_from_lwgeom_size (lwgeom_harmonize env geom)"
      and "gs_size g = 8 + length (gs_data g)"
    by (auto simp: gserialized2_from_lwgeom_def Let_def split: sum.splits if_splits)
next
  assume v: "lwgeom_valid geom \<and> gbox_agrees geom"
  let ?h = "lwgeom_harmonize env geom"
  have hv: "lwgeom_valid ?h" and hb: "gbox_agrees ?h"
    using v harmonize_valid by blast+
  from payload_size_exact [OF hv]
  obtain payload where p: "gserialized2_from_lwgeom_any ?h = Inr payload"
      "length payload = gserialized2_from_any_size ?h" by blast
  then show "\<exists>payload. gserialized2_from_lwgeom_any ?h = Inr payload
            \<and> length payload = gserialized2_from_any_size ?h" by blast
  have "8 + length (gserialized2_from_extended_flags (geom_flags ?h))
           + length (case geom_bbox ?h of Some b \<Rightarrow> gserialized2_from_gbox env b | None \<Rightarrow> [])
           + length payload
         = gserialized2_from_lwgeom_size ?h"
    using header_size_exact [OF hb, of env] p(2) by simp
  then show "\<exists>g. gserialized2_from_lwgeom env geom = Inr g"
    using p(1) by (simp add: gserialized2_from_lwgeom_def Let_def)
qed

theorem gserialized2_size_prediction_exact_witness:
  "\<exists>g. gserialized2_from_lwgeom lwenv_sample (Poly poly_one_ring) = Inr g
       \<and> gs_size g = 88 \<and> length (gs_data g) = 80"
proof -
  have v: "lwgeom_valid (Poly poly_one_ring) \<and> gbox_agrees (Poly poly_one_ring)"
    by (simp add: poly_one_ring_def ptarray_agrees_def ptarray_wf_def gbox_agrees_def
        flags_zero_def lwflags_of_def FLAGS_NDIMS_def)
  have s: "gserialized2_from_lwgeom_size (lwgeom_harmonize lwenv_sample (Poly poly_one_ring)) = 88"
    by (simp add: lwgeom_harmonize_def lwenv_sample_def poly_one_ring_def
        gserialized2_from_lwgeom_size_def gserialized2_from_lwpoly_size_def Let_def
        flags_zero_def lwflags_of_def FLAGS_NDIMS_def lwflags_uses_extended_flags_def)
  from gserialized2_size_prediction_exact [of lwenv_sample "Poly poly_one_ring"] v
  obtain g where g: "gserialized2_from_lwgeom lwenv_sample (Poly poly_one_ring) = Inr g"
    by blast
  with gserialized2_size_prediction_exact [of lwenv_sample "Poly poly_one_ring"] s
  have "gs_size g = 88 \<and> length (gs_data g) = 80" by auto
  with g show ?thesis by blast
qed

section \<open>Verified properties: GS2 box peek\<close>

text \<open>The serialized form of the line (0 0, 10 5) and what the peek reads in it.\<close>

lemma upt_4: "[0..<4] = [0, 1, 2, 3]" by (simp add: upt_rec)
lemma upt_8: "[0..<8] = [0, 1, 2, 3, 4, 5, 6, 7]" by (simp add: upt_rec)

lemma line_s3_payload:
  "gserialized2_from_lwline line_s3
     = Inr [2, 0, 0, 0, 2, 0, 0, 0,
            0, 0, 0, 0, 0, 0, 0, 0, 0, 0, 0, 0, 0, 0, 0, 0,
            0, 0, 0, 0, 0, 0, 0x24, 0x40, 0, 0, 0, 0, 0, 0, 0x14, 0x40]"
  by (simp add: gserialized2_from_lwline_def line_s3_def flags_zero_def lwflags_of_def
      ptarray_point_size_def FLAGS_NDIMS_def getPoint_internal_def ordinate_bytes_def
      dbl_bytes_def u32_bytes_def upt_4 upt_8 d_zero_def d_ten_def d_five_def
      drop_bit_eq_div Let_def)

lemma line_s3_harmonize:
  "\<not> lwgeom_needs_bbox env (Line line_s3) \<Longrightarrow>
   lwgeom_harmonize env (Line line_s3) = Line line_s3"
  by (simp add: lwgeom_harmonize_def line_s3_def flags_zero_def lwflags_of_def)

lemma line_s3_serialized:
  "\<not> lwgeom_needs_bbox env (Line line_s3) \<Longrightarrow>
   gserialized2_from_lwgeom env (Line line_s3)
     = Inr \<lparr>gs_size = 48, gs_srid = gserialized2_set_srid env SRID_UNKNOWN,
            gs_gflags = lwflags_get_g2flags flags_zero,
            gs_data = [2, 0, 0, 0, 2, 0, 0, 0,
                       0, 0, 0, 0, 0, 0, 0, 0, 0, 0, 0, 0, 0, 0, 0, 0,
                       0, 0, 0, 0, 0, 0, 0x24, 0x40, 0, 0, 0, 0, 0, 0, 0x14, 0x40]\<rparr>"
  by (simp add: gserialized2_from_lwgeom_def line_s3_harmonize line_s3_payload Let_def
      gserialized2_from_lwgeom_size_def gserialized2_from_lwline_size_def
      gserialized2_from_extended_flags_def lwflags_uses_extended_flags_def)
     (simp add: line_s3_def flags_zero_def lwflags_of_def FLAGS_NDIMS_def)


lemma le_nat_simps:
  "le_nat [] = 0" "le_nat (b # bs) = unat b + 256 * le_nat bs"
  by (simp_all add: le_nat_def)

lemma dbl_five_key: "dbl_key d_five = 0x4014000000000000" "\<not> dbl_is_nan d_five"
  by (simp_all add: dbl_key_def dbl_is_nan_def dbl_mag_def d_five_def)

lemma dbl_ten_key: "dbl_key d_ten = 0x4024000000000000" "\<not> dbl_is_nan d_ten"
  by (simp_all add: dbl_key_def dbl_is_nan_def dbl_mag_def d_ten_def)

lemma line_s3_reads:
  fixes buf :: "byte list"
  assumes "buf = [2, 0, 0, 0, 2, 0, 0, 0,
                       0, 0, 0, 0, 0, 0, 0, 0, 0, 0, 0, 0, 0, 0, 0, 0,
                       0, 0, 0, 0, 0, 0, 0x24, 0x40, 0, 0, 0, 0, 0, 0, 0x14, 0x40]"
  shows "gserialized2_get_uint32_t buf 0 = Inr 2"
    and "get_int32 buf 4 = Inr 2"
    and "get_double buf 8 = Inr d_zero"
    and "get_double buf 16 = Inr d_zero"
    and "get_double buf 24 = Inr d_ten"
    and "get_double buf 32 = Inr d_five"
  unfolding assms
  by (simp_all add: gserialized2_get_uint32_t_def get_int32_def get_double_def mem_read_def
      le_nat_simps d_zero_def d_ten_def d_five_def)

lemma peek_line_s3:
  assumes "gs_gflags g = lwflags_get_g2flags flags_zero"
    and "gs_data g = [2, 0, 0, 0, 2, 0, 0, 0,
                       0, 0, 0, 0, 0, 0, 0, 0, 0, 0, 0, 0, 0, 0, 0, 0,
                       0, 0, 0, 0, 0, 0, 0x24, 0x40, 0, 0, 0, 0, 0, 0, 0x14, 0x40]"
  shows "gserialized2_peek_gbox_p env g gbox
     = Inr (Some (gbox_float_round env
          (gbox\<lparr>xmin := d_zero, xmax := d_ten, ymin := d_zero, ymax := d_five,
                 gb_flags := flags_zero\<rparr>)))"
proof -
  have f: "G2FLAGS_GET_Z (gs_gflags g) = False" "G2FLAGS_GET_M (gs_gflags g) = False"
    "G2FLAGS_GET_BBOX (gs_gflags g) = False" "G2FLAGS_GET_GEODETIC (gs_gflags g) = False"
    "G2FLAGS_GET_EXTENDED (gs_gflags g) = False"
    by (simp_all add: assms(1) lwflags_get_g2flags_def flags_zero_def lwflags_of_def
        lwflags_uses_extended_flags_def)
  have p: "gserialized2_get_geometry_p g = 0"
    by (simp add: gserialized2_get_geometry_p_def gserialized2_has_extended_def
        gserialized2_has_bbox_def f)
  have fl: "gserialized2_get_lwflags g = Inr flags_zero"
    by (simp add: gserialized2_get_lwflags_def f flags_zero_def lwflags_of_def)
  note r = line_s3_reads [OF assms(2)]
  have t: "gserialized2_get_type g = Inr 2"
    by (simp add: gserialized2_get_type_def p r)
  have m: "FP_MIN d_zero d_ten = d_zero" "FP_MAX d_zero d_ten = d_ten"
    "FP_MIN d_zero d_five = d_zero" "FP_MAX d_zero d_five = d_five"
    by (simp_all add: FP_MIN_def FP_MAX_def dbl_lt_def dbl_zero_key dbl_ten_key dbl_five_key)
  have l: "peek_line_box env g gbox 1 = Inr (Some (gbox_float_round env
          (gbox\<lparr>xmin := d_zero, xmax := d_ten, ymin := d_zero, ymax := d_five,
                 gb_flags := flags_zero\<rparr>)))"
    by (simp add: peek_line_box_def Let_def G2FLAGS_NDIMS_def f p r fl bindE_def m)
  from l show ?thesis
    by (simp add: gserialized2_peek_gbox_p_def t bindE_def f p r)
qed


text \<open>
  C8. Box peek on the two-point line of S3. When the line (0 0, 10 5) needs no cached box,
  its serialization stores no box and is not geodetic, and \<open>gserialized2_peek_gbox_p\<close>
  succeeds on it: it fills the caller's box with xmin = 0, xmax = 10, ymin = 0, ymax = 5
  and the flags of the geometry, and then rounds it to floats, which replaces xmax and ymax
  by \<open>next_float_up\<close> of 10 and of 5 (and xmin and ymin by \<open>next_float_down\<close> of 0).
\<close>

theorem peek_gbox_two_point_line:
  "\<not> lwgeom_needs_bbox env (Line line_s3) \<Longrightarrow>
   \<exists>g. gserialized2_from_lwgeom env (Line line_s3) = Inr g
     \<and> \<not> G2FLAGS_GET_BBOX (gs_gflags g) \<and> \<not> G2FLAGS_GET_GEODETIC (gs_gflags g)
     \<and> gserialized2_peek_gbox_p env g gbox
         = Inr (Some (gbox_float_round env
             (gbox\<lparr>xmin := d_zero, xmax := d_ten, ymin := d_zero, ymax := d_five,
                    gb_flags := flags_zero\<rparr>)))
     \<and> gbox_float_round env
             (gbox\<lparr>xmin := d_zero, xmax := d_ten, ymin := d_zero, ymax := d_five,
                    gb_flags := flags_zero\<rparr>)
         = gbox\<lparr>xmin := float_to_double env (next_float_down env d_zero),
                 xmax := float_to_double env (next_float_up env d_ten),
                 ymin := float_to_double env (next_float_down env d_zero),
                 ymax := float_to_double env (next_float_up env d_five),
                 gb_flags := flags_zero\<rparr>"
proof -
  assume n: "\<not> lwgeom_needs_bbox env (Line line_s3)"
  let ?g = "\<lparr>gs_size = 48, gs_srid = gserialized2_set_srid env SRID_UNKNOWN,
            gs_gflags = lwflags_get_g2flags flags_zero,
            gs_data = [2, 0, 0, 0, 2, 0, 0, 0,
                       0, 0, 0, 0, 0, 0, 0, 0, 0, 0, 0, 0, 0, 0, 0, 0,
                       0, 0, 0, 0, 0, 0, 0x24, 0x40, 0, 0, 0, 0, 0, 0, 0x14, 0x40]\<rparr>"
  have 1: "gserialized2_from_lwgeom env (Line line_s3) = Inr ?g"
    by (rule line_s3_serialized [OF n])
  have 2: "\<not> G2FLAGS_GET_BBOX (gs_gflags ?g) \<and> \<not> G2FLAGS_GET_GEODETIC (gs_gflags ?g)"
    by (simp add: lwflags_get_g2flags_def flags_zero_def lwflags_of_def)
  have 3: "gserialized2_peek_gbox_p env ?g gbox
         = Inr (Some (gbox_float_round env
             (gbox\<lparr>xmin := d_zero, xmax := d_ten, ymin := d_zero, ymax := d_five,
                    gb_flags := flags_zero\<rparr>)))"
    by (rule peek_line_s3) simp_all
  have 4: "gbox_float_round env
             (gbox\<lparr>xmin := d_zero, xmax := d_ten, ymin := d_zero, ymax := d_five,
                    gb_flags := flags_zero\<rparr>)
         = gbox\<lparr>xmin := float_to_double env (next_float_down env d_zero),
                 xmax := float_to_double env (next_float_up env d_ten),
                 ymin := float_to_double env (next_float_down env d_zero),
                 ymax := float_to_double env (next_float_up env d_five),
                 gb_flags := flags_zero\<rparr>"
    by (simp add: gbox_float_round_def Let_def flags_zero_def lwflags_of_def)
  from 1 2 3 4 show ?thesis by blast
qed

theorem peek_gbox_two_point_line_witness:
  "\<exists>g. gserialized2_from_lwgeom lwenv_sample (Line line_s3) = Inr g
     \<and> gserialized2_peek_gbox_p lwenv_sample g (gbox_new flags_zero)
         = Inr (Some (gbox_float_round lwenv_sample
             ((gbox_new flags_zero)\<lparr>xmin := d_zero, xmax := d_ten, ymin := d_zero,
                ymax := d_five, gb_flags := flags_zero\<rparr>)))"
proof -
  have "\<not> lwgeom_needs_bbox lwenv_sample (Line line_s3)" by (simp add: lwenv_sample_def)
  from peek_gbox_two_point_line [OF this, of "gbox_new flags_zero"] show ?thesis by blast
qed

section \<open>Verified properties: GS2 emptiness probe\<close>

subsection \<open>The layout of an encoded geometry\<close>

text \<open>The encoder writes the payload of the geometry it was given behind the box, if
  any; the flags of the header are those of the geometry but for the box flag.\<close>

lemma geom_srid_set_flags [simp]: "geom_srid (set_geom_flags f g) = geom_srid g"
  by (cases g) simp_all

lemma geom_srid_set_bbox [simp]: "geom_srid (set_geom_bbox b g) = geom_srid g"
  by (cases g) simp_all

lemma from_any_set_bbox [simp]:
  "gserialized2_from_lwgeom_any (set_geom_bbox b g) = gserialized2_from_lwgeom_any g"
  by (cases g)
     (simp_all add: gserialized2_from_lwpoint_def gserialized2_from_lwline_def
        gserialized2_from_lwpoly_def gserialized2_from_lwtriangle_def
        gserialized2_from_lwcircstring_def gserialized2_from_lwnurbscurve_def
        split: option.splits)

lemma from_any_set_flags:
  "gserialized2_from_lwgeom_any (set_geom_flags ((geom_flags g)\<lparr>FLAGS_GET_BBOX := b\<rparr>) g)
     = gserialized2_from_lwgeom_any g"
  by (cases g)
     (simp_all add: gserialized2_from_lwpoint_def gserialized2_from_lwline_def
        gserialized2_from_lwpoly_def gserialized2_from_lwtriangle_def
        gserialized2_from_lwcircstring_def gserialized2_from_lwnurbscurve_def
        FLAGS_GET_ZM_def FLAGS_NDIMS_def split: option.splits)

lemma set_flags_set_flags [simp]:
  "set_geom_flags f (set_geom_flags f' g) = set_geom_flags f g"
  by (cases g) simp_all

lemma harmonize_facts:
  "\<exists>hb. geom_flags (lwgeom_harmonize env geom) = (geom_flags geom)\<lparr>FLAGS_GET_BBOX := hb\<rparr>
       \<and> hb = (geom_bbox (lwgeom_harmonize env geom) \<noteq> None)"
  "geom_srid (lwgeom_harmonize env geom) = geom_srid geom"
  "gserialized2_from_lwgeom_any (lwgeom_harmonize env geom) = gserialized2_from_lwgeom_any geom"
proof -
  show "\<exists>hb. geom_flags (lwgeom_harmonize env geom) = (geom_flags geom)\<lparr>FLAGS_GET_BBOX := hb\<rparr>
       \<and> hb = (geom_bbox (lwgeom_harmonize env geom) \<noteq> None)"
    by (simp add: lwgeom_harmonize_def lwgeom_add_bbox_def Let_def)
  show "geom_srid (lwgeom_harmonize env geom) = geom_srid geom"
    by (simp add: lwgeom_harmonize_def lwgeom_add_bbox_def Let_def)
  have a: "set_geom_flags (geom_flags geom\<lparr>FLAGS_GET_BBOX := x\<rparr>)
             (set_geom_bbox bb (set_geom_flags (geom_flags geom\<lparr>FLAGS_GET_BBOX := y\<rparr>) geom))
           = set_geom_bbox bb (set_geom_flags (geom_flags geom\<lparr>FLAGS_GET_BBOX := x\<rparr>) geom)"
    for x y bb
    by (cases geom) simp_all
  show "gserialized2_from_lwgeom_any (lwgeom_harmonize env geom)
          = gserialized2_from_lwgeom_any geom"
    by (simp add: lwgeom_harmonize_def lwgeom_add_bbox_def Let_def a from_any_set_flags)
qed

lemma encode_layout:
  assumes "lwgeom_valid geom" "gbox_agrees geom" "\<not> FLAGS_GET_SOLID (geom_flags geom)"
  shows "\<exists>g box payload hb. gserialized2_from_lwgeom env geom = Inr g
    \<and> gserialized2_from_lwgeom_any geom = Inr payload
    \<and> gs_data g = box @ payload
    \<and> gs_gflags g = lwflags_get_g2flags ((geom_flags geom)\<lparr>FLAGS_GET_BBOX := hb\<rparr>)
    \<and> length box = (if hb then gbox_serialized_size (geom_flags geom) else 0)
    \<and> gs_srid g = gserialized2_set_srid env (geom_srid geom)"
proof -
  let ?h = "lwgeom_harmonize env geom"
  have hv: "lwgeom_valid ?h" and hb: "gbox_agrees ?h"
    using assms harmonize_valid by blast+
  from harmonize_facts(1) [of env geom] obtain b where
    fl: "geom_flags ?h = (geom_flags geom)\<lparr>FLAGS_GET_BBOX := b\<rparr>"
    and b: "b = (geom_bbox ?h \<noteq> None)" by blast
  from payload_size_exact [OF hv]
  obtain payload where p: "gserialized2_from_lwgeom_any ?h = Inr payload"
      "length payload = gserialized2_from_any_size ?h" by blast
  let ?box = "case geom_bbox ?h of Some bb \<Rightarrow> gserialized2_from_gbox env bb | None \<Rightarrow> []"
  have ext: "gserialized2_from_extended_flags (geom_flags ?h) = []"
    using assms(3) by (simp add: fl gserialized2_from_extended_flags_def
        lwflags_uses_extended_flags_def)
  have sz: "8 + length (gserialized2_from_extended_flags (geom_flags ?h))
           + length ?box + length payload = gserialized2_from_lwgeom_size ?h"
    using header_size_exact [OF hb, of env] p(2) by simp
  have enc: "gserialized2_from_lwgeom env geom
      = Inr \<lparr>gs_size = gserialized2_from_lwgeom_size ?h,
             gs_srid = gserialized2_set_srid env (geom_srid ?h),
             gs_gflags = lwflags_get_g2flags (geom_flags ?h),
             gs_data = gserialized2_from_extended_flags (geom_flags ?h) @ ?box @ payload\<rparr>"
    using p(1) sz by (simp add: gserialized2_from_lwgeom_def Let_def)
  have lb: "length ?box = (if b then gbox_serialized_size (geom_flags geom) else 0)"
  proof (cases "geom_bbox ?h")
    case None
    then show ?thesis using b by simp
  next
    case (Some bb)
    then have "length (gserialized2_from_gbox env bb) = gbox_serialized_size (geom_flags ?h)"
      using hb by (intro from_gbox_length) (simp_all add: gbox_agrees_def)
    then show ?thesis using Some b
      by (simp add: fl gbox_serialized_size_def FLAGS_NDIMS_def)
  qed
  show ?thesis
    using enc ext lb fl p(1) harmonize_facts(2,3) [of env geom]
    by (intro exI [of _ "\<lparr>gs_size = gserialized2_from_lwgeom_size ?h,
             gs_srid = gserialized2_set_srid env (geom_srid ?h),
             gs_gflags = lwflags_get_g2flags (geom_flags ?h),
             gs_data = gserialized2_from_extended_flags (geom_flags ?h) @ ?box @ payload\<rparr>"]
           exI [of _ ?box] exI [of _ payload] exI [of _ b]) simp
qed


subsection \<open>The probe on a collection that holds an empty curve\<close>

lemma empty_curve_payload:
  "gserialized2_from_lwnurbscurve (lwnurbscurve_construct_empty 4326 False False)
     = Inr [16, 0, 0, 0, 0, 0, 0, 0, 1, 0, 0, 0, 0, 0, 0, 0, 0, 0, 0, 0]"
  by (simp add: gserialized2_from_lwnurbscurve_def lwnurbscurve_construct_empty_def
      ptarray_construct_empty_def lwflags_of_def u32_bytes_def upt_4 Let_def
      ptarray_point_size_def FLAGS_NDIMS_def getPoint_internal_def ordinate_bytes_def
      FLAGS_GET_ZM_def)

lemma point_1_2_payload:
  "gserialized2_from_lwpoint point_1_2
     = Inr [1, 0, 0, 0, 1, 0, 0, 0,
            0, 0, 0, 0, 0, 0, 0xF0, 0x3F, 0, 0, 0, 0, 0, 0, 0, 0x40]"
  by (simp add: gserialized2_from_lwpoint_def point_1_2_def lwpoint_construct_def
      flags_zero_def lwflags_of_def u32_bytes_def upt_4 upt_8 Let_def
      ptarray_point_size_def FLAGS_NDIMS_def getPoint_internal_def ordinate_bytes_def
      dbl_bytes_def d_one_def d_two_def drop_bit_eq_div FLAGS_GET_ZM_def)


lemma coll_payload:
  "gserialized2_from_lwgeom_any coll_empty_curve_and_point
     = Inr [7, 0, 0, 0, 2, 0, 0, 0,
            16, 0, 0, 0, 0, 0, 0, 0, 1, 0, 0, 0, 0, 0, 0, 0, 0, 0, 0, 0,
            1, 0, 0, 0, 1, 0, 0, 0,
            0, 0, 0, 0, 0, 0, 0xF0, 0x3F, 0, 0, 0, 0, 0, 0, 0, 0x40]"
  by (simp add: coll_empty_curve_and_point_def empty_curve_payload point_1_2_payload
      u32_bytes_def upt_4 FLAGS_GET_ZM_def)
     (simp add: flags_zero_def lwflags_of_def lwnurbscurve_construct_empty_def point_1_2_def
        lwpoint_construct_def)

lemma mem_read_append:
  "mem_read (pre @ buf) (length pre + k) n = mem_read buf k n"
  by (simp add: mem_read_def)

lemma get_int32_append:
  "get_int32 (pre @ buf) (length pre + k) = get_int32 buf k"
  by (simp add: get_int32_def mem_read_append)

lemma get_int32_append0:
  "get_int32 (pre @ buf) (length pre) = get_int32 buf 0"
  using get_int32_append [of pre buf 0] by simp

lemma coll_probe:
  fixes P :: "byte list"
  assumes "P = [7, 0, 0, 0, 2, 0, 0, 0,
            16, 0, 0, 0, 0, 0, 0, 0, 1, 0, 0, 0, 0, 0, 0, 0, 0, 0, 0, 0,
            1, 0, 0, 0, 1, 0, 0, 0,
            0, 0, 0, 0, 0, 0, 0xF0, 0x3F, 0, 0, 0, 0, 0, 0, 0, 0x40]"
  shows "gserialized2_is_empty_recurse (pre @ P) (length pre) = Inr (24, True)"
proof -
  have r: "get_int32 P 0 = Inr 7" "get_int32 P 4 = Inr 2"
    "get_int32 P 8 = Inr 16" "get_int32 P 12 = Inr 0"
    "get_int32 P 16 = Inr 1" "get_int32 P 20 = Inr 0"
    unfolding assms by (simp_all add: get_int32_def mem_read_def le_nat_simps)
  have c: "lwtype_code_is_collection 7" "\<not> lwtype_code_is_collection 16"
    "\<not> lwtype_code_is_collection 1"
    by (simp_all add: lwtype_code_is_collection_def lwtype_of_code_def all_lwtypes_def)
  have 1: "gserialized2_is_empty_recurse (pre @ P) (length pre + 8) = Inr (8, True)"
    using get_int32_append [of pre P 8] get_int32_append [of pre P 12]
    by (simp add: r c add.assoc)
  have 2: "gserialized2_is_empty_recurse (pre @ P) (length pre + 16) = Inr (8, True)"
    using get_int32_append [of pre P 16] get_int32_append [of pre P 20]
    by (simp add: r c add.assoc)
  have l2: "is_empty_loop (pre @ P) (length pre) 16 (Suc 0) = Inr (24, True)"
    by (simp add: 2 del: gserialized2_is_empty_recurse.simps)
  have l1: "is_empty_loop (pre @ P) (length pre) 8 (Suc (Suc 0)) = Inr (24, True)"
    using l2 by (simp add: 1 del: gserialized2_is_empty_recurse.simps)
  have n: "nat 2 = Suc (Suc 0)" by simp
  have g: "get_int32 (pre @ P) (length pre) = Inr 7"
    "get_int32 (pre @ P) (length pre + 4) = Inr 2"
    using get_int32_append0 [of pre P] get_int32_append [of pre P 4] by (simp_all add: r)
  have "gserialized2_is_empty_recurse (pre @ P) (length pre)
          = is_empty_loop (pre @ P) (length pre) 8 (nat 2)"
    by (subst gserialized2_is_empty_recurse.simps) (simp only: g sum.case c if_True)
  then show ?thesis by (simp only: n l1)
qed


lemma geometry_p_layout:
  assumes "gs_gflags g = lwflags_get_g2flags (f\<lparr>FLAGS_GET_BBOX := hb\<rparr>)"
    and "\<not> FLAGS_GET_SOLID f"
    and "length box = (if hb then gbox_serialized_size f else 0)"
  shows "gserialized2_get_geometry_p g = length box"
  using assms
  by (simp add: gserialized2_get_geometry_p_def gserialized2_has_extended_def
      gserialized2_has_bbox_def gserialized2_box_size_def lwflags_get_g2flags_def
      lwflags_uses_extended_flags_def gbox_serialized_size_def G2FLAGS_NDIMS_def
      FLAGS_NDIMS_def)

text \<open>
  C3. The code at the failing input: the collection of an empty NURBS curve and the point
  (1 2), which is valid and not empty. In every environment the encoder accepts it, and
  \<open>gserialized2_is_empty\<close> answers true on the result. The probe counts 8 bytes for every
  leaf, but the payload of an empty curve has 20 (type, npoints and the three further
  count words): after the curve the probe reads the curve's degree 1 as a type and its
  weight count 0 as a point count, finds that "member" empty, and never looks at the point.
\<close>

theorem is_empty_probe_skips_member_after_empty_curve:
  "\<exists>g. gserialized2_from_lwgeom env coll_empty_curve_and_point = Inr g
      \<and> gserialized2_is_empty g = Inr True
      \<and> lwgeom_valid coll_empty_curve_and_point
      \<and> \<not> lwgeom_is_empty coll_empty_curve_and_point"
proof -
  let ?c = coll_empty_curve_and_point
  have f: "geom_flags ?c = flags_zero" "geom_bbox ?c = None"
    by (simp_all add: coll_empty_curve_and_point_def)
  have v: "lwgeom_valid ?c"
    by (simp add: coll_empty_curve_and_point_def lwnurbscurve_construct_empty_def
        ptarray_construct_empty_def point_1_2_def lwpoint_construct_def ptarray_agrees_def
        ptarray_wf_def flags_zero_def lwflags_of_def FLAGS_NDIMS_def)
  have b: "gbox_agrees ?c" by (simp add: gbox_agrees_def f)
  have s: "\<not> FLAGS_GET_SOLID (geom_flags ?c)"
    by (simp add: f flags_zero_def lwflags_of_def)
  have ne: "\<not> lwgeom_is_empty ?c"
    by (simp add: coll_empty_curve_and_point_def point_1_2_def lwpoint_construct_def)
  from encode_layout [OF v b s, of env] obtain g box payload hb where
    g: "gserialized2_from_lwgeom env ?c = Inr g"
    and p: "gserialized2_from_lwgeom_any ?c = Inr payload"
    and d: "gs_data g = box @ payload"
    and gf: "gs_gflags g = lwflags_get_g2flags ((geom_flags ?c)\<lparr>FLAGS_GET_BBOX := hb\<rparr>)"
    and lb: "length box = (if hb then gbox_serialized_size (geom_flags ?c) else 0)"
    by blast
  have gp: "gserialized2_get_geometry_p g = length box"
    by (rule geometry_p_layout [OF gf s lb])
  have "gserialized2_is_empty_recurse (box @ payload) (length box) = Inr (24, True)"
    using p by (intro coll_probe) (simp add: coll_payload)
  then have "gserialized2_is_empty g = Inr True"
    by (simp add: gserialized2_is_empty_def d gp del: gserialized2_is_empty_recurse.simps)
  with g v ne show ?thesis by blast
qed

section \<open>Verified properties: GS2 round trip\<close>

subsection \<open>The type that the decoder writes back\<close>

text \<open>\<open>lwgeom_from_gserialized2\<close> reads the type with \<open>gserialized2_get_type\<close> and writes it
  into the decoded geometry. The payload offset of \<open>gserialized2_get_type\<close> is the
  \<open>data_ptr\<close> of the decoder, so that type is the one the decoder dispatched on.\<close>

lemma decoder_dispatches_on_header_type:
  assumes "gserialized2_get_lwflags g = Inr fl"
  shows "gserialized2_get_geometry_p g
           = (if G2FLAGS_GET_EXTENDED (gs_gflags g) then 8 else 0)
             + (if FLAGS_GET_BBOX fl then gbox_serialized_size fl else 0)"
  using assms
  by (auto simp: gserialized2_get_lwflags_def gserialized2_get_geometry_p_def
      gserialized2_has_extended_def gserialized2_has_bbox_def gserialized2_box_size_def
      gbox_serialized_size_def G2FLAGS_NDIMS_def FLAGS_NDIMS_def Let_def
      split: if_splits sum.splits)

subsection \<open>Decoding the payload of a curve\<close>

lemma upt_3: "[0..<3] = [0, 1, 2]" by (simp add: upt_rec)
lemma upt_6: "[0..<6] = [0, 1, 2, 3, 4, 5]" by (simp add: upt_rec)

lemma curve_s4_4326_payload:
  "gserialized2_from_lwnurbscurve curve_s4_4326 = Inr curve_s4_payload"
  by (simp add: gserialized2_from_lwnurbscurve_def curve_s4_4326_def ctrl_pts_s4_def
      curve_s4_payload_def
      flags_zero_def lwflags_of_def u32_bytes_def upt_4 upt_8 Let_def
      ptarray_point_size_def FLAGS_NDIMS_def getPoint_internal_def ordinate_bytes_def
      dbl_bytes_def d_zero_def d_one_def d_two_def drop_bit_eq_div FLAGS_GET_ZM_def)

lemma get_uint32_append:
  "gserialized2_get_uint32_t (pre @ buf) (length pre + k) = gserialized2_get_uint32_t buf k"
  by (simp add: gserialized2_get_uint32_t_def mem_read_append)

lemma get_uint32_append0:
  "gserialized2_get_uint32_t (pre @ buf) (length pre) = gserialized2_get_uint32_t buf 0"
  using get_uint32_append [of pre buf 0] by simp

lemma get_doubles_append:
  "get_doubles (pre @ buf) (length pre + k) n = get_doubles buf k n"
  by (simp add: get_doubles_def mem_read_append)

lemma curve_s4_payload_reads:
  "gserialized2_get_uint32_t curve_s4_payload 0 = Inr 16"
  "gserialized2_get_uint32_t curve_s4_payload 4 = Inr 3"
  "gserialized2_get_uint32_t curve_s4_payload 8 = Inr 2"
  "gserialized2_get_uint32_t curve_s4_payload 12 = Inr 3"
  "gserialized2_get_uint32_t curve_s4_payload 16 = Inr 6"
  by (simp_all add: gserialized2_get_uint32_t_def mem_read_def curve_s4_payload_def
      le_nat_simps)

lemma curve_s4_payload_weights:
  "get_doubles curve_s4_payload 20 3 = Inr [d_one, d_one, d_one]"
  by (simp add: get_doubles_def mem_read_def curve_s4_payload_def upt_3 le_nat_simps d_one_def)

lemma curve_s4_payload_knots:
  "get_doubles curve_s4_payload 44 6 = Inr [d_zero, d_zero, d_zero, d_one, d_one, d_one]"
  by (simp add: get_doubles_def mem_read_def curve_s4_payload_def upt_6 le_nat_simps
      d_one_def d_zero_def)

lemma curve_s4_payload_points:
  "get_doubles curve_s4_payload 92 6 = Inr [d_zero, d_zero, d_one, d_one, d_two, d_zero]"
  by (simp add: get_doubles_def mem_read_def curve_s4_payload_def upt_6 le_nat_simps
      d_one_def d_zero_def d_two_def)


lemma decode_curve_buffer:
  assumes "\<not> FLAGS_GET_Z fl" "\<not> FLAGS_GET_M fl"
  shows "lwnurbscurve_from_gserialized2_buffer (pre @ curve_s4_payload) (length pre) fl
     = Inr (\<lparr>nc_bbox = None, nc_flags = fl, nc_srid = SRID_UNKNOWN, nc_degree = 2,
             nc_points = Some ctrl_pts_s4,
             nc_weights = Some [d_one, d_one, d_one], nc_nweights = 3,
             nc_knots = Some [d_zero, d_zero, d_zero, d_one, d_one, d_one], nc_nknots = 6\<rparr>,
            140)"
proof -
  note u = get_uint32_append [of pre curve_s4_payload]
  note d = get_doubles_append [of pre curve_s4_payload]
  have n: "FLAGS_NDIMS fl = 2" "FLAGS_NDIMS (lwflags_of False False False) = 2"
    using assms by (simp_all add: FLAGS_NDIMS_def lwflags_of_def)
  have pa: "ptarray_construct_reference_data False False 3 (pre @ curve_s4_payload)
              (length pre + 92) = Inr ctrl_pts_s4"
    by (simp add: ptarray_construct_reference_data_def n d curve_s4_payload_points
        ctrl_pts_s4_def flags_zero_def)
  show ?thesis
    using assms
    by (simp add: lwnurbscurve_from_gserialized2_buffer_def bindE_def u d
        curve_s4_payload_reads curve_s4_payload_weights curve_s4_payload_knots pa n
        add.assoc)
qed

lemma decode_curve_any:
  assumes "\<not> FLAGS_GET_Z fl" "\<not> FLAGS_GET_M fl"
  shows "lwgeom_from_gserialized2_buffer (pre @ curve_s4_payload) (length pre) fl srid
     = Inr (Nurbs \<lparr>nc_bbox = None, nc_flags = fl, nc_srid = SRID_UNKNOWN, nc_degree = 2,
             nc_points = Some ctrl_pts_s4,
             nc_weights = Some [d_one, d_one, d_one], nc_nweights = 3,
             nc_knots = Some [d_zero, d_zero, d_zero, d_one, d_one, d_one], nc_nknots = 6\<rparr>,
            140)"
proof -
  have t: "gserialized2_get_uint32_t (pre @ curve_s4_payload) (length pre) = Inr 16"
    by (simp add: get_uint32_append0 curve_s4_payload_reads)
  have c: "lwtype_of_code 16 = Some NURBSCURVETYPE"
    by (simp add: lwtype_of_code_def all_lwtypes_def)
  show ?thesis
    by (subst lwgeom_from_gserialized2_buffer.simps)
       (simp add: t c decode_curve_buffer [OF assms]
          del: lwgeom_from_gserialized2_buffer.simps)
qed


lemma read_gbox_2d_returns:
  assumes "gs_gflags g = lwflags_get_g2flags (f\<lparr>FLAGS_GET_BBOX := hb\<rparr>)"
    and "\<not> FLAGS_GET_SOLID f" "\<not> FLAGS_GET_Z f" "\<not> FLAGS_GET_M f" "\<not> FLAGS_GET_GEODETIC f"
    and "hb \<longrightarrow> 16 \<le> length (gs_data g)"
  shows "\<exists>r. gserialized2_read_gbox_p env g b = Inr r"
proof (cases hb)
  case True
  then have "16 \<le> length (gs_data g)" using assms(6) by simp
  then have l: "4 \<le> length (gs_data g)" "8 \<le> length (gs_data g)"
    "12 \<le> length (gs_data g)" "16 \<le> length (gs_data g)" by simp_all
  show ?thesis
    using assms(1-5) l
    by (simp add: gserialized2_read_gbox_p_def gserialized2_get_lwflags_def
        gserialized2_has_extended_def lwflags_get_g2flags_def lwflags_uses_extended_flags_def
        Let_def bindE_def get_float_def mem_read_def)
next
  case False
  then show ?thesis
    using assms(1-5)
    by (simp add: gserialized2_read_gbox_p_def gserialized2_get_lwflags_def
        gserialized2_has_extended_def lwflags_get_g2flags_def lwflags_uses_extended_flags_def
        Let_def bindE_def)
qed

lemma get_lwflags_layout:
  assumes "gs_gflags g = lwflags_get_g2flags (f\<lparr>FLAGS_GET_BBOX := hb\<rparr>)"
    and "\<not> FLAGS_GET_SOLID f"
  shows "gserialized2_get_lwflags g = Inr (f\<lparr>FLAGS_GET_BBOX := hb\<rparr>)"
  using assms
  by (simp add: gserialized2_get_lwflags_def lwflags_get_g2flags_def
      lwflags_uses_extended_flags_def Let_def)

lemma decode_curve_s4:
  assumes gf: "gs_gflags g = lwflags_get_g2flags (flags_zero\<lparr>FLAGS_GET_BBOX := hb\<rparr>)"
    and d: "gs_data g = box @ curve_s4_payload"
    and lb: "length box = (if hb then gbox_serialized_size flags_zero else 0)"
  shows "\<exists>bb. lwgeom_from_gserialized2 env g
     = Inr (Nurbs \<lparr>nc_bbox = bb, nc_flags = flags_zero\<lparr>FLAGS_GET_BBOX := hb\<rparr>,
             nc_srid = SRID_UNKNOWN, nc_degree = 2,
             nc_points = Some ctrl_pts_s4,
             nc_weights = Some [d_one, d_one, d_one], nc_nweights = 3,
             nc_knots = Some [d_zero, d_zero, d_zero, d_one, d_one, d_one], nc_nknots = 6\<rparr>)"
proof -
  let ?fl = "flags_zero\<lparr>FLAGS_GET_BBOX := hb\<rparr>"
  let ?c = "\<lambda>bb. \<lparr>nc_bbox = bb, nc_flags = ?fl,
             nc_srid = SRID_UNKNOWN, nc_degree = 2,
             nc_points = Some ctrl_pts_s4,
             nc_weights = Some [d_one, d_one, d_one], nc_nweights = 3,
             nc_knots = Some [d_zero, d_zero, d_zero, d_one, d_one, d_one], nc_nknots = 6\<rparr>"
  have z: "\<not> FLAGS_GET_SOLID flags_zero" "\<not> FLAGS_GET_Z flags_zero" "\<not> FLAGS_GET_M flags_zero"
    "\<not> FLAGS_GET_GEODETIC flags_zero"
    by (simp_all add: flags_zero_def lwflags_of_def)
  have z': "\<not> FLAGS_GET_Z ?fl" "\<not> FLAGS_GET_M ?fl" using z by simp_all
  have gp: "gserialized2_get_geometry_p g = length box"
    by (rule geometry_p_layout [OF gf z(1) lb])
  have t: "gserialized2_get_type g = Inr 16"
    by (simp add: gserialized2_get_type_def gp d get_uint32_append0 curve_s4_payload_reads)
  have fl: "gserialized2_get_lwflags g = Inr ?fl"
    by (rule get_lwflags_layout [OF gf z(1)])
  have ex: "\<not> G2FLAGS_GET_EXTENDED (gs_gflags g)"
    using z by (simp add: gf lwflags_get_g2flags_def lwflags_uses_extended_flags_def)
  have dp: "(if G2FLAGS_GET_EXTENDED (gs_gflags g) then 8 else 0)
            + (if FLAGS_GET_BBOX ?fl then gbox_serialized_size ?fl else 0) = length box"
    using ex z by (simp add: lb gbox_serialized_size_def FLAGS_NDIMS_def)
  have buf: "lwgeom_from_gserialized2_buffer (gs_data g) (length box) ?fl
               (gserialized2_get_srid g) = Inr (Nurbs (?c None), 140)"
    unfolding d by (rule decode_curve_any [OF z'])
  have "hb \<longrightarrow> 16 \<le> length (gs_data g)"
    using z by (simp add: d lb gbox_serialized_size_def FLAGS_NDIMS_def)
  from read_gbox_2d_returns [OF gf z this, of env "stack_gbox env"]
  obtain r where r: "gserialized2_read_gbox_p env g (stack_gbox env) = Inr r" by blast
  have "lwgeom_from_gserialized2 env g = Inr (Nurbs (?c r))
      \<or> (\<exists>bb. lwgeom_from_gserialized2 env g = Inr (Nurbs (?c bb)))"
    unfolding lwgeom_from_gserialized2_def Let_def
    by (simp only: t fl bindE_def sum.case dp buf prod.case r set_geom_flags.simps)
       (auto split: option.splits)
  then show ?thesis by blast
qed


lemma bindE_Inr: "bindE m f = Inr y \<longleftrightarrow> (\<exists>x. m = Inr x \<and> f x = Inr y)"
  by (cases m) (simp_all add: bindE_def)

lemma nurbs_buffer_srid:
  "lwnurbscurve_from_gserialized2_buffer buf p fl = Inr (c, sz) \<Longrightarrow> nc_srid c = SRID_UNKNOWN"
  by (auto simp: lwnurbscurve_from_gserialized2_buffer_def bindE_Inr Let_def
      split: if_splits prod.splits)

lemma any_buffer_curve_srid:
  "lwgeom_from_gserialized2_buffer buf p fl s = Inr (Nurbs c, sz) \<Longrightarrow> nc_srid c = SRID_UNKNOWN"
  by (subst (asm) lwgeom_from_gserialized2_buffer.simps)
     (auto simp del: lwgeom_from_gserialized2_buffer.simps
        dest: nurbs_buffer_srid split: sum.splits option.splits if_splits prod.splits)

lemma set_flags_Nurbs: "set_geom_flags f g = Nurbs c \<Longrightarrow> \<exists>c0. g = Nurbs c0 \<and> nc_srid c0 = nc_srid c"
  by (cases g) auto

lemma set_bbox_Nurbs: "set_geom_bbox b g = Nurbs c \<Longrightarrow> \<exists>c0. g = Nurbs c0 \<and> nc_srid c0 = nc_srid c"
  by (cases g) auto

lemma set_both_Nurbs:
  "set_geom_bbox bb (set_geom_flags fl a) = Nurbs c \<Longrightarrow> \<exists>c0. a = Nurbs c0 \<and> nc_srid c0 = nc_srid c"
  by (cases a) auto

lemma decoded_curve_srid:
  assumes "lwgeom_from_gserialized2 env g = Inr (Nurbs c)"
  shows "nc_srid c = SRID_UNKNOWN"
  using assms unfolding lwgeom_from_gserialized2_def Let_def bindE_def
  by (auto simp del: lwgeom_from_gserialized2_buffer.simps
      split: sum.splits prod.splits option.splits if_splits
      dest!: set_both_Nurbs dest: any_buffer_curve_srid)

text \<open>
  C1. The code at the failing input: the valid curve of degree 2 with SRID 4326, three
  control points, three weights and six knots. In every environment the encoder accepts it
  and stores the SRID in the header, and \<open>lwgeom_from_gserialized2\<close> decodes the result to a
  curve with the same degree, control points, weights and knots, but with the SRID
  \<open>SRID_UNKNOWN\<close>: \<open>lwnurbscurve_from_gserialized2_buffer\<close> is not given the SRID of the
  header, and \<open>lwgeom_from_gserialized2\<close> writes back only the type and the flags. By
  \<open>decoded_curve_srid\<close> this is so for every curve that the decoder returns.
\<close>

theorem nurbs_round_trip_loses_srid:
  "\<exists>g c. gserialized2_from_lwgeom env (Nurbs curve_s4_4326) = Inr g
      \<and> gs_srid g = gserialized2_set_srid env 4326
      \<and> lwgeom_from_gserialized2 env g = Inr (Nurbs c)
      \<and> nc_degree c = nc_degree curve_s4_4326
      \<and> nc_points c = nc_points curve_s4_4326
      \<and> nc_nweights c = nc_nweights curve_s4_4326
      \<and> nc_weights c = nc_weights curve_s4_4326
      \<and> nc_nknots c = nc_nknots curve_s4_4326
      \<and> nc_knots c = nc_knots curve_s4_4326
      \<and> nc_srid c = SRID_UNKNOWN
      \<and> nc_srid curve_s4_4326 = 4326
      \<and> nc_srid c \<noteq> nc_srid curve_s4_4326
      \<and> lwgeom_valid (Nurbs curve_s4_4326)"
proof -
  let ?n = "Nurbs curve_s4_4326"
  have f: "geom_flags ?n = flags_zero" "geom_bbox ?n = None" "geom_srid ?n = 4326"
    by (simp_all add: curve_s4_4326_def)
  have v: "lwgeom_valid ?n"
    by (simp add: curve_s4_4326_def ctrl_pts_s4_def ptarray_agrees_def ptarray_wf_def
        flags_zero_def lwflags_of_def FLAGS_NDIMS_def)
  have b: "gbox_agrees ?n" by (simp add: gbox_agrees_def curve_s4_4326_def)
  have s: "\<not> FLAGS_GET_SOLID (geom_flags ?n)"
    by (simp add: curve_s4_4326_def flags_zero_def lwflags_of_def)
  from encode_layout [OF v b s, of env] obtain g box payload hb where
    g: "gserialized2_from_lwgeom env ?n = Inr g"
    and p: "gserialized2_from_lwgeom_any ?n = Inr payload"
    and d: "gs_data g = box @ payload"
    and gf: "gs_gflags g = lwflags_get_g2flags ((geom_flags ?n)\<lparr>FLAGS_GET_BBOX := hb\<rparr>)"
    and lb: "length box = (if hb then gbox_serialized_size (geom_flags ?n) else 0)"
    and sr: "gs_srid g = gserialized2_set_srid env (geom_srid ?n)"
    by blast
  have pl: "payload = curve_s4_payload" using p by (simp add: curve_s4_4326_payload)
  from decode_curve_s4 [of g hb box env] gf d lb obtain bb where
    dec: "lwgeom_from_gserialized2 env g
     = Inr (Nurbs \<lparr>nc_bbox = bb, nc_flags = flags_zero\<lparr>FLAGS_GET_BBOX := hb\<rparr>,
             nc_srid = SRID_UNKNOWN, nc_degree = 2,
             nc_points = Some ctrl_pts_s4,
             nc_weights = Some [d_one, d_one, d_one], nc_nweights = 3,
             nc_knots = Some [d_zero, d_zero, d_zero, d_one, d_one, d_one], nc_nknots = 6\<rparr>)"
    unfolding f pl by blast
  show ?thesis
    using g sr v
    by (intro exI [of _ g] exI [of _ "\<lparr>nc_bbox = bb, nc_flags = flags_zero\<lparr>FLAGS_GET_BBOX := hb\<rparr>,
             nc_srid = SRID_UNKNOWN, nc_degree = 2,
             nc_points = Some ctrl_pts_s4,
             nc_weights = Some [d_one, d_one, d_one], nc_nweights = 3,
             nc_knots = Some [d_zero, d_zero, d_zero, d_one, d_one, d_one], nc_nknots = 6\<rparr>"])
       (simp add: dec f curve_s4_4326_def SRID_UNKNOWN_def)
qed

section \<open>Verified properties: SQL interface\<close>

text \<open>The GS2 decoder on the serialized line of S3 returns that line.\<close>

lemma as_nurbs_other: "geom_type geom \<noteq> NURBSCURVETYPE \<Longrightarrow> as_nurbs (Some geom) = None"
  by (cases geom) simp_all

lemma decode_line_s3:
  "lwgeom_from_gserialized2 lwenv_sample line_s3_serialized_form = Inr (Line line_s3)"
proof -
  let ?g = line_s3_serialized_form
  have f: "G2FLAGS_GET_Z (gs_gflags ?g) = False" "G2FLAGS_GET_M (gs_gflags ?g) = False"
    "G2FLAGS_GET_BBOX (gs_gflags ?g) = False" "G2FLAGS_GET_GEODETIC (gs_gflags ?g) = False"
    "G2FLAGS_GET_EXTENDED (gs_gflags ?g) = False"
    by (simp_all add: line_s3_serialized_form_def lwflags_get_g2flags_def flags_zero_def
        lwflags_of_def lwflags_uses_extended_flags_def)
  have p: "gserialized2_get_geometry_p ?g = 0"
    by (simp add: gserialized2_get_geometry_p_def gserialized2_has_extended_def
        gserialized2_has_bbox_def f)
  have fl: "gserialized2_get_lwflags ?g = Inr flags_zero"
    by (simp add: gserialized2_get_lwflags_def f flags_zero_def lwflags_of_def)
  have d: "gs_data ?g = [2, 0, 0, 0, 2, 0, 0, 0,
                 0, 0, 0, 0, 0, 0, 0, 0, 0, 0, 0, 0, 0, 0, 0, 0,
                 0, 0, 0, 0, 0, 0, 0x24, 0x40, 0, 0, 0, 0, 0, 0, 0x14, 0x40]"
    by (simp add: line_s3_serialized_form_def)
  note r = line_s3_reads [OF d]
  have t: "gserialized2_get_type ?g = Inr 2"
    by (simp add: gserialized2_get_type_def p r)
  have s: "gserialized2_get_srid ?g = SRID_UNKNOWN"
    by (simp add: gserialized2_get_srid_def line_s3_serialized_form_def SRID_UNKNOWN_def)
  have np: "gserialized2_get_uint32_t (gs_data ?g) 4 = Inr 2"
    unfolding d by (simp add: gserialized2_get_uint32_t_def mem_read_def le_nat_simps)
  have ds: "get_doubles (gs_data ?g) 8 4 = Inr [d_zero, d_zero, d_ten, d_five]"
    unfolding d
    by (simp add: get_doubles_def mem_read_def upt_4 le_nat_simps d_zero_def d_ten_def
        d_five_def)
  have n: "FLAGS_NDIMS flags_zero = 2" "FLAGS_GET_Z flags_zero = False"
    "FLAGS_GET_M flags_zero = False" "FLAGS_GET_BBOX flags_zero = False"
    by (simp_all add: FLAGS_NDIMS_def flags_zero_def lwflags_of_def)
  have n': "FLAGS_NDIMS (lwflags_of False False False) = 2"
    by (simp add: FLAGS_NDIMS_def lwflags_of_def)
  have pa: "ptarray_construct_reference_data False False 2 (gs_data ?g) 8
              = Inr (points line_s3)"
    by (simp add: ptarray_construct_reference_data_def n' ds line_s3_def flags_zero_def)
  have l: "lwline_from_gserialized2_buffer (gs_data ?g) 0 flags_zero SRID_UNKNOWN
             = Inr (line_s3, 40)"
    by (simp add: lwline_from_gserialized2_buffer_def bindE_def np n pa)
       (simp add: line_s3_def)
  have c: "lwtype_of_code 2 = Some LINETYPE"
    by (simp add: lwtype_of_code_def all_lwtypes_def)
  have b: "lwgeom_from_gserialized2_buffer (gs_data ?g) 0 flags_zero SRID_UNKNOWN
             = Inr (Line line_s3, 40)"
    by (subst lwgeom_from_gserialized2_buffer.simps)
       (simp add: r c l del: lwgeom_from_gserialized2_buffer.simps)
  have rb: "gserialized2_read_gbox_p lwenv_sample ?g (stack_gbox lwenv_sample) = Inr None"
    by (simp add: gserialized2_read_gbox_p_def Let_def fl bindE_def f)
  show ?thesis
    by (simp add: lwgeom_from_gserialized2_def Let_def s t fl bindE_def f n b rb
        del: lwgeom_from_gserialized2_buffer.simps)
       (simp add: lwenv_sample_def line_s3_def)
qed

text \<open>
  C10. The asymmetry of the error channel. For an argument that is not SQL \<open>NULL\<close> and
  that deserializes to a geometry which is not a NURBS curve, \<open>ST_NurbsCurveIsValid\<close>
  returns false, while \<open>ST_NurbsCurveDegree\<close>, \<open>ST_NurbsCurveWeights\<close>,
  \<open>ST_NurbsCurveKnots\<close>, \<open>ST_NurbsCurveControlPoints\<close>, \<open>ST_NurbsCurveNumControlPoints\<close>
  and \<open>ST_NurbsCurveIsRational\<close> raise \<open>ERRCODE_INVALID_PARAMETER_VALUE\<close> with the message
  "Input must be a NURBS curve".
\<close>

theorem sql_not_a_curve_asymmetry:
  assumes "lwgeom_from_gserialized env gs = Inr (Some geom)"
    and "geom_type geom \<noteq> NURBSCURVETYPE"
  shows "ST_NurbsCurveIsValid env (Some gs) = Inr (PG_VALUE False)
    \<and> ST_NurbsCurveDegree env (Some gs)
        = Inl (ERRCODE_INVALID_PARAMETER_VALUE, ''Input must be a NURBS curve'')
    \<and> ST_NurbsCurveWeights env (Some gs)
        = Inl (ERRCODE_INVALID_PARAMETER_VALUE, ''Input must be a NURBS curve'')
    \<and> ST_NurbsCurveKnots env (Some gs)
        = Inl (ERRCODE_INVALID_PARAMETER_VALUE, ''Input must be a NURBS curve'')
    \<and> ST_NurbsCurveControlPoints env (Some gs)
        = Inl (ERRCODE_INVALID_PARAMETER_VALUE, ''Input must be a NURBS curve'')
    \<and> ST_NurbsCurveNumControlPoints env (Some gs)
        = Inl (ERRCODE_INVALID_PARAMETER_VALUE, ''Input must be a NURBS curve'')
    \<and> ST_NurbsCurveIsRational env (Some gs)
        = Inl (ERRCODE_INVALID_PARAMETER_VALUE, ''Input must be a NURBS curve'')"
  using assms(1) as_nurbs_other [OF assms(2)]
  by (simp add: ST_NurbsCurveIsValid_def ST_NurbsCurveDegree_def ST_NurbsCurveWeights_def
      ST_NurbsCurveKnots_def ST_NurbsCurveControlPoints_def ST_NurbsCurveNumControlPoints_def
      ST_NurbsCurveIsRational_def bindE_def not_a_curve_def)

theorem sql_not_a_curve_asymmetry_witness:
  "ST_NurbsCurveIsValid pgenv_sample (Some line_s3_serialized_form) = Inr (PG_VALUE False)
   \<and> ST_NurbsCurveDegree pgenv_sample (Some line_s3_serialized_form)
        = Inl (ERRCODE_INVALID_PARAMETER_VALUE, ''Input must be a NURBS curve'')
   \<and> ST_NurbsCurveWeights pgenv_sample (Some line_s3_serialized_form)
        = Inl (ERRCODE_INVALID_PARAMETER_VALUE, ''Input must be a NURBS curve'')
   \<and> ST_NurbsCurveKnots pgenv_sample (Some line_s3_serialized_form)
        = Inl (ERRCODE_INVALID_PARAMETER_VALUE, ''Input must be a NURBS curve'')
   \<and> ST_NurbsCurveControlPoints pgenv_sample (Some line_s3_serialized_form)
        = Inl (ERRCODE_INVALID_PARAMETER_VALUE, ''Input must be a NURBS curve'')
   \<and> ST_NurbsCurveNumControlPoints pgenv_sample (Some line_s3_serialized_form)
        = Inl (ERRCODE_INVALID_PARAMETER_VALUE, ''Input must be a NURBS curve'')
   \<and> ST_NurbsCurveIsRational pgenv_sample (Some line_s3_serialized_form)
        = Inl (ERRCODE_INVALID_PARAMETER_VALUE, ''Input must be a NURBS curve'')"
proof -
  have 1: "lwgeom_from_gserialized pgenv_sample line_s3_serialized_form
             = Inr (Some (Line line_s3))"
    by (simp add: pgenv_sample_def decode_line_s3)
  have 2: "geom_type (Line line_s3) \<noteq> NURBSCURVETYPE" by simp
  from sql_not_a_curve_asymmetry [OF 1 2] show ?thesis by blast
qed

end
